theory Spec2Isabelle
  imports Complex_Main "HOL-Library.Multiset"
begin

section \<open>Data model of the route service\<close>

text \<open>
  The route service (\<^verbatim>\<open>frontend/src/services/api.js\<close>, second module) works on plain
  JavaScript objects. Numbers are IEEE doubles in the source. Here a number is a real or
  \<^verbatim>\<open>NaN\<close>: the rounding of finite results is outside the model, but \<^verbatim>\<open>NaN\<close>, which the
  distance computation can produce and which then spreads through every sum, is part of it.
  A property that is absent from an
  object (\<^verbatim>\<open>undefined\<close>) is \<open>None\<close>; reading a property or an index of
  \<^verbatim>\<open>undefined\<close> throws a \<^verbatim>\<open>TypeError\<close>, which is the only exception the
  service can raise. Calls of \<^verbatim>\<open>console.log\<close> are left out.
\<close>

type_synonym coord = "real \<times> real"

datatype error = TypeError

subsection \<open>Numbers\<close>

datatype jsnum = NaN | Num real

text \<open>\<^verbatim>\<open>x + y\<close>.\<close>

fun js_add :: "jsnum \<Rightarrow> jsnum \<Rightarrow> jsnum" where
  "js_add (Num x) (Num y) = Num (x + y)"
| "js_add _ _ = NaN"

text \<open>\<^verbatim>\<open>x / y\<close> for a divisor that is a constant of the source, never zero.\<close>

fun js_div :: "jsnum \<Rightarrow> real \<Rightarrow> jsnum" where
  "js_div (Num x) y = Num (x / y)"
| "js_div NaN y = NaN"

text \<open>
  \<^verbatim>\<open>Math.ceil\<close>, \<^verbatim>\<open>Math.round\<close> (halves are rounded upwards, as \<^const>\<open>round\<close> does)
  and \<^verbatim>\<open>Math.max\<close>, which is \<^verbatim>\<open>NaN\<close> as soon as one argument is.
\<close>

fun js_ceil :: "jsnum \<Rightarrow> jsnum" where
  "js_ceil (Num x) = Num (of_int \<lceil>x\<rceil>)"
| "js_ceil NaN = NaN"

fun js_round :: "jsnum \<Rightarrow> jsnum" where
  "js_round (Num x) = Num (of_int (round x))"
| "js_round NaN = NaN"

fun js_max :: "jsnum \<Rightarrow> jsnum \<Rightarrow> jsnum" where
  "js_max (Num x) (Num y) = Num (max x y)"
| "js_max _ _ = NaN"

text \<open>Comparisons: every comparison with \<^verbatim>\<open>NaN\<close> is false.\<close>

fun js_le :: "jsnum \<Rightarrow> real \<Rightarrow> bool" where
  "js_le (Num x) y = (x \<le> y)"
| "js_le NaN y = False"

fun js_gt :: "jsnum \<Rightarrow> real \<Rightarrow> bool" where
  "js_gt (Num x) y = (x > y)"
| "js_gt NaN y = False"

fun js_lt :: "jsnum \<Rightarrow> jsnum \<Rightarrow> bool" where
  "js_lt (Num x) (Num y) = (x < y)"
| "js_lt _ _ = False"

fun js_val :: "jsnum \<Rightarrow> real" where
  "js_val (Num x) = x"
| "js_val NaN = 0"

text \<open>
  \<^verbatim>\<open>xs.sort((a, b) => key(a) - key(b))\<close>: the sort is stable and puts \<open>b\<close> before an
  earlier \<open>a\<close> only when the comparator is negative, that is when \<open>key(b) < key(a)\<close>.
  With a \<^verbatim>\<open>NaN\<close> key the comparator is inconsistent and the order of arrays longer than two
  depends on the engine; the service sorts distances after the filter has removed every
  \<^verbatim>\<open>NaN\<close>, and an array of at most two routes.
\<close>

fun js_insort :: "('a \<Rightarrow> jsnum) \<Rightarrow> 'a \<Rightarrow> 'a list \<Rightarrow> 'a list" where
  "js_insort key x [] = [x]"
| "js_insort key x (y # ys) =
     (if js_lt (key y) (key x) then y # js_insort key x ys else x # y # ys)"

definition js_sort :: "('a \<Rightarrow> jsnum) \<Rightarrow> 'a list \<Rightarrow> 'a list" where
  "js_sort key xs = foldr (js_insort key) xs []"

text \<open>An origin or destination: \<^verbatim>\<open>{ name, coordinates }\<close>.\<close>

record endpoint =
  loc_name :: string
  loc_coordinates :: "coord option"

text \<open>A catalog entry: \<^verbatim>\<open>{ id, name, coordinates, type, accessibility, lines }\<close>.\<close>

record stop =
  stop_id :: string
  stop_name :: string
  coordinates :: "coord option"
  stop_type :: "string option"
  accessibility :: bool
  lines :: "string list option"

text \<open>The copy \<^verbatim>\<open>{ ...stop, distance }\<close> made by \<^verbatim>\<open>findNearbyStops\<close>.\<close>

record nearStop = stop +
  distance :: jsnum

text \<open>
  A segment refers to stop objects: an annotated copy, a catalog entry (the transfer
  terminal) or the synthetic stop of the example route (a stop without type and lines).
\<close>

datatype parada = NearParada nearStop | StopParada stop

fun parada_coordinates :: "parada \<Rightarrow> coord option" where
  "parada_coordinates (NearParada s) = coordinates s"
| "parada_coordinates (StopParada s) = coordinates s"

record caminhada =
  distancia :: jsnum
  tempo_caminhada :: jsnum

record segmento =
  linha :: string
  paradaOrigem :: parada
  paradaDestino :: parada
  tempo :: jsnum
  paradas :: jsnum
  caminhadaInicial :: "caminhada option"
  caminhadaFinal :: "caminhada option"

record route =
  route_id :: "string option"
  origem :: endpoint
  destino :: endpoint
  tempo_total :: jsnum
  distancia_total :: jsnum
  transferencias :: nat
  custo_total :: real
  acessibilidade :: bool
  segmentos :: "segmento list"
  observacoes :: "string list"

section \<open>Distance\<close>

text \<open>
  \<^verbatim>\<open>Math.atan2(y, x)\<close> as ECMAScript defines it on finite arguments: the angle of the
  point \<open>(x, y)\<close> in \<open>(-\<pi>, \<pi>]\<close>.
\<close>

definition atan2 :: "real \<Rightarrow> real \<Rightarrow> real" where
  "atan2 y x =
     (if 0 < x then arctan (y / x)
      else if x < 0 then (if 0 \<le> y then arctan (y / x) + pi else arctan (y / x) - pi)
      else if 0 < y then pi / 2
      else if y < 0 then - (pi / 2)
      else 0)"

text \<open>
  The body of \<^verbatim>\<open>calculateDistance\<close> on two coordinate arrays \<^verbatim>\<open>[lat, lng]\<close>, in exact
  arithmetic: first the sum \<open>a\<close>, then the distance.
\<close>

definition haversine_a :: "coord \<Rightarrow> coord \<Rightarrow> real" where
  "haversine_a coord1 coord2 =
     (let phi1 = fst coord1 * pi / 180;
          phi2 = fst coord2 * pi / 180;
          dphi = (fst coord2 - fst coord1) * pi / 180;
          dlambda = (snd coord2 - snd coord1) * pi / 180
      in sin (dphi / 2) * sin (dphi / 2) +
         cos phi1 * cos phi2 * sin (dlambda / 2) * sin (dlambda / 2))"

definition haversine :: "coord \<Rightarrow> coord \<Rightarrow> real" where
  "haversine coord1 coord2 =
     (let R = 6371000;
          a = haversine_a coord1 coord2;
          c = 2 * atan2 (sqrt a) (sqrt (1 - a))
      in R * c)"

text \<open>
  In exact arithmetic \<open>a\<close> lies between 0 and 1. In doubles the sum can round to a value
  above 1 when its exact value is within rounding error of 1, as for two antipodal points;
  and for a latitude beyond 90 degrees the product of the cosines can be negative, so that
  the sum can round to a value below 0. Then \<^verbatim>\<open>Math.sqrt\<close> of a negative number,
  \<^verbatim>\<open>Math.atan2\<close> of it and the distance are \<^verbatim>\<open>NaN\<close>. Which coordinates are hit depends
  on the last bits that the engine's \<^verbatim>\<open>Math.sin\<close> and \<^verbatim>\<open>Math.cos\<close> return, so the model
  takes it as a parameter: \<open>fpu coord1 coord2\<close> says that the doubles give an \<open>a\<close> outside
  the interval from 0 to 1 for these two arrays. A rounding error is a few units in the
  sixteenth decimal place; and for latitudes of at most 90 degrees, as for equal
  longitudes, no summand is negative in doubles either. So the parameter is only consulted
  when the exact \<open>a\<close> exceeds one half, or when a latitude is out of range and the longitudes
  differ.
\<close>

type_synonym fpu = "coord \<Rightarrow> coord \<Rightarrow> bool"

definition haversine_js :: "fpu \<Rightarrow> coord \<Rightarrow> coord \<Rightarrow> jsnum" where
  "haversine_js fpu coord1 coord2 =
     (if (1 / 2 < haversine_a coord1 coord2 \<or>
          (\<not> (\<bar>fst coord1\<bar> \<le> 90 \<and> \<bar>fst coord2\<bar> \<le> 90) \<and> snd coord1 \<noteq> snd coord2)) \<and>
         fpu coord1 coord2
      then NaN
      else Num (haversine coord1 coord2))"

text \<open>\<^verbatim>\<open>coord1[0]\<close> throws when the array is missing.\<close>

definition calculateDistance :: "fpu \<Rightarrow> coord option \<Rightarrow> coord option \<Rightarrow> error + jsnum" where
  "calculateDistance fpu coord1 coord2 =
     (case coord1 of
        None \<Rightarrow> Inl TypeError
      | Some c1 \<Rightarrow>
          (case coord2 of None \<Rightarrow> Inl TypeError | Some c2 \<Rightarrow> Inr (haversine_js fpu c1 c2)))"

section \<open>Nearby stops\<close>

definition withDistance :: "stop \<Rightarrow> jsnum \<Rightarrow> nearStop" where
  "withDistance s d =
     \<lparr> stop_id = stop_id s, stop_name = stop_name s, coordinates = coordinates s,
       stop_type = stop_type s, accessibility = accessibility s, lines = lines s,
       distance = d \<rparr>"

text \<open>
  \<^verbatim>\<open>busStops.map(stop => ({...stop, distance: calculateDistance(coordinates, stop.coordinates)}))\<close>:
  the first stop whose distance cannot be computed aborts the whole map.
\<close>

fun mapDistance :: "fpu \<Rightarrow> coord option \<Rightarrow> stop list \<Rightarrow> error + nearStop list" where
  "mapDistance fpu c [] = Inr []"
| "mapDistance fpu c (s # ss) =
     (case calculateDistance fpu c (coordinates s) of
        Inl e \<Rightarrow> Inl e
      | Inr d \<Rightarrow> (case mapDistance fpu c ss of
                    Inl e \<Rightarrow> Inl e
                  | Inr r \<Rightarrow> Inr (withDistance s d # r)))"

text \<open>
  \<^verbatim>\<open>xs.slice(0, limit)\<close> for an integer \<open>limit\<close>: a negative \<open>limit\<close> counts from the
  end of the array.
\<close>

definition slice0 :: "int \<Rightarrow> 'a list \<Rightarrow> 'a list" where
  "slice0 limit xs =
     (if 0 \<le> limit then take (nat limit) xs else take (length xs - nat (- limit)) xs)"

text \<open>
  \<^verbatim>\<open>.filter(stop => stop.distance <= maxDistance).sort((a, b) => a.distance - b.distance).slice(0, limit)\<close>.
\<close>

definition findNearbyStops ::
  "fpu \<Rightarrow> coord option \<Rightarrow> stop list \<Rightarrow> real \<Rightarrow> int \<Rightarrow> error + nearStop list" where
  "findNearbyStops fpu coords busStops maxDistance limit =
     (case mapDistance fpu coords busStops of
        Inl e \<Rightarrow> Inl e
      | Inr stopsWithDistance \<Rightarrow>
          Inr (slice0 limit
                 (js_sort distance
                    (filter (\<lambda>s. js_le (distance s) maxDistance) stopsWithDistance))))"

section \<open>Connecting lines and time estimates\<close>

text \<open>
  \<^verbatim>\<open>originStop.lines.filter(line => destinationStop.lines.includes(line))\<close>; the
  destination's list is only read when the origin's list has an element. Without a common
  line the function answers with the demonstration line \<^verbatim>\<open>'0.999'\<close>.
\<close>

definition findConnectingLines ::
  "('a stop_scheme) \<Rightarrow> ('b stop_scheme) \<Rightarrow> error + string list" where
  "findConnectingLines originStop destinationStop =
     (case lines originStop of
        None \<Rightarrow> Inl TypeError
      | Some ol \<Rightarrow>
          if ol = [] then Inr [''0.999'']
          else (case lines destinationStop of
                  None \<Rightarrow> Inl TypeError
                | Some dl \<Rightarrow>
                    (let commonLines = filter (\<lambda>line. line \<in> set dl) ol
                     in if length commonLines = 0 then Inr [''0.999''] else Inr commonLines)))"

definition calculateWalkingTime :: "jsnum \<Rightarrow> real \<Rightarrow> jsnum" where
  "calculateWalkingTime d walkingSpeed = js_ceil (js_div d walkingSpeed)"

definition calculateBusTime :: "jsnum \<Rightarrow> real \<Rightarrow> jsnum" where
  "calculateBusTime d busSpeed = js_ceil (js_div d busSpeed)"

definition estimateStopCount ::
  "fpu \<Rightarrow> ('a stop_scheme) \<Rightarrow> ('b stop_scheme) \<Rightarrow> error + jsnum" where
  "estimateStopCount fpu originStop destinationStop =
     (case calculateDistance fpu (coordinates originStop) (coordinates destinationStop) of
        Inl e \<Rightarrow> Inl e
      | Inr d \<Rightarrow> Inr (js_max (Num 2) (js_round (js_div d 500))))"

section \<open>Route builders\<close>

text \<open>
  The body of the two nested loops of \<^verbatim>\<open>calculateDirectRoute\<close>, run for the first
  pair of stops whose list of connecting lines has an element.
\<close>

definition directRouteFor ::
  "fpu \<Rightarrow> endpoint \<Rightarrow> endpoint \<Rightarrow> nearStop \<Rightarrow> nearStop \<Rightarrow> string list
     \<Rightarrow> error + route" where
  "directRouteFor fpu originLocation destinationLocation originStop destinationStop
       connectingLines =
     (case calculateDistance fpu (coordinates originStop) (coordinates destinationStop) of
        Inl e \<Rightarrow> Inl e
      | Inr busDistance \<Rightarrow>
          (let walkToStopDistance = distance originStop;
               walkFromStopDistance = distance destinationStop;
               walkToStopTime = calculateWalkingTime walkToStopDistance 80;
               busTime = calculateBusTime busDistance 300;
               walkFromStopTime = calculateWalkingTime walkFromStopDistance 80;
               waitTime = Num (if stop_type originStop = Some ''main'' then 8 else 12);
               totalTime = js_add (js_add (js_add walkToStopTime busTime) walkFromStopTime)
                             waitTime;
               totalDistance = js_add (js_add walkToStopDistance busDistance)
                                 walkFromStopDistance
           in (case estimateStopCount fpu originStop destinationStop of
                 Inl e \<Rightarrow> Inl e
               | Inr stopCount \<Rightarrow>
                   Inr \<lparr> route_id = None,
                         origem = originLocation,
                         destino = destinationLocation,
                         tempo_total = totalTime,
                         distancia_total = totalDistance,
                         transferencias = 0,
                         custo_total = 4.50,
                         acessibilidade = (accessibility originStop \<and> accessibility destinationStop),
                         segmentos =
                           [\<lparr> linha = hd connectingLines,
                              paradaOrigem = NearParada originStop,
                              paradaDestino = NearParada destinationStop,
                              tempo = busTime,
                              paradas = stopCount,
                              caminhadaInicial =
                                (if js_gt walkToStopDistance 50
                                 then Some \<lparr> distancia = walkToStopDistance,
                                             tempo_caminhada = walkToStopTime \<rparr>
                                 else None),
                              caminhadaFinal =
                                (if js_gt walkFromStopDistance 50
                                 then Some \<lparr> distancia = walkFromStopDistance,
                                             tempo_caminhada = walkFromStopTime \<rparr>
                                 else None) \<rparr>],
                         observacoes = [] \<rparr>)))"

text \<open>The inner loop over the stops near the destination, for one stop near the origin.\<close>

fun directInner ::
  "fpu \<Rightarrow> endpoint \<Rightarrow> endpoint \<Rightarrow> nearStop \<Rightarrow> nearStop list \<Rightarrow> error + route option" where
  "directInner fpu originLocation destinationLocation originStop [] = Inr None"
| "directInner fpu originLocation destinationLocation originStop (destinationStop # rest) =
     (case findConnectingLines originStop destinationStop of
        Inl e \<Rightarrow> Inl e
      | Inr connectingLines \<Rightarrow>
          if length connectingLines > 0
          then (case directRouteFor fpu originLocation destinationLocation
                       originStop destinationStop connectingLines of
                  Inl e \<Rightarrow> Inl e
                | Inr r \<Rightarrow> Inr (Some r))
          else directInner fpu originLocation destinationLocation originStop rest)"

text \<open>The outer loop over the stops near the origin; the first route found is returned.\<close>

fun directOuter ::
  "fpu \<Rightarrow> endpoint \<Rightarrow> endpoint \<Rightarrow> nearStop list \<Rightarrow> nearStop list
     \<Rightarrow> error + route option" where
  "directOuter fpu originLocation destinationLocation [] nearbyDestinationStops = Inr None"
| "directOuter fpu originLocation destinationLocation (originStop # rest) nearbyDestinationStops =
     (case directInner fpu originLocation destinationLocation originStop
             nearbyDestinationStops of
        Inl e \<Rightarrow> Inl e
      | Inr (Some r) \<Rightarrow> Inr (Some r)
      | Inr None \<Rightarrow> directOuter fpu originLocation destinationLocation rest
                      nearbyDestinationStops)"

definition calculateDirectRoute ::
  "fpu \<Rightarrow> endpoint \<Rightarrow> endpoint \<Rightarrow> stop list \<Rightarrow> error + route option" where
  "calculateDirectRoute fpu originLocation destinationLocation busStops =
     (case findNearbyStops fpu (loc_coordinates originLocation) busStops 3000 10 of
        Inl e \<Rightarrow> Inl e
      | Inr nearbyOriginStops \<Rightarrow>
          (case findNearbyStops fpu (loc_coordinates destinationLocation) busStops 3000 10 of
             Inl e \<Rightarrow> Inl e
           | Inr nearbyDestinationStops \<Rightarrow>
               directOuter fpu originLocation destinationLocation
                 nearbyOriginStops nearbyDestinationStops))"

text \<open>
  \<^verbatim>\<open>busStops.filter(stop => stop.type === 'main' && stop.lines.length >= 4)\<close>: the
  length of \<^verbatim>\<open>lines\<close> is only read for a stop of type \<^verbatim>\<open>'main'\<close>.
\<close>

fun terminalStops :: "stop list \<Rightarrow> error + stop list" where
  "terminalStops [] = Inr []"
| "terminalStops (s # ss) =
     (if stop_type s = Some ''main''
      then (case lines s of
              None \<Rightarrow> Inl TypeError
            | Some ls \<Rightarrow>
                (case terminalStops ss of
                   Inl e \<Rightarrow> Inl e
                 | Inr r \<Rightarrow> Inr (if length ls \<ge> 4 then s # r else r)))
      else terminalStops ss)"

text \<open>UTF-8 bytes of the accented letters in the route notes.\<close>

definition baldeacao_em :: string where
  "baldeacao_em = ''Baldea'' @ [CHR 0xC3, CHR 0xA7, CHR 0xC3, CHR 0xA3] @ ''o em ''"

definition aguarde :: string where
  "aguarde = ''Aguarde o pr'' @ [CHR 0xC3, CHR 0xB3] @ ''ximo '' @ [CHR 0xC3, CHR 0xB4]
               @ ''nibus no mesmo terminal''"

definition parada_proxima_a :: string where
  "parada_proxima_a = ''Parada pr'' @ [CHR 0xC3, CHR 0xB3] @ ''xima a ''"

text \<open>The body of the three nested loops of \<^verbatim>\<open>calculateRouteWithTransfer\<close>.\<close>

definition transferRouteFor ::
  "fpu \<Rightarrow> endpoint \<Rightarrow> endpoint \<Rightarrow> nearStop \<Rightarrow> nearStop \<Rightarrow> stop \<Rightarrow> string list
     \<Rightarrow> string list \<Rightarrow> error + route" where
  "transferRouteFor fpu originLocation destinationLocation originStop destinationStop
       terminalStop firstLeg secondLeg =
     (case calculateDistance fpu (coordinates originStop) (coordinates terminalStop) of
        Inl e \<Rightarrow> Inl e
      | Inr leg1Distance \<Rightarrow>
     (case calculateDistance fpu (coordinates terminalStop) (coordinates destinationStop) of
        Inl e \<Rightarrow> Inl e
      | Inr leg2Distance \<Rightarrow>
          (let walkToStopDistance = distance originStop;
               walkFromStopDistance = distance destinationStop;
               walkToStopTime = calculateWalkingTime walkToStopDistance 80;
               leg1Time = calculateBusTime leg1Distance 300;
               transferTime = Num 15;
               leg2Time = calculateBusTime leg2Distance 300;
               walkFromStopTime = calculateWalkingTime walkFromStopDistance 80;
               totalTime =
                 js_add (js_add (js_add (js_add (js_add walkToStopTime leg1Time) transferTime)
                                   leg2Time) walkFromStopTime) (Num 12);
               totalDistance =
                 js_add (js_add (js_add walkToStopDistance leg1Distance) leg2Distance)
                   walkFromStopDistance
           in (case estimateStopCount fpu originStop terminalStop of
                 Inl e \<Rightarrow> Inl e
               | Inr stopCount1 \<Rightarrow>
              (case estimateStopCount fpu terminalStop destinationStop of
                 Inl e \<Rightarrow> Inl e
               | Inr stopCount2 \<Rightarrow>
                   Inr \<lparr> route_id = None,
                         origem = originLocation,
                         destino = destinationLocation,
                         tempo_total = totalTime,
                         distancia_total = totalDistance,
                         transferencias = 1,
                         custo_total = 9.00,
                         acessibilidade = (accessibility originStop \<and> accessibility terminalStop
                                            \<and> accessibility destinationStop),
                         segmentos =
                           [\<lparr> linha = hd firstLeg,
                              paradaOrigem = NearParada originStop,
                              paradaDestino = StopParada terminalStop,
                              tempo = leg1Time,
                              paradas = stopCount1,
                              caminhadaInicial =
                                (if js_gt walkToStopDistance 50
                                 then Some \<lparr> distancia = walkToStopDistance,
                                             tempo_caminhada = walkToStopTime \<rparr>
                                 else None),
                              caminhadaFinal = None \<rparr>,
                            \<lparr> linha = hd secondLeg,
                              paradaOrigem = StopParada terminalStop,
                              paradaDestino = NearParada destinationStop,
                              tempo = leg2Time,
                              paradas = stopCount2,
                              caminhadaInicial = None,
                              caminhadaFinal =
                                (if js_gt walkFromStopDistance 50
                                 then Some \<lparr> distancia = walkFromStopDistance,
                                             tempo_caminhada = walkFromStopTime \<rparr>
                                 else None) \<rparr>],
                         observacoes = [baldeacao_em @ stop_name terminalStop, aguarde] \<rparr>)))))"

fun transferTerminals ::
  "fpu \<Rightarrow> endpoint \<Rightarrow> endpoint \<Rightarrow> nearStop \<Rightarrow> nearStop \<Rightarrow> stop list \<Rightarrow> error + route option" where
  "transferTerminals fpu originLocation destinationLocation originStop destinationStop [] = Inr None"
| "transferTerminals fpu originLocation destinationLocation originStop destinationStop
       (terminalStop # rest) =
     (case findConnectingLines originStop terminalStop of
        Inl e \<Rightarrow> Inl e
      | Inr firstLeg \<Rightarrow>
     (case findConnectingLines terminalStop destinationStop of
        Inl e \<Rightarrow> Inl e
      | Inr secondLeg \<Rightarrow>
          if length firstLeg > 0 \<and> length secondLeg > 0
          then (case transferRouteFor fpu originLocation destinationLocation originStop
                       destinationStop terminalStop firstLeg secondLeg of
                  Inl e \<Rightarrow> Inl e
                | Inr r \<Rightarrow> Inr (Some r))
          else transferTerminals fpu originLocation destinationLocation originStop
                 destinationStop rest))"

fun transferInner ::
  "fpu \<Rightarrow> endpoint \<Rightarrow> endpoint \<Rightarrow> nearStop \<Rightarrow> nearStop list \<Rightarrow> stop list \<Rightarrow> error + route option" where
  "transferInner fpu originLocation destinationLocation originStop [] terminals = Inr None"
| "transferInner fpu originLocation destinationLocation originStop (destinationStop # rest) terminals =
     (case transferTerminals fpu originLocation destinationLocation originStop destinationStop
             terminals of
        Inl e \<Rightarrow> Inl e
      | Inr (Some r) \<Rightarrow> Inr (Some r)
      | Inr None \<Rightarrow> transferInner fpu originLocation destinationLocation originStop rest terminals)"

fun transferOuter ::
  "fpu \<Rightarrow> endpoint \<Rightarrow> endpoint \<Rightarrow> nearStop list \<Rightarrow> nearStop list \<Rightarrow> stop list \<Rightarrow> error + route option" where
  "transferOuter fpu originLocation destinationLocation [] nearbyDestinationStops terminals = Inr None"
| "transferOuter fpu originLocation destinationLocation (originStop # rest) nearbyDestinationStops
       terminals =
     (case transferInner fpu originLocation destinationLocation originStop nearbyDestinationStops
             terminals of
        Inl e \<Rightarrow> Inl e
      | Inr (Some r) \<Rightarrow> Inr (Some r)
      | Inr None \<Rightarrow> transferOuter fpu originLocation destinationLocation rest
                      nearbyDestinationStops terminals)"

definition calculateRouteWithTransfer ::
  "fpu \<Rightarrow> endpoint \<Rightarrow> endpoint \<Rightarrow> stop list \<Rightarrow> error + route option" where
  "calculateRouteWithTransfer fpu originLocation destinationLocation busStops =
     (case findNearbyStops fpu (loc_coordinates originLocation) busStops 3000 10 of
        Inl e \<Rightarrow> Inl e
      | Inr nearbyOriginStops \<Rightarrow>
     (case findNearbyStops fpu (loc_coordinates destinationLocation) busStops 3000 10 of
        Inl e \<Rightarrow> Inl e
      | Inr nearbyDestinationStops \<Rightarrow>
     (case terminalStops busStops of
        Inl e \<Rightarrow> Inl e
      | Inr terminals \<Rightarrow>
          transferOuter fpu originLocation destinationLocation nearbyOriginStops
            nearbyDestinationStops terminals)))"

text \<open>
  \<^verbatim>\<open>createExampleRoute\<close> answers \<^verbatim>\<open>null\<close> when an endpoint has no coordinates.
  Its third parameter is the catalog, as in the source. With both coordinate arrays present
  \<^verbatim>\<open>calculateDistance\<close> cannot throw and yields the number \<^const>\<open>haversine_js\<close>.
\<close>

definition createExampleRoute :: "fpu \<Rightarrow> endpoint \<Rightarrow> endpoint \<Rightarrow> stop list \<Rightarrow> route option" where
  "createExampleRoute fpu originLocation destinationLocation busStops =
     (case loc_coordinates originLocation of
        None \<Rightarrow> None
      | Some oc \<Rightarrow>
     (case loc_coordinates destinationLocation of
        None \<Rightarrow> None
      | Some dc \<Rightarrow>
          (let directDistance = haversine_js fpu oc dc;
               walkToStopTime = Num 8;
               busTime = js_max (Num 25) (js_round (js_div directDistance 300));
               walkFromStopTime = Num 5;
               waitTime = Num 10;
               totalTime = js_add (js_add (js_add walkToStopTime busTime) walkFromStopTime)
                             waitTime
           in Some \<lparr> route_id = Some ''example-route-1'',
                      origem = originLocation,
                      destino = destinationLocation,
                      tempo_total = totalTime,
                      distancia_total = js_add directDistance (Num 600),
                      transferencias = 0,
                      custo_total = 4.50,
                      acessibilidade = True,
                      segmentos =
                        [\<lparr> linha = ''0.111'',
                           paradaOrigem = StopParada
                             \<lparr> stop_id = ''example-origin'',
                               stop_name = parada_proxima_a @ loc_name originLocation,
                               coordinates = loc_coordinates originLocation,
                               stop_type = None,
                               accessibility = True,
                               lines = None \<rparr>,
                           paradaDestino = StopParada
                             \<lparr> stop_id = ''example-destination'',
                               stop_name = parada_proxima_a @ loc_name destinationLocation,
                               coordinates = loc_coordinates destinationLocation,
                               stop_type = None,
                               accessibility = True,
                               lines = None \<rparr>,
                           tempo = busTime,
                           paradas = js_max (Num 3) (js_round (js_div directDistance 800)),
                           caminhadaInicial =
                             Some \<lparr> distancia = Num 400, tempo_caminhada = walkToStopTime \<rparr>,
                           caminhadaFinal =
                             Some \<lparr> distancia = Num 200, tempo_caminhada = walkFromStopTime \<rparr> \<rparr>],
                      observacoes =
                        [''Rota calculada com base na dist'' @ [CHR 0xC3, CHR 0xA2]
                           @ ''ncia entre os pontos'',
                         ''Hor'' @ [CHR 0xC3, CHR 0xA1] @ ''rios e linhas podem variar - consulte o DFTrans''] \<rparr>)))"

section \<open>The orchestrator\<close>

text \<open>
  \<^verbatim>\<open>routes.sort((a, b) => a.tempo_total - b.tempo_total)\<close>. The comparator is not called
  on an array of fewer than two elements; on a longer one every element is compared, and
  reading \<^verbatim>\<open>tempo_total\<close> of \<^verbatim>\<open>null\<close> throws.
\<close>

definition sortRoutes :: "route option list \<Rightarrow> error + route option list" where
  "sortRoutes routes =
     (if length routes < 2 then Inr routes
      else if None \<in> set routes then Inl TypeError
      else Inr (js_sort (\<lambda>r. tempo_total (the r)) routes))"

text \<open>The \<^verbatim>\<open>try\<close> block of \<^verbatim>\<open>calculateRoutes\<close>.\<close>

definition calculateRoutes_try :: "fpu \<Rightarrow> endpoint \<Rightarrow> endpoint \<Rightarrow> stop list \<Rightarrow> error + route option list" where
  "calculateRoutes_try fpu originLocation destinationLocation busStops =
     (let exampleRoute = createExampleRoute fpu originLocation destinationLocation busStops;
          routes = [exampleRoute]
      in (case calculateDirectRoute fpu originLocation destinationLocation busStops of
            Inl e \<Rightarrow> Inl e
          | Inr directRoute \<Rightarrow>
              sortRoutes (case directRoute of
                            Some r \<Rightarrow> routes @ [Some r]
                          | None \<Rightarrow> routes)))"

text \<open>
  \<^verbatim>\<open>calculateRoutes\<close>: the value its promise resolves to. The \<^verbatim>\<open>catch\<close> block builds the
  example route again and answers with it alone, or with the empty array when there is none.
\<close>

definition calculateRoutes :: "fpu \<Rightarrow> endpoint \<Rightarrow> endpoint \<Rightarrow> stop list \<Rightarrow> route option list" where
  "calculateRoutes fpu originLocation destinationLocation busStops =
     (case calculateRoutes_try fpu originLocation destinationLocation busStops of
        Inr routes \<Rightarrow> routes
      | Inl e \<Rightarrow>
          (case createExampleRoute fpu originLocation destinationLocation busStops of
             Some fallbackRoute \<Rightarrow> [Some fallbackRoute]
           | None \<Rightarrow> []))"

section \<open>Example data\<close>

text \<open>Entries of the mock catalog \<^verbatim>\<open>mockBusStops\<close>, and a stop whose lines are not in ascending order.\<close>

definition stop005 :: stop where
  "stop005 = \<lparr> stop_id = ''stop-005'', stop_name = ''Centro Metropolitano'',
       coordinates = Some (-15.8189, -48.1034), stop_type = Some ''regular'',
       accessibility = True, lines = Some [''0.111'', ''0.112'', ''0.120''] \<rparr>"

definition stop009 :: stop where
  "stop009 = \<lparr> stop_id = ''stop-009'', stop_name = ''Terminal Taguatinga'',
       coordinates = Some (-15.8311, -48.0428), stop_type = Some ''main'',
       accessibility = True,
       lines = Some [''0.180'', ''0.181'', ''0.182'', ''0.183'', ''0.190'', ''0.200'', ''0.210''] \<rparr>"

definition stop010 :: stop where
  "stop010 = \<lparr> stop_id = ''stop-010'', stop_name = ''Shopping Taguatinga'',
       coordinates = Some (-15.8298, -48.0389), stop_type = Some ''regular'',
       accessibility = True, lines = Some [''0.180'', ''0.182'', ''0.190''] \<rparr>"

definition stop020 :: stop where
  "stop020 = \<lparr> stop_id = ''stop-020'', stop_name = ''Aeroporto JK'',
       coordinates = Some (-15.8711, -47.9181), stop_type = Some ''airport'',
       accessibility = True, lines = Some [''0.113'', ''0.183'', ''0.302'', ''0.400''] \<rparr>"

definition stopUnsorted :: stop where
  "stopUnsorted = \<lparr> stop_id = ''stop-x'', stop_name = ''Parada X'',
       coordinates = Some (-15.8300, -48.0400), stop_type = Some ''regular'',
       accessibility = True, lines = Some [''0.190'', ''0.180''] \<rparr>"

definition localSemCoordenadas :: endpoint where
  "localSemCoordenadas = \<lparr> loc_name = ''Origem'', loc_coordinates = None \<rparr>"

definition localShopping :: endpoint where
  "localShopping = \<lparr> loc_name = ''Shopping Taguatinga'', loc_coordinates = Some (-15.8298, -48.0389) \<rparr>"

definition localTerminal :: endpoint where
  "localTerminal = \<lparr> loc_name = ''Terminal Taguatinga'', loc_coordinates = Some (-15.8311, -48.0428) \<rparr>"

text \<open>
  Endpoints and stops on the equator, where the haversine distance of two points is the
  difference of their longitudes in radians times the radius of the Earth.
\<close>

definition eqOrigem :: endpoint where
  "eqOrigem = \<lparr> loc_name = ''Origem'', loc_coordinates = Some (0, 0) \<rparr>"

definition eqDestino :: endpoint where
  "eqDestino = \<lparr> loc_name = ''Destino'', loc_coordinates = Some (0, 1 / 40) \<rparr>"

definition eqParadaMeio :: stop where
  "eqParadaMeio = \<lparr> stop_id = ''stop-eq-1'', stop_name = ''Parada do Meio'',
       coordinates = Some (0, 1 / 80), stop_type = Some ''regular'',
       accessibility = True, lines = Some [''0.111''] \<rparr>"

definition eqParadaB :: stop where
  "eqParadaB = \<lparr> stop_id = ''stop-eq-3'', stop_name = ''Parada B'',
       coordinates = Some (0, 13 / 1000), stop_type = Some ''regular'',
       accessibility = True, lines = Some [''0.111'', ''0.180''] \<rparr>"

definition c5Destino :: endpoint where
  "c5Destino = \<lparr> loc_name = ''Destino'', loc_coordinates = Some (0, 1 / 5000) \<rparr>"

definition c5Parada :: stop where
  "c5Parada = \<lparr> stop_id = ''stop-eq-4'', stop_name = ''Parada da Esquina'',
       coordinates = Some (0, 1 / 10000), stop_type = Some ''regular'',
       accessibility = True, lines = Some [''0.111''] \<rparr>"

definition eqTerminal :: stop where
  "eqTerminal = \<lparr> stop_id = ''stop-eq-5'', stop_name = ''Terminal do Equador'',
       coordinates = Some (0, 1 / 100), stop_type = Some ''main'',
       accessibility = True, lines = Some [''0.111'', ''0.112'', ''0.113'', ''0.114''] \<rparr>"

text \<open>A catalog entry without coordinates.\<close>

definition paradaSemCoordenadas :: stop where
  "paradaSemCoordenadas = \<lparr> stop_id = ''stop-y'', stop_name = ''Parada Y'',
       coordinates = None, stop_type = Some ''regular'',
       accessibility = True, lines = Some [''0.111''] \<rparr>"

text \<open>
  Two antipodal endpoints, 12 degrees south and north of the equator. In doubles the sum
  \<open>a\<close> for them is \<^verbatim>\<open>1.0000000000000002\<close>: \<^verbatim>\<open>Math.sin\<close> of 12 degrees squared plus
  \<^verbatim>\<open>Math.cos\<close> of 12 degrees squared, each rounded. \<open>fpuAntipoda\<close> is a floating-point unit
  of which nothing but this is recorded.
\<close>

definition antipodaOrigem :: endpoint where
  "antipodaOrigem = \<lparr> loc_name = ''Origem'', loc_coordinates = Some (-12, -180) \<rparr>"

definition antipodaDestino :: endpoint where
  "antipodaDestino = \<lparr> loc_name = ''Destino'', loc_coordinates = Some (12, 0) \<rparr>"

definition fpuAntipoda :: fpu where
  "fpuAntipoda coord1 coord2 \<longleftrightarrow> coord1 = (-12, -180) \<and> coord2 = (12, 0)"

definition paradaAntipoda :: stop where
  "paradaAntipoda = \<lparr> stop_id = ''stop-z'', stop_name = ''Parada Z'',
       coordinates = Some (12, 0), stop_type = Some ''regular'',
       accessibility = True, lines = Some [''0.111''] \<rparr>"

section \<open>Observations on results\<close>

text \<open>
  The distance of a catalog stop to a point, as \<^verbatim>\<open>calculateDistance\<close> computes it from
  the stop's coordinates. The stop is in range of the point when this is a number not above
  \<open>maxDistance\<close>.
\<close>

definition distanceTo :: "fpu \<Rightarrow> coord \<Rightarrow> stop \<Rightarrow> jsnum" where
  "distanceTo fpu point s =
     (case coordinates s of None \<Rightarrow> NaN | Some c \<Rightarrow> haversine_js fpu point c)"

definition inRange :: "fpu \<Rightarrow> coord \<Rightarrow> real \<Rightarrow> stop \<Rightarrow> bool" where
  "inRange fpu point maxDistance s = js_le (distanceTo fpu point s) maxDistance"

text \<open>
  The durations and distances that a route carries in its segments: the bus time of each
  segment and the walks it records. A segment has no field for the length of its bus leg;
  \<open>distanciaOnibus\<close> is what \<^verbatim>\<open>calculateDistance\<close> yields for the two stops of the segment.
\<close>

definition tempoCaminhada :: "caminhada option \<Rightarrow> jsnum" where
  "tempoCaminhada w = (case w of None \<Rightarrow> Num 0 | Some c \<Rightarrow> tempo_caminhada c)"

definition distanciaCaminhada :: "caminhada option \<Rightarrow> jsnum" where
  "distanciaCaminhada w = (case w of None \<Rightarrow> Num 0 | Some c \<Rightarrow> distancia c)"

definition distanciaOnibus :: "fpu \<Rightarrow> segmento \<Rightarrow> jsnum" where
  "distanciaOnibus fpu seg =
     (case calculateDistance fpu (parada_coordinates (paradaOrigem seg))
             (parada_coordinates (paradaDestino seg)) of
        Inl e \<Rightarrow> Num 0
      | Inr d \<Rightarrow> d)"

text \<open>The sum of a list of numbers; it is \<^verbatim>\<open>NaN\<close> when one of them is.\<close>

definition js_sum :: "jsnum list \<Rightarrow> jsnum" where
  "js_sum xs = foldr js_add xs (Num 0)"

definition tempoSegmento :: "segmento \<Rightarrow> jsnum" where
  "tempoSegmento seg =
     js_sum [tempoCaminhada (caminhadaInicial seg), tempo seg,
             tempoCaminhada (caminhadaFinal seg)]"

definition distanciaSegmento :: "fpu \<Rightarrow> segmento \<Rightarrow> jsnum" where
  "distanciaSegmento fpu seg =
     js_sum [distanciaCaminhada (caminhadaInicial seg), distanciaOnibus fpu seg,
             distanciaCaminhada (caminhadaFinal seg)]"

definition somaTempos :: "route \<Rightarrow> jsnum" where
  "somaTempos r = js_sum (map tempoSegmento (segmentos r))"

definition somaDistancias :: "fpu \<Rightarrow> route \<Rightarrow> jsnum" where
  "somaDistancias fpu r = js_sum (map (distanciaSegmento fpu) (segmentos r))"

section \<open>The catalog as objects in a store\<close>

text \<open>
  For the question whether the service changes the caller's catalog, arrays and stop
  objects live at addresses of a store. The catalog is an array of references to stop
  objects. \<^verbatim>\<open>map\<close>, \<^verbatim>\<open>filter\<close>, \<^verbatim>\<open>slice\<close> and the object literal \<^verbatim>\<open>{...stop, distance}\<close>
  allocate; \<^verbatim>\<open>sort\<close> writes into the array it is called on. The builders only read stop
  objects, so they stay the functions on values defined above; a route refers to stop
  objects (annotated copies, and for a transfer the terminal of the catalog itself), which
  the model records by the values read. The string arrays \<^verbatim>\<open>lines\<close> are never written by the service
  (\<^verbatim>\<open>filter\<close>, \<^verbatim>\<open>includes\<close> and \<^verbatim>\<open>length\<close> read them) and are part of the stop value.
\<close>

datatype obj = StopObj stop | NearObj nearStop

text \<open>The properties that the spread \<^verbatim>\<open>...stop\<close> copies, apart from \<^verbatim>\<open>distance\<close>.\<close>

fun obj_stop :: "obj \<Rightarrow> stop" where
  "obj_stop (StopObj s) = s"
| "obj_stop (NearObj n) = stop.truncate n"

record store =
  objs :: "nat \<Rightarrow> obj option"
  arrs :: "nat \<Rightarrow> nat list option"
  nextAddr :: nat

definition allocObj :: "obj \<Rightarrow> store \<Rightarrow> nat \<times> store" where
  "allocObj v h =
     (nextAddr h, h\<lparr> objs := (objs h)(nextAddr h \<mapsto> v), nextAddr := Suc (nextAddr h) \<rparr>)"

definition allocArr :: "nat list \<Rightarrow> store \<Rightarrow> nat \<times> store" where
  "allocArr xs h =
     (nextAddr h, h\<lparr> arrs := (arrs h)(nextAddr h \<mapsto> xs), nextAddr := Suc (nextAddr h) \<rparr>)"

definition readArr :: "store \<Rightarrow> nat \<Rightarrow> nat list" where
  "readArr h a = (case arrs h a of None \<Rightarrow> [] | Some xs \<Rightarrow> xs)"

text \<open>\<^verbatim>\<open>busStops.map(stop => ({...stop, distance: calculateDistance(...)}))\<close> on references.\<close>

fun mapDistance_st :: "fpu \<Rightarrow> coord option \<Rightarrow> nat list \<Rightarrow> store \<Rightarrow> (error + nat list) \<times> store" where
  "mapDistance_st fpu c [] h = (Inr [], h)"
| "mapDistance_st fpu c (r # rs) h =
     (case objs h r of
        None \<Rightarrow> (Inl TypeError, h)
      | Some v \<Rightarrow>
          (case calculateDistance fpu c (coordinates (obj_stop v)) of
             Inl e \<Rightarrow> (Inl e, h)
           | Inr d \<Rightarrow>
               (case allocObj (NearObj (withDistance (obj_stop v) d)) h of
                  (a, h1) \<Rightarrow>
                    (case mapDistance_st fpu c rs h1 of
                       (Inl e, h2) \<Rightarrow> (Inl e, h2)
                     | (Inr as, h2) \<Rightarrow> (Inr (a # as), h2)))))"

text \<open>
  \<^verbatim>\<open>stop.distance\<close> of the object behind a reference. The references that reach the filter
  and the sort come from the map above and point to annotated copies; the other cases
  stand for \<^verbatim>\<open>undefined\<close>, which no comparison accepts and which the comparator of the
  sort turns into \<^verbatim>\<open>NaN\<close>.
\<close>

definition distanceAt :: "store \<Rightarrow> nat \<Rightarrow> jsnum option" where
  "distanceAt h r = (case objs h r of Some (NearObj n) \<Rightarrow> Some (distance n) | _ \<Rightarrow> None)"

definition withinAt :: "store \<Rightarrow> real \<Rightarrow> nat \<Rightarrow> bool" where
  "withinAt h maxDistance r =
     (case distanceAt h r of None \<Rightarrow> False | Some d \<Rightarrow> js_le d maxDistance)"

definition sortKeyAt :: "store \<Rightarrow> nat \<Rightarrow> jsnum" where
  "sortKeyAt h r = (case distanceAt h r of None \<Rightarrow> NaN | Some d \<Rightarrow> d)"

text \<open>\<^verbatim>\<open>xs.sort((a, b) => a.distance - b.distance)\<close> overwrites the array at \<open>a\<close>.\<close>

definition sortArr :: "nat \<Rightarrow> store \<Rightarrow> store" where
  "sortArr a h =
     (case arrs h a of
        None \<Rightarrow> h
      | Some rs \<Rightarrow> h\<lparr> arrs := (arrs h)(a \<mapsto> js_sort (sortKeyAt h) rs) \<rparr>)"

definition findNearbyStops_st ::
  "fpu \<Rightarrow> coord option \<Rightarrow> nat \<Rightarrow> real \<Rightarrow> int \<Rightarrow> store \<Rightarrow> (error + nat) \<times> store" where
  "findNearbyStops_st fpu coords busStops maxDistance limit h =
     (case arrs h busStops of
        None \<Rightarrow> (Inl TypeError, h)
      | Some refs \<Rightarrow>
          (case mapDistance_st fpu coords refs h of
             (Inl e, h1) \<Rightarrow> (Inl e, h1)
           | (Inr mapped, h1) \<Rightarrow>
               (case allocArr mapped h1 of
                  (a1, h2) \<Rightarrow>
               (case allocArr (filter (withinAt h2 maxDistance) (readArr h2 a1)) h2 of
                  (a2, h3) \<Rightarrow>
               (case allocArr (slice0 limit (readArr (sortArr a2 h3) a2)) (sortArr a2 h3) of
                  (a3, h5) \<Rightarrow> (Inr a3, h5))))))"

text \<open>The annotated stops behind the references of an array, as the loops read them.\<close>

definition nearStopsAt :: "store \<Rightarrow> nat \<Rightarrow> nearStop list" where
  "nearStopsAt h a =
     List.map_filter (\<lambda>r. case objs h r of Some (NearObj n) \<Rightarrow> Some n | _ \<Rightarrow> None) (readArr h a)"

definition calculateDirectRoute_st ::
  "fpu \<Rightarrow> endpoint \<Rightarrow> endpoint \<Rightarrow> nat \<Rightarrow> store \<Rightarrow> (error + route option) \<times> store" where
  "calculateDirectRoute_st fpu originLocation destinationLocation busStops h =
     (case findNearbyStops_st fpu (loc_coordinates originLocation) busStops 3000 10 h of
        (Inl e, h1) \<Rightarrow> (Inl e, h1)
      | (Inr nearbyOriginStops, h1) \<Rightarrow>
          (case findNearbyStops_st fpu (loc_coordinates destinationLocation) busStops 3000 10 h1 of
             (Inl e, h2) \<Rightarrow> (Inl e, h2)
           | (Inr nearbyDestinationStops, h2) \<Rightarrow>
               (directOuter fpu originLocation destinationLocation
                  (nearStopsAt h2 nearbyOriginStops) (nearStopsAt h2 nearbyDestinationStops),
                h2)))"

text \<open>
  \<^verbatim>\<open>busStops.filter(stop => stop.type === 'main' && stop.lines.length >= 4)\<close> on
  references: the references kept, or the exception.
\<close>

fun terminalRefs :: "store \<Rightarrow> nat list \<Rightarrow> error + nat list" where
  "terminalRefs h [] = Inr []"
| "terminalRefs h (r # rs) =
     (case objs h r of
        None \<Rightarrow> Inl TypeError
      | Some v \<Rightarrow>
          if stop_type (obj_stop v) = Some ''main''
          then (case lines (obj_stop v) of
                  None \<Rightarrow> Inl TypeError
                | Some ls \<Rightarrow>
                    (case terminalRefs h rs of
                       Inl e \<Rightarrow> Inl e
                     | Inr keep \<Rightarrow> Inr (if length ls \<ge> 4 then r # keep else keep)))
          else terminalRefs h rs)"

definition stopsAt :: "store \<Rightarrow> nat \<Rightarrow> stop list" where
  "stopsAt h a = List.map_filter (\<lambda>r. map_option obj_stop (objs h r)) (readArr h a)"

definition calculateRouteWithTransfer_st ::
  "fpu \<Rightarrow> endpoint \<Rightarrow> endpoint \<Rightarrow> nat \<Rightarrow> store \<Rightarrow> (error + route option) \<times> store" where
  "calculateRouteWithTransfer_st fpu originLocation destinationLocation busStops h =
     (case findNearbyStops_st fpu (loc_coordinates originLocation) busStops 3000 10 h of
        (Inl e, h1) \<Rightarrow> (Inl e, h1)
      | (Inr nearbyOriginStops, h1) \<Rightarrow>
     (case findNearbyStops_st fpu (loc_coordinates destinationLocation) busStops 3000 10 h1 of
        (Inl e, h2) \<Rightarrow> (Inl e, h2)
      | (Inr nearbyDestinationStops, h2) \<Rightarrow>
     (case terminalRefs h2 (readArr h2 busStops) of
        Inl e \<Rightarrow> (Inl e, h2)
      | Inr keep \<Rightarrow>
          (case allocArr keep h2 of
             (terminals, h3) \<Rightarrow>
               (transferOuter fpu originLocation destinationLocation
                  (nearStopsAt h3 nearbyOriginStops) (nearStopsAt h3 nearbyDestinationStops)
                  (stopsAt h3 terminals),
                h3)))))"

text \<open>
  \<^verbatim>\<open>calculateRoutes\<close> on a catalog in the store. The array \<^verbatim>\<open>routes\<close> is a fresh array of
  routes, pushed to and sorted in place; it holds no stop and is kept as a value.
  \<^verbatim>\<open>busStops.length\<close> is read for the log before anything else.
\<close>

definition calculateRoutes_try_st ::
  "fpu \<Rightarrow> endpoint \<Rightarrow> endpoint \<Rightarrow> nat \<Rightarrow> store \<Rightarrow> (error + route option list) \<times> store" where
  "calculateRoutes_try_st fpu originLocation destinationLocation busStops h =
     (case arrs h busStops of
        None \<Rightarrow> (Inl TypeError, h)
      | Some refs \<Rightarrow>
          (let exampleRoute = createExampleRoute fpu originLocation destinationLocation (stopsAt h busStops);
               routes = [exampleRoute]
           in (case calculateDirectRoute_st fpu originLocation destinationLocation busStops h of
                 (Inl e, h1) \<Rightarrow> (Inl e, h1)
               | (Inr directRoute, h1) \<Rightarrow>
                   (sortRoutes (case directRoute of
                                  Some r \<Rightarrow> routes @ [Some r]
                                | None \<Rightarrow> routes), h1))))"

definition calculateRoutes_st ::
  "fpu \<Rightarrow> endpoint \<Rightarrow> endpoint \<Rightarrow> nat \<Rightarrow> store \<Rightarrow> route option list \<times> store" where
  "calculateRoutes_st fpu originLocation destinationLocation busStops h =
     (case calculateRoutes_try_st fpu originLocation destinationLocation busStops h of
        (Inr routes, h1) \<Rightarrow> (routes, h1)
      | (Inl e, h1) \<Rightarrow>
          (case createExampleRoute fpu originLocation destinationLocation (stopsAt h1 busStops) of
             Some fallbackRoute \<Rightarrow> ([Some fallbackRoute], h1)
           | None \<Rightarrow> ([], h1)))"

text \<open>What a run may do to a store: allocate, and leave every allocated cell as it was.\<close>

definition preserves :: "store \<Rightarrow> store \<Rightarrow> bool" where
  "preserves h h' \<longleftrightarrow>
     nextAddr h \<le> nextAddr h' \<and>
     (\<forall>a. a < nextAddr h \<longrightarrow> objs h' a = objs h a \<and> arrs h' a = arrs h a)"

text \<open>
  A catalog in the store: an allocated array of references to allocated stop objects, whose
  values are the list \<open>cat\<close>; and an array of annotated copies with the values \<open>ns\<close>.
\<close>

definition catalogAt :: "store \<Rightarrow> nat \<Rightarrow> stop list \<Rightarrow> bool" where
  "catalogAt h c cat \<longleftrightarrow>
     c < nextAddr h \<and>
     (\<exists>refs. arrs h c = Some refs \<and> (\<forall>r \<in> set refs. r < nextAddr h) \<and>
             map (objs h) refs = map (\<lambda>s. Some (StopObj s)) cat)"

definition nearAt :: "store \<Rightarrow> nat \<Rightarrow> nearStop list \<Rightarrow> bool" where
  "nearAt h a ns \<longleftrightarrow>
     a < nextAddr h \<and> (\<forall>r \<in> set (readArr h a). r < nextAddr h) \<and> arrs h a \<noteq> None \<and>
     map (objs h) (readArr h a) = map (\<lambda>n. Some (NearObj n)) ns"

text \<open>A store that holds a catalog of two stops at the addresses 0 and 1, the array at 2.\<close>

definition lojaStore :: store where
  "lojaStore =
     \<lparr> objs = (\<lambda>a. None)(0 \<mapsto> StopObj eqParadaMeio, 1 \<mapsto> StopObj eqParadaB),
       arrs = (\<lambda>a. None)(2 \<mapsto> [0, 1]),
       nextAddr = 3 \<rparr>"

section \<open>Facts about the distance\<close>

lemma arctan_le_self:
  fixes x :: real
  assumes "0 \<le> x"
  shows "arctan x \<le> x"
proof -
  let ?f = "\<lambda>u::real. u - arctan u"
  have "\<And>u. \<lbrakk>0 \<le> u; u \<le> x\<rbrakk> \<Longrightarrow> \<exists>y. (?f has_real_derivative y) (at u) \<and> 0 \<le> y"
  proof -
    fix u :: real
    have d: "(?f has_real_derivative 1 - inverse (1 + u\<^sup>2)) (at u)"
      by (auto intro!: derivative_eq_intros)
    have "inverse (1 + u\<^sup>2) \<le> 1"
      by (simp add: inverse_le_1_iff)
    then show "\<exists>y. (?f has_real_derivative y) (at u) \<and> 0 \<le> y"
      using d by (intro exI [of _ "1 - inverse (1 + u\<^sup>2)"]) simp
  qed
  then have "?f 0 \<le> ?f x"
    by (rule DERIV_nonneg_imp_nondecreasing [OF assms])
  then show ?thesis by simp
qed

lemma arctan_ge_cubic:
  fixes x :: real
  assumes "0 \<le> x"
  shows "x - x ^ 3 / 3 \<le> arctan x"
proof -
  let ?f = "\<lambda>u::real. arctan u - u + u ^ 3 / 3"
  have "\<And>u. \<lbrakk>0 \<le> u; u \<le> x\<rbrakk> \<Longrightarrow> \<exists>y. (?f has_real_derivative y) (at u) \<and> 0 \<le> y"
  proof -
    fix u :: real
    have d: "(?f has_real_derivative inverse (1 + u\<^sup>2) - 1 + u\<^sup>2) (at u)"
      by (auto intro!: derivative_eq_intros)
    have pos: "0 < 1 + u\<^sup>2" by (simp add: add_pos_nonneg)
    have "(1 - u\<^sup>2) * (1 + u\<^sup>2) \<le> 1"
      by (simp add: algebra_simps power2_eq_square [symmetric])
    then have "1 - u\<^sup>2 \<le> 1 / (1 + u\<^sup>2)"
      using pos by (simp add: pos_le_divide_eq)
    then have "0 \<le> inverse (1 + u\<^sup>2) - 1 + u\<^sup>2"
      by (simp add: inverse_eq_divide)
    then show "\<exists>y. (?f has_real_derivative y) (at u) \<and> 0 \<le> y"
      using d by blast
  qed
  then have "?f 0 \<le> ?f x"
    by (rule DERIV_nonneg_imp_nondecreasing [OF assms])
  then show ?thesis by simp
qed

lemma pi_bounds: "157 / 50 < pi" "pi < 319 / 100"
proof -
  have p: "pi = 16 * arctan (1 / 5) - 4 * arctan (1 / 239)"
    using machin by simp
  have u5: "arctan (1 / 5) \<le> 1 / 5" by (rule arctan_le_self) simp
  have l5: "1 / 5 - (1 / 5) ^ 3 / 3 \<le> arctan (1 / 5)" by (rule arctan_ge_cubic) simp
  have u239: "arctan (1 / 239) \<le> 1 / 239" by (rule arctan_le_self) simp
  have l239: "1 / 239 - (1 / 239) ^ 3 / 3 \<le> arctan (1 / 239)"
    by (rule arctan_ge_cubic) simp
  have l5': "(74 :: real) / 375 \<le> arctan (1 / 5)"
    using l5 by (simp add: power3_eq_cube)
  have l239': "(1 :: real) / 240 \<le> arctan (1 / 239)"
    using l239 by (simp add: power3_eq_cube)
  show "157 / 50 < pi" using p l5' u239 by linarith
  show "pi < 319 / 100" using p u5 l239' by linarith
qed

lemma atan2_zero_one: "atan2 0 1 = 0"
  by (simp add: atan2_def)

lemma haversine_a_same: "haversine_a c c = 0"
  by (simp add: haversine_a_def)

lemma haversine_same: "haversine c c = 0"
  by (simp add: haversine_def haversine_a_same atan2_def)

lemma haversine_js_same: "haversine_js fpu c c = Num 0"
  by (simp add: haversine_js_def haversine_a_same haversine_same)

lemma haversine_a_equator:
  "haversine_a (0, l1) (0, l2) = sin ((l2 - l1) * pi / 360) * sin ((l2 - l1) * pi / 360)"
  by (simp add: haversine_a_def)

lemma atan2_abs_sin_cos:
  assumes "\<bar>y\<bar> \<le> pi / 2"
  shows "atan2 \<bar>sin y\<bar> \<bar>cos y\<bar> = \<bar>y\<bar>"
proof (cases "\<bar>y\<bar> = pi / 2")
  case True
  then consider "y = pi / 2" | "y = - (pi / 2)" by linarith
  then show ?thesis
  proof cases
    case 1
    have "atan2 \<bar>sin (pi / 2)\<bar> \<bar>cos (pi / 2)\<bar> = \<bar>pi / 2\<bar>"
      by (simp add: atan2_def)
    then show ?thesis unfolding 1 .
  next
    case 2
    have "atan2 \<bar>sin (- (pi / 2))\<bar> \<bar>cos (- (pi / 2))\<bar> = \<bar>- (pi / 2)\<bar>"
      by (simp add: atan2_def)
    then show ?thesis unfolding 2 .
  qed
next
  case False
  with assms have lt: "\<bar>y\<bar> < pi / 2" by linarith
  have c: "0 < cos \<bar>y\<bar>" using lt by (intro cos_gt_zero_pi) auto
  have s: "0 \<le> sin \<bar>y\<bar>" using lt by (intro sin_ge_zero) (auto simp: pi_gt_zero)
  have e1: "\<bar>sin y\<bar> = sin \<bar>y\<bar>" using s by (cases "0 \<le> y") (auto simp: abs_if)
  have e2: "\<bar>cos y\<bar> = cos \<bar>y\<bar>" using c by (cases "0 \<le> y") (auto simp: abs_if)
  have "atan2 \<bar>sin y\<bar> \<bar>cos y\<bar> = arctan (sin \<bar>y\<bar> / cos \<bar>y\<bar>)"
    using c by (simp add: atan2_def e1 e2)
  also have "\<dots> = arctan (tan \<bar>y\<bar>)" by (simp add: tan_def)
  also have "\<dots> = \<bar>y\<bar>" using lt by (intro arctan_tan) auto
  finally show ?thesis .
qed

lemma haversine_equator:
  assumes "\<bar>l2 - l1\<bar> \<le> 180"
  shows "haversine (0, l1) (0, l2) = 6371000 * (\<bar>l2 - l1\<bar> * pi / 180)"
proof -
  define y where "y = (l2 - l1) * pi / 360"
  have yb: "\<bar>y\<bar> \<le> pi / 2"
  proof -
    have "\<bar>y\<bar> = \<bar>l2 - l1\<bar> * pi / 360" by (simp add: y_def abs_mult)
    also have "\<dots> \<le> 180 * pi / 360" using assms by (intro divide_right_mono mult_right_mono) auto
    finally show ?thesis by simp
  qed
  have sq1: "sqrt (sin y * sin y) = \<bar>sin y\<bar>" by simp
  have "1 - sin y * sin y = cos y * cos y"
    using sin_cos_squared_add [of y] by (simp add: power2_eq_square algebra_simps)
  then have sq2: "sqrt (1 - sin y * sin y) = \<bar>cos y\<bar>" by simp
  have "haversine (0, l1) (0, l2) =
          6371000 * (2 * atan2 (sqrt (sin y * sin y)) (sqrt (1 - sin y * sin y)))"
    by (simp add: haversine_def haversine_a_equator y_def)
  also have "\<dots> = 6371000 * (2 * atan2 \<bar>sin y\<bar> \<bar>cos y\<bar>)"
    by (simp only: sq1 sq2)
  also have "\<dots> = 6371000 * (2 * \<bar>y\<bar>)" by (simp add: atan2_abs_sin_cos [OF yb])
  also have "2 * \<bar>y\<bar> = \<bar>l2 - l1\<bar> * pi / 180" by (simp add: y_def abs_mult)
  finally show ?thesis .
qed

lemma haversine_a_equator_small:
  assumes "\<bar>l2 - l1\<bar> \<le> 1"
  shows "haversine_a (0, l1) (0, l2) \<le> 1 / 2"
proof -
  define y where "y = (l2 - l1) * pi / 360"
  have "\<bar>y\<bar> = \<bar>l2 - l1\<bar> * pi / 360" by (simp add: y_def abs_mult)
  also have "\<dots> \<le> 1 * pi / 360" using assms by (intro divide_right_mono mult_right_mono) auto
  also have "\<dots> \<le> 1 / 2" using pi_less_4 by simp
  finally have yb: "\<bar>y\<bar> \<le> 1 / 2" .
  have "\<bar>sin y\<bar> \<le> \<bar>y\<bar>" by (rule abs_sin_x_le_abs_x)
  then have sb: "\<bar>sin y\<bar> \<le> 1 / 2" using yb by linarith
  have "sin y * sin y = \<bar>sin y\<bar> * \<bar>sin y\<bar>" by (simp add: abs_mult_self_eq)
  also have "\<dots> \<le> (1 / 2) * (1 / 2)" using sb by (intro mult_mono) auto
  finally have "sin y * sin y \<le> 1 / 2" by simp
  then show ?thesis by (simp add: haversine_a_equator y_def)
qed

lemma haversine_js_equator:
  assumes "\<bar>l2 - l1\<bar> \<le> 1"
  shows "haversine_js fpu (0, l1) (0, l2) = Num (6371000 * (\<bar>l2 - l1\<bar> * pi / 180))"
proof -
  have "\<bar>l2 - l1\<bar> \<le> 180" using assms by simp
  then show ?thesis
    using haversine_a_equator_small [OF assms]
    by (simp add: haversine_js_def haversine_equator)
qed

lemma haversine_a_antipodal: "haversine_a (- x, - 180) (x, 0) = 1"
proof -
  have "haversine_a (- x, - 180) (x, 0) =
          sin (x * pi / 180) * sin (x * pi / 180) + cos (x * pi / 180) * cos (x * pi / 180)"
    by (simp add: haversine_a_def mult.commute)
  also have "\<dots> = 1"
    using sin_cos_squared_add [of "x * pi / 180"] by (simp add: power2_eq_square)
  finally show ?thesis .
qed

lemma haversine_antipodal: "haversine (- x, - 180) (x, 0) = 6371000 * pi"
  by (simp add: haversine_def haversine_a_antipodal atan2_def)

lemma js_insort_Num:
  assumes "key x \<noteq> NaN" and "\<forall>y \<in> set ys. key y \<noteq> NaN"
  shows "js_insort key x ys = insort_key (\<lambda>x. js_val (key x)) x ys"
  using assms
proof (induction ys)
  case Nil
  show ?case by simp
next
  case (Cons y ys)
  obtain a where a: "key x = Num a" using Cons.prems(1) by (cases "key x") auto
  obtain b where b: "key y = Num b" using Cons.prems(2) by (cases "key y") auto
  have ih: "js_insort key x ys = insort_key (\<lambda>x. js_val (key x)) x ys"
    using Cons by simp
  show ?case by (simp add: a b ih not_le)
qed

lemma set_js_insort: "set (js_insort key x ys) = insert x (set ys)"
  by (induction ys) auto

lemma set_js_sort: "set (js_sort key xs) = set xs"
  by (induction xs) (simp_all add: js_sort_def set_js_insort)

lemma js_sort_Cons: "js_sort key (x # xs) = js_insort key x (js_sort key xs)"
  by (simp add: js_sort_def)

lemma js_sort_Num:
  assumes "\<forall>x \<in> set xs. key x \<noteq> NaN"
  shows "js_sort key xs = sort_key (\<lambda>x. js_val (key x)) xs"
  using assms
proof (induction xs)
  case Nil
  show ?case by (simp add: js_sort_def)
next
  case (Cons x xs)
  have ih: "js_sort key xs = sort_key (\<lambda>x. js_val (key x)) xs" using Cons by simp
  have nx: "key x \<noteq> NaN" using Cons.prems by simp
  have ns: "\<forall>y \<in> set (js_sort key xs). key y \<noteq> NaN"
    using Cons.prems by (simp add: set_js_sort)
  show ?case
    using js_insort_Num [OF nx ns] by (simp add: js_sort_Cons ih)
qed

lemma js_le_Num: "js_le d m \<Longrightarrow> d \<noteq> NaN"
  by (cases d) auto

lemma haversine_js_equator_Num:
  assumes "\<bar>l2 - l1\<bar> \<le> 1"
  shows "haversine_js fpu (0, l1) (0, l2) = Num (haversine (0, l1) (0, l2))"
  using haversine_a_equator_small [OF assms] by (simp add: haversine_js_def)

section \<open>Connecting lines\<close>

lemma findConnectingLines_nonempty:
  "findConnectingLines a b = Inr cl \<Longrightarrow> cl \<noteq> []"
  by (auto simp: findConnectingLines_def Let_def split: option.splits if_splits)

text \<open>
  Claim C3, as stated: \<^verbatim>\<open>findConnectingLines(a, b)\<close> is the set intersection of the two
  line lists in ascending order, and the empty list when they share nothing. The code
  answers a stop pair without a common line with the demonstration line \<^verbatim>\<open>'0.999'\<close>,
  which neither stop serves, and it keeps common lines in the order of the origin's list:
  \<^verbatim>\<open>['0.190', '0.180']\<close> below is not ascending.
\<close>

theorem findConnectingLines_invents_line:
  "findConnectingLines stop005 stop010 = Inr [''0.999''] \<and>
   set (the (lines stop005)) \<inter> set (the (lines stop010)) = {} \<and>
   ''0.999'' \<notin> set (the (lines stop005)) \<union> set (the (lines stop010)) \<and>
   findConnectingLines stopUnsorted stop010 = Inr [''0.190'', ''0.180'']"
  by (simp add: findConnectingLines_def stop005_def stop010_def stopUnsorted_def)

text \<open>
  Claim C3, amended: for two stops that carry line lists, \<^verbatim>\<open>findConnectingLines\<close>
  returns, when the lists share a line, the origin's lines that the destination also serves,
  in the order of the origin's list (as a set: exactly the intersection); when they share
  none it returns the one-element list \<^verbatim>\<open>['0.999']\<close>.
\<close>

theorem findConnectingLines_common:
  assumes "lines a = Some la" and "lines b = Some lb"
  shows "\<exists>r. findConnectingLines a b = Inr r \<and>
           (set la \<inter> set lb \<noteq> {} \<longrightarrow>
              r = filter (\<lambda>line. line \<in> set lb) la \<and> set r = set la \<inter> set lb) \<and>
           (set la \<inter> set lb = {} \<longrightarrow> r = [''0.999''])"
proof (cases "set la \<inter> set lb = {}")
  case True
  then have "filter (\<lambda>line. line \<in> set lb) la = []"
    by (auto simp: filter_empty_conv)
  then show ?thesis using assms True
    by (simp add: findConnectingLines_def Let_def)
next
  case False
  then have ne: "filter (\<lambda>line. line \<in> set lb) la \<noteq> []"
    by (auto simp: filter_empty_conv)
  then have "la \<noteq> []" by auto
  then show ?thesis using assms False ne
    by (auto simp: findConnectingLines_def Let_def)
qed

theorem findConnectingLines_common_witness:
  "lines stop009 = Some [''0.180'', ''0.181'', ''0.182'', ''0.183'', ''0.190'', ''0.200'', ''0.210''] \<and>
   lines stop010 = Some [''0.180'', ''0.182'', ''0.190''] \<and>
   findConnectingLines stop009 stop010 = Inr [''0.180'', ''0.182'', ''0.190'']"
proof -
  have a: "lines stop009 = Some [''0.180'', ''0.181'', ''0.182'', ''0.183'', ''0.190'', ''0.200'', ''0.210'']"
    by (simp add: stop009_def)
  have b: "lines stop010 = Some [''0.180'', ''0.182'', ''0.190'']"
    by (simp add: stop010_def)
  show ?thesis using findConnectingLines_common [OF a b] a b by auto
qed

section \<open>Transfer terminals\<close>

text \<open>
  Claim C6, as stated: the candidate hubs of the transfer builder are exactly the catalog
  stops with at least four lines, whatever their type. The airport stop of the mock catalog
  serves four distinct lines and is no candidate, since its type is not \<^verbatim>\<open>'main'\<close>.
\<close>

theorem terminalStops_ignores_four_line_airport:
  "terminalStops [stop020] = Inr [] \<and> length (the (lines stop020)) = 4 \<and> card (set (the (lines stop020))) = 4"
  by (simp add: stop020_def)

text \<open>
  Claim C6, amended: the candidate hubs are exactly the catalog stops whose type is
  \<^verbatim>\<open>'main'\<close> and whose line list has at least four entries, in catalog order.
\<close>

theorem terminalStops_main_with_four_lines:
  assumes "\<forall>s \<in> set busStops. stop_type s = Some ''main'' \<longrightarrow> lines s \<noteq> None"
  shows "terminalStops busStops =
           Inr (filter (\<lambda>s. stop_type s = Some ''main'' \<and> 4 \<le> length (the (lines s))) busStops)"
  using assms by (induction busStops) auto

theorem terminalStops_main_with_four_lines_witness:
  "terminalStops [stop009, stop010, stop020] = Inr [stop009]"
proof -
  have h: "\<forall>s \<in> set [stop009, stop010, stop020]. stop_type s = Some ''main'' \<longrightarrow> lines s \<noteq> None"
    by (simp add: stop009_def stop010_def stop020_def)
  show ?thesis using terminalStops_main_with_four_lines [OF h]
    by (simp add: stop009_def stop010_def stop020_def)
qed

section \<open>The example route\<close>

text \<open>
  When the distance of the endpoints is computed as a number \<open>d\<close>, the example route has
  one segment of \<open>max 25 (round (d / 300))\<close> minutes with walks of 8 and 5 minutes; its
  total time adds these walks and a wait of 10 minutes, its total distance is \<open>d + 600\<close>;
  the result is the same for every catalog.
\<close>

lemma createExampleRoute_formula:
  assumes "loc_coordinates originLocation = Some oc"
    and "loc_coordinates destinationLocation = Some dc"
    and "haversine_js fpu oc dc = Num d"
  shows "\<exists>r seg. createExampleRoute fpu originLocation destinationLocation busStops = Some r \<and>
           segmentos r = [seg] \<and>
           tempo seg = Num (max 25 (of_int (round (d / 300)))) \<and>
           caminhadaInicial seg = Some \<lparr> distancia = Num 400, tempo_caminhada = Num 8 \<rparr> \<and>
           caminhadaFinal seg = Some \<lparr> distancia = Num 200, tempo_caminhada = Num 5 \<rparr> \<and>
           tempo_total r = Num (8 + max 25 (of_int (round (d / 300))) + 5 + 10) \<and>
           distancia_total r = Num (d + 600) \<and>
           createExampleRoute fpu originLocation destinationLocation otherStops = Some r"
  using assms by (simp add: createExampleRoute_def Let_def)

lemma createExampleRoute_same_point:
  assumes "loc_coordinates originLocation = Some oc"
    and "loc_coordinates destinationLocation = Some oc"
  shows "\<exists>r seg. createExampleRoute fpu originLocation destinationLocation busStops = Some r \<and>
           segmentos r = [seg] \<and> tempo seg = Num 25 \<and> tempo_total r = Num 48 \<and>
           distancia_total r = Num 600"
  using assms by (simp add: createExampleRoute_def Let_def haversine_js_same)

lemma createExampleRoute_NaN:
  assumes "loc_coordinates originLocation = Some oc"
    and "loc_coordinates destinationLocation = Some dc"
    and "haversine_js fpu oc dc = NaN"
  shows "\<exists>r seg. createExampleRoute fpu originLocation destinationLocation busStops = Some r \<and>
           segmentos r = [seg] \<and> tempo seg = NaN \<and> paradas seg = NaN \<and>
           tempo_total r = NaN \<and> distancia_total r = NaN"
  using assms by (simp add: createExampleRoute_def Let_def)

lemma haversine_js_antipoda: "haversine_js fpuAntipoda (-12, -180) (12, 0) = NaN"
  using haversine_a_antipodal [of 12]
  by (simp add: haversine_js_def fpuAntipoda_def)

text \<open>
  Claim C7 gives the example route a bus time of \<open>max 25 (round (d / 300))\<close> minutes, a
  total time of that plus 23 minutes and a total distance of \<open>d + 600\<close> for every pair of
  endpoints with coordinates. For the antipodal endpoints \<open>[-12, -180]\<close> and \<open>[12, 0]\<close>
  the distance \<open>d\<close> is half the circumference, 6371000 \<open>\<pi>\<close> metres, while the route
  that the code builds has \<^verbatim>\<open>NaN\<close> as bus time, stop count, total time and total distance.
\<close>

theorem createExampleRoute_antipodal_NaN:
  "\<exists>r seg. createExampleRoute fpuAntipoda antipodaOrigem antipodaDestino busStops = Some r \<and>
       segmentos r = [seg] \<and> tempo seg = NaN \<and> paradas seg = NaN \<and>
       tempo_total r = NaN \<and> distancia_total r = NaN \<and>
       loc_coordinates antipodaOrigem = Some (-12, -180) \<and>
       loc_coordinates antipodaDestino = Some (12, 0) \<and>
       haversine (-12, -180) (12, 0) = 6371000 * pi"
proof -
  have a: "loc_coordinates antipodaOrigem = Some (-12, -180)"
    by (simp add: antipodaOrigem_def)
  have b: "loc_coordinates antipodaDestino = Some (12, 0)"
    by (simp add: antipodaDestino_def)
  have h: "haversine (-12, -180) (12, 0) = 6371000 * pi"
    using haversine_antipodal [of 12] by simp
  show ?thesis
    using createExampleRoute_NaN [OF a b haversine_js_antipoda, of busStops] a b h by auto
qed

section \<open>The orchestrator returns a route\<close>

lemma createExampleRoute_Some:
  "loc_coordinates originLocation = Some oc \<Longrightarrow> loc_coordinates destinationLocation = Some dc
     \<Longrightarrow> \<exists>r. createExampleRoute fpu originLocation destinationLocation busStops = Some r"
  by (simp add: createExampleRoute_def Let_def)

lemma sortRoutes_single: "sortRoutes [x] = Inr [x]"
  by (simp add: sortRoutes_def)

lemma sortRoutes_pair:
  "sortRoutes [Some a, Some b] =
     Inr (if js_lt (tempo_total b) (tempo_total a) then [Some b, Some a] else [Some a, Some b])"
  by (simp add: sortRoutes_def js_sort_def)

lemma calculateRoutes_cases:
  assumes "createExampleRoute fpu originLocation destinationLocation busStops = Some ex"
  shows "calculateRoutes fpu originLocation destinationLocation busStops =
           (case calculateDirectRoute fpu originLocation destinationLocation busStops of
              Inr (Some r) \<Rightarrow> (if js_lt (tempo_total r) (tempo_total ex) then [Some r, Some ex]
                               else [Some ex, Some r])
            | _ \<Rightarrow> [Some ex])"
  using assms
  by (simp add: calculateRoutes_def calculateRoutes_try_def sortRoutes_single sortRoutes_pair
           split: sum.splits option.splits)

text \<open>
  Claim C1: for endpoints with distinct coordinates and any catalog, also the empty one and
  one with entries that make a helper throw, and whatever the distance computation yields,
  \<^verbatim>\<open>calculateRoutes\<close> returns at least one route, and the example route of
  \<^verbatim>\<open>createExampleRoute\<close> is among the routes returned.
\<close>

theorem calculateRoutes_nonempty:
  assumes "loc_coordinates originLocation = Some oc"
    and "loc_coordinates destinationLocation = Some dc"
    and "oc \<noteq> dc"
  shows "\<exists>ex. createExampleRoute fpu originLocation destinationLocation busStops = Some ex \<and>
           Some ex \<in> set (calculateRoutes fpu originLocation destinationLocation busStops) \<and>
           1 \<le> length (calculateRoutes fpu originLocation destinationLocation busStops) \<and>
           None \<notin> set (calculateRoutes fpu originLocation destinationLocation busStops)"
proof -
  obtain ex where ex: "createExampleRoute fpu originLocation destinationLocation busStops = Some ex"
    using createExampleRoute_Some [OF assms(1,2)] by blast
  show ?thesis
    using ex calculateRoutes_cases [OF ex]
    by (auto split: sum.splits option.splits)
qed

theorem calculateRoutes_nonempty_witness:
  "loc_coordinates localTerminal = Some (-15.8311, -48.0428) \<and>
   loc_coordinates localShopping = Some (-15.8298, -48.0389) \<and>
   ((-15.8311, -48.0428) :: coord) \<noteq> (-15.8298, -48.0389) \<and>
   1 \<le> length (calculateRoutes fpuAntipoda localTerminal localShopping []) \<and>
   createExampleRoute fpuAntipoda localTerminal localShopping []
     \<in> set (calculateRoutes fpuAntipoda localTerminal localShopping [])"
proof -
  have a: "loc_coordinates localTerminal = Some (-15.8311, -48.0428)"
    by (simp add: localTerminal_def)
  have b: "loc_coordinates localShopping = Some (-15.8298, -48.0389)"
    by (simp add: localShopping_def)
  have c: "((-15.8311, -48.0428) :: coord) \<noteq> (-15.8298, -48.0389)" by simp
  show ?thesis
    using calculateRoutes_nonempty [OF a b c, of fpuAntipoda "[]"] a b c by auto
qed

section \<open>Endpoints without coordinates\<close>

text \<open>
  Claim C10 says that \<^verbatim>\<open>calculateRoutes\<close> returns the empty list when an endpoint has
  no coordinates. With the empty catalog no helper throws, the \<^verbatim>\<open>try\<close> block runs to
  its end, and the \<^verbatim>\<open>null\<close> of \<^verbatim>\<open>createExampleRoute\<close> is returned inside the list.
\<close>

theorem calculateRoutes_null_entry:
  "calculateRoutes fpu localSemCoordenadas localShopping [] = [None]"
  by (simp add: calculateRoutes_def calculateRoutes_try_def calculateDirectRoute_def
        findNearbyStops_def slice0_def js_sort_def createExampleRoute_def sortRoutes_def
        localSemCoordenadas_def localShopping_def)

text \<open>
  With a stop in the catalog the distance computation throws, and the \<^verbatim>\<open>catch\<close> block
  answers with the empty list.
\<close>

lemma calculateRoutes_missing_coordinates_nonempty_catalog:
  "calculateRoutes fpu localSemCoordenadas localShopping [stop009] = []"
  by (simp add: calculateRoutes_def calculateRoutes_try_def calculateDirectRoute_def
        findNearbyStops_def calculateDistance_def createExampleRoute_def
        localSemCoordenadas_def localShopping_def)

section \<open>Nearby stops\<close>

lemma distance_withDistance [simp]: "distance (withDistance s d) = d"
  by (simp add: withDistance_def)

lemma lines_withDistance [simp]: "lines (withDistance s d) = lines s"
  by (simp add: withDistance_def)

lemma coordinates_withDistance [simp]: "coordinates (withDistance s d) = coordinates s"
  by (simp add: withDistance_def)

lemma stop_type_withDistance [simp]: "stop_type (withDistance s d) = stop_type s"
  by (simp add: withDistance_def)

lemma accessibility_withDistance [simp]: "accessibility (withDistance s d) = accessibility s"
  by (simp add: withDistance_def)

lemma truncate_withDistance [simp]: "stop.truncate (withDistance s d) = s"
  by (simp add: withDistance_def stop.truncate_def)

lemma mapDistance_wellformed:
  assumes "\<forall>s \<in> set busStops. coordinates s \<noteq> None"
  shows "mapDistance fpu (Some p) busStops =
           Inr (map (\<lambda>s. withDistance s (distanceTo fpu p s)) busStops)"
  using assms
  by (induction busStops) (auto simp: calculateDistance_def distanceTo_def)

lemma error_is_TypeError: "(e :: error) = TypeError"
  by (cases e) simp

lemma mapDistance_missing:
  assumes "s \<in> set busStops" and "coordinates s = None"
  shows "mapDistance fpu c busStops = Inl TypeError"
  using assms
proof (induction busStops)
  case Nil
  then show ?case by simp
next
  case (Cons a busStops)
  show ?case
  proof (cases "coordinates a")
    case None
    then show ?thesis by (simp add: calculateDistance_def split: option.splits)
  next
    case (Some ca)
    with Cons.prems have "s \<in> set busStops" by auto
    then have "mapDistance fpu c busStops = Inl TypeError"
      using Cons.IH Cons.prems(2) by simp
    then show ?thesis by (simp add: error_is_TypeError split: sum.splits)
  qed
qed

lemma sorted_take_le_drop:
  assumes "sorted (map f xs)" and "x \<in> set (take n xs)" and "y \<in> set (drop n xs)"
  shows "f x \<le> f y"
proof -
  have "sorted (map f (take n xs) @ map f (drop n xs))"
    using assms(1) by (simp flip: map_append)
  then show ?thesis using assms(2,3) by (auto simp: sorted_append)
qed

lemma insort_key_map:
  "insort_key g (f x) (map f ys) = map f (insort_key (\<lambda>y. g (f y)) x ys)"
  by (induction ys) simp_all

lemma sort_key_map: "sort_key g (map f xs) = map f (sort_key (\<lambda>y. g (f y)) xs)"
  by (induction xs) (simp_all add: insort_key_map)

lemma mset_take_drop: "mset xs - mset (take n xs) = mset (drop n xs)"
proof -
  have "mset xs = mset (take n xs) + mset (drop n xs)"
    by (simp flip: mset_append)
  then show ?thesis by simp
qed

lemma mset_take_subset: "mset (take n xs) \<subseteq># mset xs"
proof -
  have "mset xs = mset (take n xs) + mset (drop n xs)"
    by (simp flip: mset_append)
  then show ?thesis by (metis mset_subset_eq_add_left)
qed

text \<open>
  For a catalog whose stops carry coordinates and a limit that is a count, the result is
  the copies of the first \<open>limit\<close> stops in range, in the order of a stable sort by distance.
\<close>

lemma findNearbyStops_wellformed:
  assumes wf: "\<forall>s \<in> set busStops. coordinates s \<noteq> None"
    and lim: "0 \<le> limit"
  shows "findNearbyStops fpu (Some p) busStops maxDistance limit =
           Inr (map (\<lambda>s. withDistance s (distanceTo fpu p s))
                  (take (nat limit)
                     (sort_key (\<lambda>s. js_val (distanceTo fpu p s))
                        (filter (inRange fpu p maxDistance) busStops))))"
proof -
  let ?f = "\<lambda>s. withDistance s (distanceTo fpu p s)"
  let ?q = "filter (inRange fpu p maxDistance) busStops"
  have flt: "filter (\<lambda>s. js_le (distance s) maxDistance) (map ?f busStops) = map ?f ?q"
    by (simp add: filter_map comp_def inRange_def [abs_def])
  have nn: "\<forall>x \<in> set (map ?f ?q). distance x \<noteq> NaN"
    by (auto simp: inRange_def dest: js_le_Num)
  have "js_sort distance (map ?f ?q) = sort_key (\<lambda>x. js_val (distance x)) (map ?f ?q)"
    by (rule js_sort_Num [OF nn])
  also have "\<dots> = map ?f (sort_key (\<lambda>s. js_val (distanceTo fpu p s)) ?q)"
    by (simp add: sort_key_map)
  finally have srt: "js_sort distance (map ?f ?q) =
      map ?f (sort_key (\<lambda>s. js_val (distanceTo fpu p s)) ?q)" .
  show ?thesis
    using lim
    by (simp add: findNearbyStops_def mapDistance_wellformed [OF wf] flt srt slice0_def take_map)
qed

text \<open>
  Claim C8 says that \<^verbatim>\<open>findNearbyStops\<close> returns, for every catalog and limit, the stops
  in range, at most \<open>limit\<close> of them, and never an error. With the limit \<open>-1\<close> two stops
  are in range and one is returned, which is more than the limit; and a catalog entry
  without coordinates makes the function throw.
\<close>

theorem findNearbyStops_negative_limit_missing_coordinates:
  "map_sum id length
     (findNearbyStops fpuAntipoda (Some (0, 0)) [eqParadaMeio, eqParadaB] 3000 (- 1)) = Inr 1 \<and>
   map_sum id length
     (findNearbyStops fpuAntipoda (Some (0, 0)) [eqParadaMeio, eqParadaB] 3000 10) = Inr 2 \<and>
   findNearbyStops fpuAntipoda (Some (0, 0)) [eqParadaMeio, paradaSemCoordenadas] 3000 10
     = Inl TypeError"
proof -
  have wf: "\<forall>s \<in> set [eqParadaMeio, eqParadaB]. coordinates s \<noteq> None"
    by (simp add: eqParadaMeio_def eqParadaB_def del: not_None_eq)
  have m: "mapDistance fpuAntipoda (Some (0, 0)) [eqParadaMeio, eqParadaB] =
      Inr [withDistance eqParadaMeio (distanceTo fpuAntipoda (0, 0) eqParadaMeio),
           withDistance eqParadaB (distanceTo fpuAntipoda (0, 0) eqParadaB)]"
    using mapDistance_wellformed [OF wf, of fpuAntipoda "(0, 0)"] by simp
  have len: "length (js_sort key xs) = length xs" for key :: "nearStop \<Rightarrow> jsnum" and xs
  proof (induction xs)
    case Nil
    show ?case by (simp add: js_sort_def)
  next
    case (Cons x xs)
    have "length (js_insort key x ys) = Suc (length ys)" for ys
      by (induction ys) simp_all
    then show ?case using Cons by (simp add: js_sort_Cons)
  qed
  have d1: "distanceTo fpuAntipoda (0, 0) eqParadaMeio = Num (6371000 * (\<bar>1 / 80 - 0\<bar> * pi / 180))"
    using haversine_js_equator [of "1 / 80" 0 fpuAntipoda]
    by (simp add: distanceTo_def eqParadaMeio_def)
  have d2: "distanceTo fpuAntipoda (0, 0) eqParadaB = Num (6371000 * (\<bar>13 / 1000 - 0\<bar> * pi / 180))"
    using haversine_js_equator [of "13 / 1000" 0 fpuAntipoda]
    by (simp add: distanceTo_def eqParadaB_def)
  have r1: "js_le (distanceTo fpuAntipoda (0, 0) eqParadaMeio) 3000"
    using pi_bounds by (simp add: d1)
  have r2: "js_le (distanceTo fpuAntipoda (0, 0) eqParadaB) 3000"
    using pi_bounds by (simp add: d2)
  have a: "map_sum id length
     (findNearbyStops fpuAntipoda (Some (0, 0)) [eqParadaMeio, eqParadaB] 3000 (- 1)) = Inr 1"
    by (simp add: findNearbyStops_def m r1 r2 slice0_def len del: mapDistance.simps)
  have b: "map_sum id length
     (findNearbyStops fpuAntipoda (Some (0, 0)) [eqParadaMeio, eqParadaB] 3000 10) = Inr 2"
    by (simp add: findNearbyStops_def m r1 r2 slice0_def len del: mapDistance.simps)
  have "mapDistance fpuAntipoda (Some (0, 0)) [eqParadaMeio, paradaSemCoordenadas] = Inl TypeError"
    by (rule mapDistance_missing [of paradaSemCoordenadas])
       (simp_all add: paradaSemCoordenadas_def)
  then have c: "findNearbyStops fpuAntipoda (Some (0, 0)) [eqParadaMeio, paradaSemCoordenadas] 3000 10
     = Inl TypeError"
    by (simp add: findNearbyStops_def)
  show ?thesis using a b c by simp
qed

text \<open>
  Claim C8, amended: for a catalog whose stops carry coordinates and a limit that is a count
  (\<open>0 \<le> limit\<close>), \<^verbatim>\<open>findNearbyStops\<close> returns a list and throws nothing. Every entry has
  the coordinates of its stop and as \<open>distance\<close> the number that the distance computation
  yields for the point and these coordinates, and this number is at most \<open>maxDistance\<close>.
  Without the distance the entries are the first \<open>limit\<close> catalog stops in range in the
  order of a stable sort by distance; so, as multisets, they are stops in range of the
  catalog, none more often than the catalog has it. The list is sorted by distance and has
  at most \<open>limit\<close> entries, exactly the smaller of \<open>limit\<close> and the number of stops in
  range; a stop in range that was cut off is no nearer than any stop returned; and the list
  is empty when no stop is in range.
\<close>

theorem findNearbyStops_in_range_sorted_truncated:
  assumes wf: "\<forall>s \<in> set busStops. coordinates s \<noteq> None"
    and lim: "0 \<le> limit"
  shows "\<exists>r. findNearbyStops fpu (Some p) busStops maxDistance limit = Inr r \<and>
           (\<forall>x \<in> set r. \<exists>c d. coordinates x = Some c \<and> haversine_js fpu p c = Num d \<and>
                               distance x = Num d \<and> d \<le> maxDistance) \<and>
           map stop.truncate r =
             take (nat limit) (sort_key (\<lambda>s. js_val (distanceTo fpu p s))
                                 (filter (inRange fpu p maxDistance) busStops)) \<and>
           mset (map stop.truncate r) \<subseteq># mset (filter (inRange fpu p maxDistance) busStops) \<and>
           sorted (map (\<lambda>x. js_val (distance x)) r) \<and>
           int (length r) \<le> limit \<and>
           length r = min (nat limit) (length (filter (inRange fpu p maxDistance) busStops)) \<and>
           (\<forall>s \<in># mset (filter (inRange fpu p maxDistance) busStops) - mset (map stop.truncate r).
               \<forall>x \<in> set r. js_val (distance x) \<le> js_val (distanceTo fpu p s)) \<and>
           ((\<forall>s \<in> set busStops. \<not> inRange fpu p maxDistance s) \<longrightarrow> r = [])"
proof -
  let ?f = "\<lambda>s. withDistance s (distanceTo fpu p s)"
  let ?k = "\<lambda>s. js_val (distanceTo fpu p s)"
  define q where "q = filter (inRange fpu p maxDistance) busStops"
  define srt where "srt = sort_key ?k q"
  define r where "r = map ?f (take (nat limit) srt)"
  have res: "findNearbyStops fpu (Some p) busStops maxDistance limit = Inr r"
    by (simp add: findNearbyStops_wellformed [OF wf lim] r_def srt_def q_def)
  have set_srt: "set srt = set q" by (simp add: srt_def)
  have mset_srt: "mset srt = mset q" by (simp add: srt_def)
  have len_srt: "length srt = length q" by (simp add: srt_def)
  have sorted_srt: "sorted (map ?k srt)" by (simp add: srt_def)
  have tr: "map stop.truncate r = take (nat limit) srt"
    by (simp add: r_def comp_def)
  have p1: "\<forall>x \<in> set r. \<exists>c d. coordinates x = Some c \<and> haversine_js fpu p c = Num d \<and>
                               distance x = Num d \<and> d \<le> maxDistance"
  proof
    fix x assume "x \<in> set r"
    then obtain s where s: "s \<in> set (take (nat limit) srt)" and x: "x = ?f s"
      by (auto simp: r_def)
    from s have "s \<in> set q" using set_take_subset [of "nat limit" srt] set_srt by auto
    then have sb: "s \<in> set busStops" and rg: "inRange fpu p maxDistance s"
      by (auto simp: q_def)
    from sb wf obtain c where c: "coordinates s = Some c" by auto
    from rg c have "js_le (haversine_js fpu p c) maxDistance"
      by (simp add: inRange_def distanceTo_def)
    then obtain d where d: "haversine_js fpu p c = Num d" and dm: "d \<le> maxDistance"
      by (cases "haversine_js fpu p c") auto
    show "\<exists>c d. coordinates x = Some c \<and> haversine_js fpu p c = Num d \<and>
                 distance x = Num d \<and> d \<le> maxDistance"
      using c d dm by (simp add: x distanceTo_def)
  qed
  have p2: "map stop.truncate r = take (nat limit) (sort_key ?k
              (filter (inRange fpu p maxDistance) busStops))"
    by (simp add: tr srt_def q_def)
  have p3: "mset (map stop.truncate r) \<subseteq># mset (filter (inRange fpu p maxDistance) busStops)"
    using mset_take_subset [of "nat limit" srt] by (simp add: tr mset_srt q_def)
  have "map (\<lambda>x. js_val (distance x)) r = take (nat limit) (map ?k srt)"
    by (simp add: r_def comp_def take_map)
  then have p4: "sorted (map (\<lambda>x. js_val (distance x)) r)"
    using sorted_srt by (simp add: sorted_wrt_take)
  have p5: "int (length r) \<le> limit" using lim by (simp add: r_def)
  have p6: "length r = min (nat limit) (length (filter (inRange fpu p maxDistance) busStops))"
    by (simp add: r_def len_srt q_def min.commute)
  have p7: "\<forall>s \<in># mset (filter (inRange fpu p maxDistance) busStops) - mset (map stop.truncate r).
               \<forall>x \<in> set r. js_val (distance x) \<le> js_val (distanceTo fpu p s)"
  proof (intro ballI)
    fix s x
    assume s: "s \<in># mset (filter (inRange fpu p maxDistance) busStops) - mset (map stop.truncate r)"
      and x: "x \<in> set r"
    have "mset (filter (inRange fpu p maxDistance) busStops) - mset (map stop.truncate r)
            = mset (drop (nat limit) srt)"
      using mset_take_drop [of srt "nat limit"] by (simp add: tr mset_srt q_def)
    with s have sd: "s \<in> set (drop (nat limit) srt)" by simp
    from x obtain t where t: "t \<in> set (take (nat limit) srt)" and xt: "x = ?f t"
      by (auto simp: r_def)
    have "?k t \<le> ?k s" by (rule sorted_take_le_drop [OF sorted_srt t sd])
    then show "js_val (distance x) \<le> js_val (distanceTo fpu p s)" by (simp add: xt)
  qed
  have p8: "(\<forall>s \<in> set busStops. \<not> inRange fpu p maxDistance s) \<longrightarrow> r = []"
  proof
    assume "\<forall>s \<in> set busStops. \<not> inRange fpu p maxDistance s"
    then have "q = []" by (simp add: q_def filter_empty_conv)
    then show "r = []" by (simp add: r_def srt_def)
  qed
  show ?thesis using res p1 p2 p3 p4 p5 p6 p7 p8 by blast
qed

theorem findNearbyStops_in_range_sorted_truncated_witness:
  "\<exists>r. findNearbyStops fpuAntipoda (Some (0, 0)) [eqParadaMeio, eqParadaB] 3000 1 = Inr r \<and>
       map stop.truncate r = [eqParadaMeio] \<and>
       map distance r = [Num (6371000 * (1 / 80 * pi / 180))] \<and>
       int (length r) \<le> 1"
proof -
  have wf: "\<forall>s \<in> set [eqParadaMeio, eqParadaB]. coordinates s \<noteq> None"
    by (simp add: eqParadaMeio_def eqParadaB_def del: not_None_eq)
  have lim: "(0 :: int) \<le> 1" by simp
  have d1: "distanceTo fpuAntipoda (0, 0) eqParadaMeio = Num (6371000 * (1 / 80 * pi / 180))"
    using haversine_js_equator [of "1 / 80" 0 fpuAntipoda]
    by (simp add: distanceTo_def eqParadaMeio_def)
  have d2: "distanceTo fpuAntipoda (0, 0) eqParadaB = Num (6371000 * (13 / 1000 * pi / 180))"
    using haversine_js_equator [of "13 / 1000" 0 fpuAntipoda]
    by (simp add: distanceTo_def eqParadaB_def)
  have r1: "inRange fpuAntipoda (0, 0) 3000 eqParadaMeio"
    using pi_bounds by (simp add: inRange_def d1)
  have r2: "inRange fpuAntipoda (0, 0) 3000 eqParadaB"
    using pi_bounds by (simp add: inRange_def d2)
  have srt: "take (nat 1) (sort_key (\<lambda>s. js_val (distanceTo fpuAntipoda (0, 0) s))
                (filter (inRange fpuAntipoda (0, 0) 3000) [eqParadaMeio, eqParadaB]))
             = [eqParadaMeio]"
    using pi_gt_zero by (simp add: r1 r2 d1 d2)
  obtain r where res: "findNearbyStops fpuAntipoda (Some (0, 0)) [eqParadaMeio, eqParadaB] 3000 1 = Inr r"
    and tr: "map stop.truncate r = take (nat 1) (sort_key (\<lambda>s. js_val (distanceTo fpuAntipoda (0, 0) s))
                (filter (inRange fpuAntipoda (0, 0) 3000) [eqParadaMeio, eqParadaB]))"
    and ds: "\<forall>x \<in> set r. \<exists>c d. coordinates x = Some c \<and> haversine_js fpuAntipoda (0, 0) c = Num d \<and>
                               distance x = Num d \<and> d \<le> 3000"
    and ln: "int (length r) \<le> 1"
    using findNearbyStops_in_range_sorted_truncated [OF wf lim, of fpuAntipoda "(0, 0)" 3000]
    by blast
  from tr srt have tr1: "map stop.truncate r = [eqParadaMeio]" by simp
  then obtain x where rx: "r = [x]" and tx: "stop.truncate x = eqParadaMeio"
    by (cases r) auto
  have cx: "coordinates x = Some (0, 1 / 80)"
  proof -
    have "coordinates (stop.truncate x) = coordinates x" by (simp add: stop.truncate_def)
    then show ?thesis by (simp add: tx eqParadaMeio_def)
  qed
  from ds rx cx obtain d where "haversine_js fpuAntipoda (0, 0) (0, 1 / 80) = Num d"
    and "distance x = Num d" by auto
  then have "distance x = Num (6371000 * (1 / 80 * pi / 180))"
    using haversine_js_equator [of "1 / 80" 0 fpuAntipoda] by simp
  then show ?thesis using res tr1 rx ln by simp
qed

text \<open>
  A stop that the distance computation gives \<^verbatim>\<open>NaN\<close> for is in no range: the stop at the
  antipode of the point is left out, however large \<open>maxDistance\<close> is.
\<close>

lemma findNearbyStops_drops_antipode:
  "findNearbyStops fpuAntipoda (Some (-12, -180)) [paradaAntipoda] maxDistance limit = Inr []"
  "distanceTo fpuAntipoda (-12, -180) paradaAntipoda = NaN"
  "haversine (-12, -180) (12, 0) = 6371000 * pi"
proof -
  have c: "coordinates paradaAntipoda = Some (12, 0)" by (simp add: paradaAntipoda_def)
  show "findNearbyStops fpuAntipoda (Some (-12, -180)) [paradaAntipoda] maxDistance limit = Inr []"
    by (simp add: findNearbyStops_def calculateDistance_def c haversine_js_antipoda
          js_sort_def slice0_def)
  show "distanceTo fpuAntipoda (-12, -180) paradaAntipoda = NaN"
    by (simp add: distanceTo_def c haversine_js_antipoda)
  show "haversine (-12, -180) (12, 0) = 6371000 * pi"
    using haversine_antipodal [of 12] by simp
qed

section \<open>Distances on the equator\<close>

lemma haversine_origem_meio: "haversine (0, 0) (0, 1 / 80) = 6371000 * (1 / 80 * pi / 180)"
  using haversine_equator [of "1 / 80" 0] by simp

lemma haversine_destino_meio: "haversine (0, 1 / 40) (0, 1 / 80) = haversine (0, 0) (0, 1 / 80)"
  using haversine_equator [of "1 / 80" "1 / 40"] by (simp add: haversine_origem_meio)

lemma haversine_origem_destino: "haversine (0, 0) (0, 1 / 40) = 2 * haversine (0, 0) (0, 1 / 80)"
  using haversine_equator [of "1 / 40" 0] by (simp add: haversine_origem_meio)

lemma haversine_js_origem_meio:
  "haversine_js fpu (0, 0) (0, 1 / 80) = Num (haversine (0, 0) (0, 1 / 80))"
  by (rule haversine_js_equator_Num) simp

lemma haversine_js_destino_meio:
  "haversine_js fpu (0, 1 / 40) (0, 1 / 80) = Num (haversine (0, 0) (0, 1 / 80))"
  using haversine_js_equator_Num [of "1 / 80" "1 / 40" fpu] by (simp add: haversine_destino_meio)

lemma haversine_js_origem_destino:
  "haversine_js fpu (0, 0) (0, 1 / 40) = Num (2 * haversine (0, 0) (0, 1 / 80))"
  using haversine_js_equator_Num [of "1 / 40" 0 fpu] by (simp add: haversine_origem_destino)

lemma meio_bounds:
  "1380 < haversine (0, 0) (0, 1 / 80)" "haversine (0, 0) (0, 1 / 80) \<le> 1420"
  using pi_bounds by (simp_all add: haversine_origem_meio)

lemma meio_walk: "\<lceil>haversine (0, 0) (0, 1 / 80) / 80\<rceil> = 18"
  using meio_bounds by (intro ceiling_unique) simp_all

lemma origem_destino_round: "round (haversine (0, 0) (0, 1 / 80) / 150) = 9"
proof -
  have "\<lfloor>haversine (0, 0) (0, 1 / 80) / 150 + 1 / 2\<rfloor> = 9"
    using meio_bounds by (intro floor_unique) simp_all
  then show ?thesis by (simp add: round_def)
qed

lemma eqParadaMeio_fields:
  "coordinates eqParadaMeio = Some (0, 1 / 80)"
  "lines eqParadaMeio = Some [''0.111'']"
  "stop_type eqParadaMeio = Some ''regular''"
  "accessibility eqParadaMeio = True"
  by (simp_all add: eqParadaMeio_def)

lemma eq_endpoints_fields:
  "loc_coordinates eqOrigem = Some (0, 0)"
  "loc_coordinates eqDestino = Some (0, 1 / 40)"
  by (simp_all add: eqOrigem_def eqDestino_def)

lemma findNearbyStops_origem_meio:
  "findNearbyStops fpu (Some (0, 0)) [eqParadaMeio] 3000 10 =
     Inr [withDistance eqParadaMeio (Num (haversine (0, 0) (0, 1 / 80)))]"
  using meio_bounds
  by (simp add: findNearbyStops_def calculateDistance_def slice0_def js_sort_def
        eqParadaMeio_fields haversine_js_origem_meio)

lemma findNearbyStops_destino_meio:
  "findNearbyStops fpu (Some (0, 1 / 40)) [eqParadaMeio] 3000 10 =
     Inr [withDistance eqParadaMeio (Num (haversine (0, 0) (0, 1 / 80)))]"
  using meio_bounds
  by (simp add: findNearbyStops_def calculateDistance_def slice0_def js_sort_def
        eqParadaMeio_fields haversine_js_destino_meio)

lemma calculateDirectRoute_meio:
  "calculateDirectRoute fpu eqOrigem eqDestino [eqParadaMeio] =
     map_sum id Some
       (directRouteFor fpu eqOrigem eqDestino
          (withDistance eqParadaMeio (Num (haversine (0, 0) (0, 1 / 80))))
          (withDistance eqParadaMeio (Num (haversine (0, 0) (0, 1 / 80)))) [''0.111''])"
  by (simp add: calculateDirectRoute_def eq_endpoints_fields
        findNearbyStops_origem_meio findNearbyStops_destino_meio
        findConnectingLines_def eqParadaMeio_fields split: sum.splits)

lemma calculateDirectRoute_meio_times:
  "map_sum id (map_option tempo_total) (calculateDirectRoute fpu eqOrigem eqDestino [eqParadaMeio])
     = Inr (Some (Num 48))"
  "map_sum id (map_option distancia_total) (calculateDirectRoute fpu eqOrigem eqDestino [eqParadaMeio])
     = Inr (Some (Num (2 * haversine (0, 0) (0, 1 / 80))))"
  by (simp_all add: calculateDirectRoute_meio directRouteFor_def estimateStopCount_def
        calculateDistance_def calculateWalkingTime_def calculateBusTime_def
        haversine_js_same meio_walk Let_def eqParadaMeio_fields)

lemma map_sum_option_SomeD:
  "map_sum id (map_option f) x = Inr (Some v) \<Longrightarrow> \<exists>r. x = Inr (Some r) \<and> f r = v"
  by (cases x) auto

lemma createExampleRoute_eq_times:
  "\<exists>ex. createExampleRoute fpu eqOrigem eqDestino busStops = Some ex \<and>
        tempo_total ex = Num 48 \<and>
        distancia_total ex = Num (2 * haversine (0, 0) (0, 1 / 80) + 600)"
  by (simp add: createExampleRoute_def eq_endpoints_fields Let_def haversine_js_origem_destino
        origem_destino_round)

section \<open>Which stop pairs yield a route\<close>

lemma eqParadaB_fields:
  "coordinates eqParadaB = Some (0, 13 / 1000)"
  "lines eqParadaB = Some [''0.111'', ''0.180'']"
  by (simp_all add: eqParadaB_def)

lemma haversine_origem_B: "haversine (0, 0) (0, 13 / 1000) = 6371000 * (13 / 1000 * pi / 180)"
  using haversine_equator [of "13 / 1000" 0] by simp

lemma haversine_destino_B: "haversine (0, 1 / 40) (0, 13 / 1000) = 6371000 * (12 / 1000 * pi / 180)"
  using haversine_equator [of "13 / 1000" "1 / 40"] by simp

lemma haversine_js_origem_B:
  "haversine_js fpu (0, 0) (0, 13 / 1000) = Num (haversine (0, 0) (0, 13 / 1000))"
  by (rule haversine_js_equator_Num) simp

lemma haversine_js_destino_B:
  "haversine_js fpu (0, 1 / 40) (0, 13 / 1000) = Num (haversine (0, 1 / 40) (0, 13 / 1000))"
  by (rule haversine_js_equator_Num) simp

lemma B_bounds:
  "haversine (0, 0) (0, 1 / 80) \<le> haversine (0, 0) (0, 13 / 1000)"
  "haversine (0, 0) (0, 13 / 1000) \<le> 3000"
  "haversine (0, 1 / 40) (0, 13 / 1000) < haversine (0, 0) (0, 1 / 80)"
  "haversine (0, 1 / 40) (0, 13 / 1000) \<le> 3000"
  using pi_bounds
  by (simp_all add: haversine_origem_B haversine_destino_B haversine_origem_meio)

lemma findNearbyStops_origem_two:
  "findNearbyStops fpu (Some (0, 0)) [eqParadaMeio, eqParadaB] 3000 10 =
     Inr [withDistance eqParadaMeio (Num (haversine (0, 0) (0, 1 / 80))),
          withDistance eqParadaB (Num (haversine (0, 0) (0, 13 / 1000)))]"
  using meio_bounds B_bounds
  by (simp add: findNearbyStops_def calculateDistance_def slice0_def js_sort_def
        eqParadaMeio_fields eqParadaB_fields haversine_js_origem_meio haversine_js_origem_B)

lemma findNearbyStops_destino_two:
  "findNearbyStops fpu (Some (0, 1 / 40)) [eqParadaMeio, eqParadaB] 3000 10 =
     Inr [withDistance eqParadaB (Num (haversine (0, 1 / 40) (0, 13 / 1000))),
          withDistance eqParadaMeio (Num (haversine (0, 0) (0, 1 / 80)))]"
  using meio_bounds B_bounds
  by (simp add: findNearbyStops_def calculateDistance_def slice0_def js_sort_def
        eqParadaMeio_fields eqParadaB_fields haversine_js_destino_meio haversine_js_destino_B)

lemma directInner_first:
  "directInner fpu originLocation destinationLocation a (b # bs) =
     directInner fpu originLocation destinationLocation a [b]"
  using findConnectingLines_nonempty [of a b]
  by (auto split: sum.splits)

lemma directInner_first_not_None:
  "directInner fpu originLocation destinationLocation a [b] \<noteq> Inr None"
  using findConnectingLines_nonempty [of a b]
  by (auto split: sum.splits)

lemma directOuter_first:
  "directOuter fpu originLocation destinationLocation (a # as) (b # bs) =
     directInner fpu originLocation destinationLocation a [b]"
proof -
  define x where "x = directInner fpu originLocation destinationLocation a [b]"
  have e: "directInner fpu originLocation destinationLocation a (b # bs) = x"
    unfolding x_def by (rule directInner_first)
  have n: "x \<noteq> Inr None"
    unfolding x_def by (rule directInner_first_not_None)
  have "directOuter fpu originLocation destinationLocation (a # as) (b # bs) =
          (case x of
             Inl e \<Rightarrow> Inl e
           | Inr (Some r) \<Rightarrow> Inr (Some r)
           | Inr None \<Rightarrow> directOuter fpu originLocation destinationLocation as (b # bs))"
    by (simp only: directOuter.simps e)
  also have "\<dots> = x" using n by (cases x) (auto split: option.splits)
  finally show ?thesis by (simp add: x_def)
qed

lemma directOuter_no_destination:
  "directOuter fpu originLocation destinationLocation as [] = Inr None"
  by (induction as) auto

lemma directRouteFor_paradaOrigem:
  "directRouteFor fpu originLocation destinationLocation a b cl = Inr r
     \<Longrightarrow> map paradaOrigem (segmentos r) = [NearParada a]"
  by (auto simp: directRouteFor_def estimateStopCount_def Let_def split: sum.splits)

lemma directInner_paradaOrigem:
  "directInner fpu originLocation destinationLocation a [b] = Inr (Some r)
     \<Longrightarrow> map paradaOrigem (segmentos r) = [NearParada a]"
  using directRouteFor_paradaOrigem [of fpu originLocation destinationLocation a b]
  by (auto split: sum.splits if_splits)

lemma directInner_ok:
  assumes "coordinates a = Some ca" and "coordinates b = Some cb"
    and "lines a = Some la" and "lines b = Some lb"
  shows "\<exists>r. directInner fpu originLocation destinationLocation a [b] = Inr (Some r)"
  using assms
  by (auto simp: findConnectingLines_def directRouteFor_def estimateStopCount_def
        calculateDistance_def Let_def)

lemma createExampleRoute_paradaOrigem:
  "createExampleRoute fpu originLocation destinationLocation busStops = Some ex
     \<Longrightarrow> \<exists>s. map paradaOrigem (segmentos ex) = [StopParada s]"
  by (auto simp: createExampleRoute_def Let_def split: option.splits)

lemma calculateDirectRoute_two:
  "calculateDirectRoute fpu eqOrigem eqDestino [eqParadaMeio, eqParadaB] =
     directInner fpu eqOrigem eqDestino
       (withDistance eqParadaMeio (Num (haversine (0, 0) (0, 1 / 80))))
       [withDistance eqParadaB (Num (haversine (0, 1 / 40) (0, 13 / 1000)))]"
  by (simp only: calculateDirectRoute_def eq_endpoints_fields findNearbyStops_origem_two
        findNearbyStops_destino_two sum.case directOuter_first)

text \<open>
  Claim C2, as stated: the direct builder is tried on every pair of a stop near the origin
  and a stop near the destination, and every route it builds is kept. With two stops near
  both endpoints, all on one line, only the pair of the nearest stops contributes: two
  routes are returned, and the route that the builder's loop body yields for the second
  origin stop and the second destination stop is not among them.
\<close>

theorem calculateRoutes_drops_later_pairs:
  "length (calculateRoutes fpuAntipoda eqOrigem eqDestino [eqParadaMeio, eqParadaB]) = 2 \<and>
   findNearbyStops fpuAntipoda (loc_coordinates eqOrigem) [eqParadaMeio, eqParadaB] 3000 10 =
     Inr [withDistance eqParadaMeio (Num (haversine (0, 0) (0, 1 / 80))),
          withDistance eqParadaB (Num (haversine (0, 0) (0, 13 / 1000)))] \<and>
   findNearbyStops fpuAntipoda (loc_coordinates eqDestino) [eqParadaMeio, eqParadaB] 3000 10 =
     Inr [withDistance eqParadaB (Num (haversine (0, 1 / 40) (0, 13 / 1000))),
          withDistance eqParadaMeio (Num (haversine (0, 0) (0, 1 / 80)))] \<and>
   (case directInner fpuAntipoda eqOrigem eqDestino
           (withDistance eqParadaB (Num (haversine (0, 0) (0, 13 / 1000))))
           [withDistance eqParadaMeio (Num (haversine (0, 0) (0, 1 / 80)))] of
      Inr (Some r) \<Rightarrow> Some r \<notin> set (calculateRoutes fpuAntipoda eqOrigem eqDestino [eqParadaMeio, eqParadaB])
    | _ \<Rightarrow> False)"
proof -
  let ?A = "withDistance eqParadaMeio (Num (haversine (0, 0) (0, 1 / 80)))"
  let ?B = "withDistance eqParadaB (Num (haversine (0, 0) (0, 13 / 1000)))"
  let ?B' = "withDistance eqParadaB (Num (haversine (0, 1 / 40) (0, 13 / 1000)))"
  obtain ex where ex: "createExampleRoute fpuAntipoda eqOrigem eqDestino [eqParadaMeio, eqParadaB] = Some ex"
    using createExampleRoute_eq_times by blast
  obtain s where exs: "map paradaOrigem (segmentos ex) = [StopParada s]"
    using createExampleRoute_paradaOrigem [OF ex] by (elim exE)
  have "\<exists>r. directInner fpuAntipoda eqOrigem eqDestino ?A [?B'] = Inr (Some r)"
    by (rule directInner_ok) (simp_all add: eqParadaMeio_fields eqParadaB_fields)
  then obtain r1 where r1: "directInner fpuAntipoda eqOrigem eqDestino ?A [?B'] = Inr (Some r1)"
    by (elim exE)
  have "\<exists>r. directInner fpuAntipoda eqOrigem eqDestino ?B [?A] = Inr (Some r)"
    by (rule directInner_ok) (simp_all add: eqParadaMeio_fields eqParadaB_fields)
  then obtain r2 where r2: "directInner fpuAntipoda eqOrigem eqDestino ?B [?A] = Inr (Some r2)"
    by (elim exE)
  have o1: "map paradaOrigem (segmentos r1) = [NearParada ?A]"
    using directInner_paradaOrigem [OF r1] .
  have o2: "map paradaOrigem (segmentos r2) = [NearParada ?B]"
    using directInner_paradaOrigem [OF r2] .
  have ne: "?A \<noteq> ?B"
    by (simp add: withDistance_def eqParadaMeio_def eqParadaB_def)
  have d1: "r2 \<noteq> r1" using o1 o2 ne by auto
  have d2: "r2 \<noteq> ex" using exs o2 by auto
  have dr: "calculateDirectRoute fpuAntipoda eqOrigem eqDestino [eqParadaMeio, eqParadaB] = Inr (Some r1)"
    using calculateDirectRoute_two r1 by simp
  have res: "set (calculateRoutes fpuAntipoda eqOrigem eqDestino [eqParadaMeio, eqParadaB]) = {Some ex, Some r1}"
    "length (calculateRoutes fpuAntipoda eqOrigem eqDestino [eqParadaMeio, eqParadaB]) = 2"
    using calculateRoutes_cases [OF ex] dr by auto
  show ?thesis
    using res d1 d2 r2
    by (simp add: eq_endpoints_fields findNearbyStops_origem_two findNearbyStops_destino_two)
qed

text \<open>
  Claim C2, amended: for endpoints that carry coordinates, \<^verbatim>\<open>calculateRoutes\<close> returns the
  example route and at most one direct route, the one \<^verbatim>\<open>calculateDirectRoute\<close> answers
  with; that route is the one of the first stop pair, the nearest stop to the origin and
  the nearest stop to the destination (a pair always has a line, if need be the
  demonstration line); without a stop near one of the endpoints there is no direct route.
  The transfer builder takes no part in the result.
\<close>

theorem calculateRoutes_first_pair_only:
  assumes "loc_coordinates originLocation = Some oc"
    and "loc_coordinates destinationLocation = Some dc"
  shows "\<exists>ex. createExampleRoute fpu originLocation destinationLocation busStops = Some ex \<and>
           (case calculateDirectRoute fpu originLocation destinationLocation busStops of
              Inr (Some r) \<Rightarrow>
                mset (calculateRoutes fpu originLocation destinationLocation busStops)
                  = {#Some ex, Some r#}
            | _ \<Rightarrow> calculateRoutes fpu originLocation destinationLocation busStops = [Some ex]) \<and>
           (\<forall>a as b bs.
               findNearbyStops fpu (Some oc) busStops 3000 10 = Inr (a # as) \<and>
               findNearbyStops fpu (Some dc) busStops 3000 10 = Inr (b # bs)
                 \<longrightarrow> calculateDirectRoute fpu originLocation destinationLocation busStops
                       = directInner fpu originLocation destinationLocation a [b]) \<and>
           (\<forall>as bs.
               findNearbyStops fpu (Some oc) busStops 3000 10 = Inr as \<and>
               findNearbyStops fpu (Some dc) busStops 3000 10 = Inr bs \<and> (as = [] \<or> bs = [])
                 \<longrightarrow> calculateDirectRoute fpu originLocation destinationLocation busStops = Inr None)"
proof -
  obtain ex where ex: "createExampleRoute fpu originLocation destinationLocation busStops = Some ex"
    using createExampleRoute_Some [OF assms] by blast
  have p1: "(case calculateDirectRoute fpu originLocation destinationLocation busStops of
              Inr (Some r) \<Rightarrow>
                mset (calculateRoutes fpu originLocation destinationLocation busStops)
                  = {#Some ex, Some r#}
            | _ \<Rightarrow> calculateRoutes fpu originLocation destinationLocation busStops = [Some ex])"
    using calculateRoutes_cases [OF ex] by (auto split: sum.splits option.splits)
  have p2: "\<forall>a as b bs.
               findNearbyStops fpu (Some oc) busStops 3000 10 = Inr (a # as) \<and>
               findNearbyStops fpu (Some dc) busStops 3000 10 = Inr (b # bs)
                 \<longrightarrow> calculateDirectRoute fpu originLocation destinationLocation busStops
                       = directInner fpu originLocation destinationLocation a [b]"
    using assms by (auto simp: calculateDirectRoute_def directOuter_first simp del: directOuter.simps directInner.simps)
  have p3: "\<forall>as bs.
               findNearbyStops fpu (Some oc) busStops 3000 10 = Inr as \<and>
               findNearbyStops fpu (Some dc) busStops 3000 10 = Inr bs \<and> (as = [] \<or> bs = [])
                 \<longrightarrow> calculateDirectRoute fpu originLocation destinationLocation busStops = Inr None"
    using assms by (auto simp: calculateDirectRoute_def directOuter_no_destination)
  show ?thesis using ex p1 p2 p3 by blast
qed

theorem calculateRoutes_first_pair_only_witness:
  "calculateDirectRoute fpuAntipoda eqOrigem eqDestino [eqParadaMeio, eqParadaB] =
     directInner fpuAntipoda eqOrigem eqDestino
       (withDistance eqParadaMeio (Num (haversine (0, 0) (0, 1 / 80))))
       [withDistance eqParadaB (Num (haversine (0, 1 / 40) (0, 13 / 1000)))] \<and>
   calculateRoutes fpuAntipoda eqOrigem eqDestino [] = [createExampleRoute fpuAntipoda eqOrigem eqDestino []]"
proof -
  have a: "loc_coordinates eqOrigem = Some (0, 0)" by (simp add: eqOrigem_def)
  have b: "loc_coordinates eqDestino = Some (0, 1 / 40)" by (simp add: eqDestino_def)
  have e: "calculateDirectRoute fpuAntipoda eqOrigem eqDestino [] = Inr None"
    using calculateRoutes_first_pair_only [OF a b, of fpuAntipoda "[]"]
    by (auto simp: findNearbyStops_def slice0_def js_sort_def)
  show ?thesis
    using calculateRoutes_first_pair_only [OF a b, of fpuAntipoda "[eqParadaMeio, eqParadaB]"]
      calculateRoutes_first_pair_only [OF a b, of fpuAntipoda "[]"] e
    by (auto simp: findNearbyStops_origem_two findNearbyStops_destino_two)
qed

section \<open>Order of the routes returned\<close>

text \<open>
  Claim C4, as stated: of two returned routes with the same total time, the one with the
  smaller total distance comes first. With one stop half-way between two endpoints
  2.8 km apart, the example route and the direct route both take 48 minutes; the example
  route is 600 m longer and is returned first.
\<close>

theorem calculateRoutes_tie_ignores_distance:
  "map (map_option tempo_total) (calculateRoutes fpuAntipoda eqOrigem eqDestino [eqParadaMeio])
     = [Some (Num 48), Some (Num 48)] \<and>
   map (map_option distancia_total) (calculateRoutes fpuAntipoda eqOrigem eqDestino [eqParadaMeio])
     = [Some (Num (2 * haversine (0, 0) (0, 1 / 80) + 600)),
        Some (Num (2 * haversine (0, 0) (0, 1 / 80)))] \<and>
   map (map_option transferencias) (calculateRoutes fpuAntipoda eqOrigem eqDestino [eqParadaMeio])
     = [Some 0, Some 0] \<and>
   js_lt (distancia_total (the (calculateRoutes fpuAntipoda eqOrigem eqDestino [eqParadaMeio] ! 1)))
     (distancia_total (the (calculateRoutes fpuAntipoda eqOrigem eqDestino [eqParadaMeio] ! 0)))"
proof -
  obtain ex where ex: "createExampleRoute fpuAntipoda eqOrigem eqDestino [eqParadaMeio] = Some ex"
    and ext: "tempo_total ex = Num 48"
    and exd: "distancia_total ex = Num (2 * haversine (0, 0) (0, 1 / 80) + 600)"
    using createExampleRoute_eq_times by blast
  have extr: "transferencias ex = 0"
    using ex by (auto simp: createExampleRoute_def Let_def split: option.splits)
  obtain r where r: "calculateDirectRoute fpuAntipoda eqOrigem eqDestino [eqParadaMeio] = Inr (Some r)"
    and rt: "tempo_total r = Num 48"
    using map_sum_option_SomeD [OF calculateDirectRoute_meio_times(1)] by blast
  have rd: "distancia_total r = Num (2 * haversine (0, 0) (0, 1 / 80))"
    using calculateDirectRoute_meio_times(2) [of fpuAntipoda] r by simp
  have rtr: "transferencias r = 0"
    using r by (auto simp: calculateDirectRoute_meio directRouteFor_def Let_def
                     split: sum.splits)
  have "calculateRoutes fpuAntipoda eqOrigem eqDestino [eqParadaMeio] = [Some ex, Some r]"
    using calculateRoutes_cases [OF ex] r ext rt by simp
  then show ?thesis using ext exd rt rd extr rtr by simp
qed

lemma calculateRoutes_as_sort:
  assumes "createExampleRoute fpu originLocation destinationLocation busStops = Some ex"
  shows "calculateRoutes fpu originLocation destinationLocation busStops =
           map Some (js_sort tempo_total
             (ex # (case calculateDirectRoute fpu originLocation destinationLocation busStops of
                      Inr (Some r) \<Rightarrow> [r] | _ \<Rightarrow> [])))"
  using calculateRoutes_cases [OF assms]
  by (auto simp: js_sort_def split: sum.splits option.splits)

lemma js_sort_pool_adjacent:
  assumes "length pool \<le> 2" and "Suc i < length (js_sort key pool)"
  shows "\<not> js_lt (key (js_sort key pool ! Suc i)) (key (js_sort key pool ! i))"
proof -
  from assms have "length pool = 2"
    using set_js_sort [of key pool]
    by (cases pool; cases "tl pool"; simp add: js_sort_def split: if_splits)
  then obtain a b where p: "pool = [a, b]"
    by (cases pool; cases "tl pool") auto
  have i: "i = 0" using assms(2) by (simp add: p js_sort_def split: if_splits)
  show ?thesis
    by (cases "key a"; cases "key b") (simp_all add: p js_sort_def i)
qed

text \<open>
  Claim C4, amended: for endpoints that carry coordinates, the list returned by
  \<^verbatim>\<open>calculateRoutes\<close> is sorted by \<^verbatim>\<open>tempo_total\<close> alone: no route has a total time below
  that of the route before it, so when the total times are numbers each route takes no
  longer than the next one; the sort is stable, so on equal \<^verbatim>\<open>tempo_total\<close> the example
  route stays before the direct route, whatever their distances and transfers.
\<close>

theorem calculateRoutes_sorted_by_time:
  assumes "loc_coordinates originLocation = Some oc"
    and "loc_coordinates destinationLocation = Some dc"
  shows "\<exists>rs. calculateRoutes fpu originLocation destinationLocation busStops = map Some rs \<and>
           (\<forall>i. Suc i < length rs \<longrightarrow>
                  \<not> js_lt (tempo_total (rs ! Suc i)) (tempo_total (rs ! i))) \<and>
           ((\<forall>r \<in> set rs. tempo_total r \<noteq> NaN) \<longrightarrow>
              sorted (map (\<lambda>r. js_val (tempo_total r)) rs) \<and>
              (\<forall>i. Suc i < length rs \<longrightarrow>
                     js_val (tempo_total (rs ! i)) \<le> js_val (tempo_total (rs ! Suc i)))) \<and>
           (\<forall>ex r. createExampleRoute fpu originLocation destinationLocation busStops = Some ex \<and>
                   calculateDirectRoute fpu originLocation destinationLocation busStops
                     = Inr (Some r) \<and>
                   tempo_total ex = tempo_total r
                     \<longrightarrow> rs = [ex, r])"
proof -
  obtain ex where ex: "createExampleRoute fpu originLocation destinationLocation busStops = Some ex"
    using createExampleRoute_Some [OF assms] by blast
  define pool where "pool = ex # (case calculateDirectRoute fpu originLocation destinationLocation busStops of
                      Inr (Some r) \<Rightarrow> [r] | _ \<Rightarrow> [])"
  define rs where "rs = js_sort tempo_total pool"
  have res: "calculateRoutes fpu originLocation destinationLocation busStops = map Some rs"
    using calculateRoutes_as_sort [OF ex] by (simp add: rs_def pool_def)
  have lp: "length pool \<le> 2"
    by (simp add: pool_def split: sum.splits option.splits)
  have adj: "\<forall>i. Suc i < length rs \<longrightarrow>
                  \<not> js_lt (tempo_total (rs ! Suc i)) (tempo_total (rs ! i))"
    unfolding rs_def using js_sort_pool_adjacent [OF lp] by blast
  have num: "(\<forall>r \<in> set rs. tempo_total r \<noteq> NaN) \<longrightarrow>
              sorted (map (\<lambda>r. js_val (tempo_total r)) rs) \<and>
              (\<forall>i. Suc i < length rs \<longrightarrow>
                     js_val (tempo_total (rs ! i)) \<le> js_val (tempo_total (rs ! Suc i)))"
  proof
    assume nn: "\<forall>r \<in> set rs. tempo_total r \<noteq> NaN"
    then have "\<forall>r \<in> set pool. tempo_total r \<noteq> NaN" by (simp add: rs_def set_js_sort)
    then have e: "rs = sort_key (\<lambda>r. js_val (tempo_total r)) pool"
      unfolding rs_def by (rule js_sort_Num)
    have srt: "sorted (map (\<lambda>r. js_val (tempo_total r)) rs)" by (simp add: e)
    have "\<forall>i. Suc i < length rs \<longrightarrow>
                     js_val (tempo_total (rs ! i)) \<le> js_val (tempo_total (rs ! Suc i))"
    proof (intro allI impI)
      fix i assume i: "Suc i < length rs"
      then have "map (\<lambda>r. js_val (tempo_total r)) rs ! i
                   \<le> map (\<lambda>r. js_val (tempo_total r)) rs ! Suc i"
        using srt by (intro sorted_nth_mono) auto
      then show "js_val (tempo_total (rs ! i)) \<le> js_val (tempo_total (rs ! Suc i))"
        using i by simp
    qed
    with srt show "sorted (map (\<lambda>r. js_val (tempo_total r)) rs) \<and>
              (\<forall>i. Suc i < length rs \<longrightarrow>
                     js_val (tempo_total (rs ! i)) \<le> js_val (tempo_total (rs ! Suc i)))"
      by simp
  qed
  have tie: "\<forall>ex' r. createExampleRoute fpu originLocation destinationLocation busStops = Some ex' \<and>
                   calculateDirectRoute fpu originLocation destinationLocation busStops
                     = Inr (Some r) \<and>
                   tempo_total ex' = tempo_total r
                     \<longrightarrow> rs = [ex', r]"
  proof (intro allI impI)
    fix ex' r
    assume h: "createExampleRoute fpu originLocation destinationLocation busStops = Some ex' \<and>
                   calculateDirectRoute fpu originLocation destinationLocation busStops
                     = Inr (Some r) \<and>
                   tempo_total ex' = tempo_total r"
    then have "ex' = ex" using ex by simp
    moreover have "\<not> js_lt (tempo_total r) (tempo_total r)"
      by (cases "tempo_total r") simp_all
    ultimately show "rs = [ex', r]" using h by (simp add: rs_def pool_def js_sort_def)
  qed
  show ?thesis using res adj num tie by blast
qed

theorem calculateRoutes_sorted_by_time_witness:
  "\<exists>rs. calculateRoutes fpuAntipoda eqOrigem eqDestino [eqParadaMeio] = map Some rs \<and>
        map tempo_total rs = [Num 48, Num 48] \<and>
        sorted (map (\<lambda>r. js_val (tempo_total r)) rs) \<and>
        map Some (take 1 rs) = [createExampleRoute fpuAntipoda eqOrigem eqDestino [eqParadaMeio]]"
proof -
  have a: "loc_coordinates eqOrigem = Some (0, 0)" by (simp add: eqOrigem_def)
  have b: "loc_coordinates eqDestino = Some (0, 1 / 40)" by (simp add: eqDestino_def)
  obtain ex where ex: "createExampleRoute fpuAntipoda eqOrigem eqDestino [eqParadaMeio] = Some ex"
    and ext: "tempo_total ex = Num 48"
    using createExampleRoute_eq_times by blast
  obtain r where r: "calculateDirectRoute fpuAntipoda eqOrigem eqDestino [eqParadaMeio] = Inr (Some r)"
    and rt: "tempo_total r = Num 48"
    using map_sum_option_SomeD [OF calculateDirectRoute_meio_times(1)] by blast
  obtain rs where rs: "calculateRoutes fpuAntipoda eqOrigem eqDestino [eqParadaMeio] = map Some rs"
    and s: "(\<forall>r \<in> set rs. tempo_total r \<noteq> NaN) \<longrightarrow>
              sorted (map (\<lambda>r. js_val (tempo_total r)) rs) \<and>
              (\<forall>i. Suc i < length rs \<longrightarrow>
                     js_val (tempo_total (rs ! i)) \<le> js_val (tempo_total (rs ! Suc i)))"
    and t: "\<forall>ex r. createExampleRoute fpuAntipoda eqOrigem eqDestino [eqParadaMeio] = Some ex \<and>
                   calculateDirectRoute fpuAntipoda eqOrigem eqDestino [eqParadaMeio]
                     = Inr (Some r) \<and>
                   tempo_total ex = tempo_total r
                     \<longrightarrow> rs = [ex, r]"
    using calculateRoutes_sorted_by_time [OF a b, of fpuAntipoda "[eqParadaMeio]"] by blast
  have e: "rs = [ex, r]" using t ex r ext rt by simp
  have srt: "sorted (map (\<lambda>r. js_val (tempo_total r)) rs)" using s e ext rt by simp
  have "calculateRoutes fpuAntipoda eqOrigem eqDestino [eqParadaMeio] = map Some rs \<and>
        map tempo_total rs = [Num 48, Num 48] \<and>
        sorted (map (\<lambda>r. js_val (tempo_total r)) rs) \<and>
        map Some (take 1 rs) = [createExampleRoute fpuAntipoda eqOrigem eqDestino [eqParadaMeio]]"
    using rs srt by (simp add: e ext rt ex)
  then show ?thesis by (rule exI)
qed

section \<open>Totals and segments\<close>

lemma c5_fields:
  "coordinates c5Parada = Some (0, 1 / 10000)"
  "lines c5Parada = Some [''0.111'']"
  "stop_type c5Parada = Some ''regular''"
  "loc_coordinates c5Destino = Some (0, 1 / 5000)"
  by (simp_all add: c5Parada_def c5Destino_def)

lemma haversine_esquina: "haversine (0, 0) (0, 1 / 10000) = 6371000 * (1 / 10000 * pi / 180)"
  using haversine_equator [of "1 / 10000" 0] by simp

lemma haversine_esquina_destino:
  "haversine (0, 1 / 5000) (0, 1 / 10000) = haversine (0, 0) (0, 1 / 10000)"
  using haversine_equator [of "1 / 10000" "1 / 5000"] by (simp add: haversine_esquina)

lemma haversine_js_esquina:
  "haversine_js fpu (0, 0) (0, 1 / 10000) = Num (haversine (0, 0) (0, 1 / 10000))"
  "haversine_js fpu (0, 1 / 5000) (0, 1 / 10000) = Num (haversine (0, 0) (0, 1 / 10000))"
  using haversine_js_equator_Num [of "1 / 10000" 0 fpu]
    haversine_js_equator_Num [of "1 / 10000" "1 / 5000" fpu]
  by (simp_all add: haversine_esquina_destino)

lemma esquina_bounds:
  "0 < haversine (0, 0) (0, 1 / 10000)" "haversine (0, 0) (0, 1 / 10000) \<le> 50"
  using pi_bounds by (simp_all add: haversine_esquina)

lemma esquina_walk: "\<lceil>haversine (0, 0) (0, 1 / 10000) / 80\<rceil> = 1"
  using esquina_bounds by (intro ceiling_unique) simp_all

lemma findNearbyStops_esquina:
  "findNearbyStops fpu (Some (0, 0)) [c5Parada] 3000 10 =
     Inr [withDistance c5Parada (Num (haversine (0, 0) (0, 1 / 10000)))]"
  "findNearbyStops fpu (Some (0, 1 / 5000)) [c5Parada] 3000 10 =
     Inr [withDistance c5Parada (Num (haversine (0, 0) (0, 1 / 10000)))]"
  using esquina_bounds
  by (simp_all add: findNearbyStops_def calculateDistance_def slice0_def js_sort_def c5_fields
        haversine_js_esquina)

lemma calculateDirectRoute_esquina:
  "calculateDirectRoute fpu eqOrigem c5Destino [c5Parada] =
     map_sum id Some
       (directRouteFor fpu eqOrigem c5Destino
          (withDistance c5Parada (Num (haversine (0, 0) (0, 1 / 10000))))
          (withDistance c5Parada (Num (haversine (0, 0) (0, 1 / 10000)))) [''0.111''])"
  by (simp add: calculateDirectRoute_def eq_endpoints_fields c5_fields
        findNearbyStops_esquina findConnectingLines_def split: sum.splits)

text \<open>
  Claim C5, as stated: the totals of a route are the sums over its segments, also when a
  walk is at most 50 m long. With a stop 11 m from both endpoints, the direct route has a
  total of 14 minutes and 22 m, of which its only segment records nothing: the bus leg
  takes 0 minutes over 0 m, both walks of one minute are left out of the segment, and the
  wait is 12 minutes.
\<close>

theorem directRoute_counts_unrecorded_walks:
  "map_sum id (map_option tempo_total) (calculateDirectRoute fpuAntipoda eqOrigem c5Destino [c5Parada])
     = Inr (Some (Num 14)) \<and>
   map_sum id (map_option somaTempos) (calculateDirectRoute fpuAntipoda eqOrigem c5Destino [c5Parada])
     = Inr (Some (Num 0)) \<and>
   map_sum id (map_option distancia_total) (calculateDirectRoute fpuAntipoda eqOrigem c5Destino [c5Parada])
     = Inr (Some (Num (2 * haversine (0, 0) (0, 1 / 10000)))) \<and>
   map_sum id (map_option (somaDistancias fpuAntipoda))
       (calculateDirectRoute fpuAntipoda eqOrigem c5Destino [c5Parada])
     = Inr (Some (Num 0)) \<and>
   map_sum id (map_option (map caminhadaInicial \<circ> segmentos))
       (calculateDirectRoute fpuAntipoda eqOrigem c5Destino [c5Parada])
     = Inr (Some [None]) \<and>
   map_sum id (map_option (map caminhadaFinal \<circ> segmentos))
       (calculateDirectRoute fpuAntipoda eqOrigem c5Destino [c5Parada])
     = Inr (Some [None]) \<and>
   0 < haversine (0, 0) (0, 1 / 10000) \<and> haversine (0, 0) (0, 1 / 10000) \<le> 50"
  using esquina_bounds
  by (simp add: calculateDirectRoute_esquina directRouteFor_def estimateStopCount_def
        calculateDistance_def calculateWalkingTime_def calculateBusTime_def
        haversine_js_same esquina_walk Let_def c5_fields somaTempos_def somaDistancias_def
        tempoSegmento_def distanciaSegmento_def js_sum_def
        tempoCaminhada_def distanciaCaminhada_def distanciaOnibus_def)

lemma js_add_zero [simp]: "js_add x (Num 0) = x" "js_add (Num 0) x = x"
  by (cases x; simp)+

lemma js_gt_Num: "js_gt x y \<Longrightarrow> \<exists>v. x = Num v \<and> y < v"
  by (cases x) auto

lemma directRouteFor_sums:
  assumes "directRouteFor fpu originLocation destinationLocation a b cl = Inr r"
  shows "\<exists>seg busDistance.
           segmentos r = [seg] \<and>
           paradaOrigem seg = NearParada a \<and> paradaDestino seg = NearParada b \<and>
           calculateDistance fpu (coordinates a) (coordinates b) = Inr busDistance \<and>
           distanciaOnibus fpu seg = busDistance \<and>
           tempo seg = calculateBusTime busDistance 300 \<and>
           caminhadaInicial seg =
             (if js_gt (distance a) 50
              then Some \<lparr> distancia = distance a,
                          tempo_caminhada = calculateWalkingTime (distance a) 80 \<rparr>
              else None) \<and>
           caminhadaFinal seg =
             (if js_gt (distance b) 50
              then Some \<lparr> distancia = distance b,
                          tempo_caminhada = calculateWalkingTime (distance b) 80 \<rparr>
              else None) \<and>
           tempo_total r =
             js_sum [calculateWalkingTime (distance a) 80, tempo seg,
                     calculateWalkingTime (distance b) 80,
                     Num (if stop_type a = Some ''main'' then 8 else 12)] \<and>
           distancia_total r = js_sum [distance a, busDistance, distance b] \<and>
           ((js_gt (distance a) 50 \<or> distance a = Num 0) \<and>
            (js_gt (distance b) 50 \<or> distance b = Num 0) \<longrightarrow>
              tempo_total r =
                js_sum [somaTempos r, Num (if stop_type a = Some ''main'' then 8 else 12)] \<and>
              distancia_total r = somaDistancias fpu r)"
proof -
  obtain busDistance where bd:
      "calculateDistance fpu (coordinates a) (coordinates b) = Inr busDistance"
    using assms by (auto simp: directRouteFor_def split: sum.splits)
  obtain stopCount where sc: "estimateStopCount fpu a b = Inr stopCount"
    using assms bd by (auto simp: directRouteFor_def Let_def split: sum.splits)
  define seg where "seg = hd (segmentos r)"
  have r: "segmentos r = [seg]"
    "paradaOrigem seg = NearParada a" "paradaDestino seg = NearParada b"
    "tempo seg = calculateBusTime busDistance 300"
    "caminhadaInicial seg =
             (if js_gt (distance a) 50
              then Some \<lparr> distancia = distance a,
                          tempo_caminhada = calculateWalkingTime (distance a) 80 \<rparr>
              else None)"
    "caminhadaFinal seg =
             (if js_gt (distance b) 50
              then Some \<lparr> distancia = distance b,
                          tempo_caminhada = calculateWalkingTime (distance b) 80 \<rparr>
              else None)"
    "tempo_total r =
       js_add (js_add (js_add (calculateWalkingTime (distance a) 80) (tempo seg))
                 (calculateWalkingTime (distance b) 80))
         (Num (if stop_type a = Some ''main'' then 8 else 12))"
    "distancia_total r = js_add (js_add (distance a) busDistance) (distance b)"
    using assms bd sc unfolding seg_def
    by (auto simp: directRouteFor_def Let_def)
  have dO: "distanciaOnibus fpu seg = busDistance"
    by (simp add: distanciaOnibus_def r(2,3) bd)
  have t1: "tempo_total r =
             js_sum [calculateWalkingTime (distance a) 80, tempo seg,
                     calculateWalkingTime (distance b) 80,
                     Num (if stop_type a = Some ''main'' then 8 else 12)]"
    unfolding r(7)
    by (cases "calculateWalkingTime (distance a) 80"; cases "tempo seg";
        cases "calculateWalkingTime (distance b) 80") (simp_all add: js_sum_def)
  have d1: "distancia_total r = js_sum [distance a, busDistance, distance b]"
    unfolding r(8)
    by (cases "distance a"; cases busDistance; cases "distance b") (simp_all add: js_sum_def)
  have rec: "tempo_total r =
                js_sum [somaTempos r, Num (if stop_type a = Some ''main'' then 8 else 12)] \<and>
              distancia_total r = somaDistancias fpu r"
    if h: "(js_gt (distance a) 50 \<or> distance a = Num 0) \<and>
            (js_gt (distance b) 50 \<or> distance b = Num 0)"
  proof -
    have wa: "tempoCaminhada (caminhadaInicial seg) = calculateWalkingTime (distance a) 80"
      "distanciaCaminhada (caminhadaInicial seg) = distance a"
      using h by (auto simp: r(5) tempoCaminhada_def distanciaCaminhada_def
                    calculateWalkingTime_def)
    have wb: "tempoCaminhada (caminhadaFinal seg) = calculateWalkingTime (distance b) 80"
      "distanciaCaminhada (caminhadaFinal seg) = distance b"
      using h by (auto simp: r(6) tempoCaminhada_def distanciaCaminhada_def
                    calculateWalkingTime_def)
    have "somaTempos r = js_add (js_add (calculateWalkingTime (distance a) 80) (tempo seg))
                 (calculateWalkingTime (distance b) 80)"
      by (cases "calculateWalkingTime (distance a) 80"; cases "tempo seg";
          cases "calculateWalkingTime (distance b) 80")
         (simp_all add: somaTempos_def r(1) tempoSegmento_def wa wb js_sum_def)
    then have a: "tempo_total r =
                js_sum [somaTempos r, Num (if stop_type a = Some ''main'' then 8 else 12)]"
      by (simp add: r(7) js_sum_def)
    have "somaDistancias fpu r = js_add (js_add (distance a) busDistance) (distance b)"
      by (cases "distance a"; cases busDistance; cases "distance b")
         (simp_all add: somaDistancias_def r(1) distanciaSegmento_def wa wb dO js_sum_def)
    then have b: "distancia_total r = somaDistancias fpu r" by (simp add: r(8))
    show ?thesis using a b by simp
  qed
  show ?thesis
    using r(1-6) bd dO t1 d1 rec by blast
qed

lemma transferRouteFor_sums:
  assumes "transferRouteFor fpu originLocation destinationLocation a b t l1 l2 = Inr r"
  shows "\<exists>s1 s2 leg1Distance leg2Distance.
           segmentos r = [s1, s2] \<and>
           paradaOrigem s1 = NearParada a \<and> paradaDestino s1 = StopParada t \<and>
           paradaOrigem s2 = StopParada t \<and> paradaDestino s2 = NearParada b \<and>
           calculateDistance fpu (coordinates a) (coordinates t) = Inr leg1Distance \<and>
           calculateDistance fpu (coordinates t) (coordinates b) = Inr leg2Distance \<and>
           distanciaOnibus fpu s1 = leg1Distance \<and> distanciaOnibus fpu s2 = leg2Distance \<and>
           tempo s1 = calculateBusTime leg1Distance 300 \<and>
           tempo s2 = calculateBusTime leg2Distance 300 \<and>
           caminhadaInicial s1 =
             (if js_gt (distance a) 50
              then Some \<lparr> distancia = distance a,
                          tempo_caminhada = calculateWalkingTime (distance a) 80 \<rparr>
              else None) \<and>
           caminhadaFinal s1 = None \<and> caminhadaInicial s2 = None \<and>
           caminhadaFinal s2 =
             (if js_gt (distance b) 50
              then Some \<lparr> distancia = distance b,
                          tempo_caminhada = calculateWalkingTime (distance b) 80 \<rparr>
              else None) \<and>
           tempo_total r =
             js_sum [calculateWalkingTime (distance a) 80, tempo s1, Num 15, tempo s2,
                     calculateWalkingTime (distance b) 80, Num 12] \<and>
           distancia_total r = js_sum [distance a, leg1Distance, leg2Distance, distance b] \<and>
           ((js_gt (distance a) 50 \<or> distance a = Num 0) \<and>
            (js_gt (distance b) 50 \<or> distance b = Num 0) \<longrightarrow>
              tempo_total r = js_sum [somaTempos r, Num 15, Num 12] \<and>
              distancia_total r = somaDistancias fpu r)"
proof -
  obtain leg1Distance where l1:
      "calculateDistance fpu (coordinates a) (coordinates t) = Inr leg1Distance"
    using assms by (auto simp: transferRouteFor_def split: sum.splits)
  obtain leg2Distance where l2:
      "calculateDistance fpu (coordinates t) (coordinates b) = Inr leg2Distance"
    using assms l1 by (auto simp: transferRouteFor_def split: sum.splits)
  obtain sc1 where sc1: "estimateStopCount fpu a t = Inr sc1"
    using assms l1 l2 by (auto simp: transferRouteFor_def Let_def split: sum.splits)
  obtain sc2 where sc2: "estimateStopCount fpu t b = Inr sc2"
    using assms l1 l2 sc1 by (auto simp: transferRouteFor_def Let_def split: sum.splits)
  define s1 where "s1 = segmentos r ! 0"
  define s2 where "s2 = segmentos r ! 1"
  have r: "segmentos r = [s1, s2]"
    "paradaOrigem s1 = NearParada a" "paradaDestino s1 = StopParada t"
    "paradaOrigem s2 = StopParada t" "paradaDestino s2 = NearParada b"
    "tempo s1 = calculateBusTime leg1Distance 300"
    "tempo s2 = calculateBusTime leg2Distance 300"
    "caminhadaInicial s1 =
             (if js_gt (distance a) 50
              then Some \<lparr> distancia = distance a,
                          tempo_caminhada = calculateWalkingTime (distance a) 80 \<rparr>
              else None)"
    "caminhadaFinal s1 = None" "caminhadaInicial s2 = None"
    "caminhadaFinal s2 =
             (if js_gt (distance b) 50
              then Some \<lparr> distancia = distance b,
                          tempo_caminhada = calculateWalkingTime (distance b) 80 \<rparr>
              else None)"
    "tempo_total r =
       js_add (js_add (js_add (js_add (js_add (calculateWalkingTime (distance a) 80) (tempo s1))
                                 (Num 15)) (tempo s2))
                 (calculateWalkingTime (distance b) 80)) (Num 12)"
    "distancia_total r =
       js_add (js_add (js_add (distance a) leg1Distance) leg2Distance) (distance b)"
    using assms l1 l2 sc1 sc2 unfolding s1_def s2_def
    by (auto simp: transferRouteFor_def Let_def)
  have dO: "distanciaOnibus fpu s1 = leg1Distance" "distanciaOnibus fpu s2 = leg2Distance"
    by (simp_all add: distanciaOnibus_def r(2-5) l1 l2)
  have t1: "tempo_total r =
             js_sum [calculateWalkingTime (distance a) 80, tempo s1, Num 15, tempo s2,
                     calculateWalkingTime (distance b) 80, Num 12]"
    unfolding r(12)
    by (cases "calculateWalkingTime (distance a) 80"; cases "tempo s1"; cases "tempo s2";
        cases "calculateWalkingTime (distance b) 80") (simp_all add: js_sum_def)
  have d1: "distancia_total r = js_sum [distance a, leg1Distance, leg2Distance, distance b]"
    unfolding r(13)
    by (cases "distance a"; cases leg1Distance; cases leg2Distance; cases "distance b")
       (simp_all add: js_sum_def)
  have rec: "tempo_total r = js_sum [somaTempos r, Num 15, Num 12] \<and>
              distancia_total r = somaDistancias fpu r"
    if h: "(js_gt (distance a) 50 \<or> distance a = Num 0) \<and>
            (js_gt (distance b) 50 \<or> distance b = Num 0)"
  proof -
    have wa: "tempoCaminhada (caminhadaInicial s1) = calculateWalkingTime (distance a) 80"
      "distanciaCaminhada (caminhadaInicial s1) = distance a"
      using h by (auto simp: r(8) tempoCaminhada_def distanciaCaminhada_def
                    calculateWalkingTime_def)
    have wb: "tempoCaminhada (caminhadaFinal s2) = calculateWalkingTime (distance b) 80"
      "distanciaCaminhada (caminhadaFinal s2) = distance b"
      using h by (auto simp: r(11) tempoCaminhada_def distanciaCaminhada_def
                    calculateWalkingTime_def)
    have wn: "tempoCaminhada (caminhadaFinal s1) = Num 0"
      "tempoCaminhada (caminhadaInicial s2) = Num 0"
      "distanciaCaminhada (caminhadaFinal s1) = Num 0"
      "distanciaCaminhada (caminhadaInicial s2) = Num 0"
      by (simp_all add: r(9,10) tempoCaminhada_def distanciaCaminhada_def)
    have a: "tempo_total r = js_sum [somaTempos r, Num 15, Num 12]"
      unfolding r(12)
      by (cases "calculateWalkingTime (distance a) 80"; cases "tempo s1"; cases "tempo s2";
          cases "calculateWalkingTime (distance b) 80")
         (simp_all add: somaTempos_def r(1) tempoSegmento_def wa wb wn js_sum_def)
    have b: "distancia_total r = somaDistancias fpu r"
      unfolding r(13)
      by (cases "distance a"; cases leg1Distance; cases leg2Distance; cases "distance b")
         (simp_all add: somaDistancias_def r(1) distanciaSegmento_def wa wb wn dO js_sum_def)
    show ?thesis using a b by simp
  qed
  show ?thesis
    using r(1-11) l1 l2 dO t1 d1 rec by blast
qed

lemma createExampleRoute_sums:
  assumes "createExampleRoute fpu originLocation destinationLocation busStops = Some r"
  shows "tempo_total r = js_sum [somaTempos r, Num 10]"
    and "distancia_total r = somaDistancias fpu r"
proof -
  obtain oc dc where c: "loc_coordinates originLocation = Some oc"
      "loc_coordinates destinationLocation = Some dc"
    using assms by (auto simp: createExampleRoute_def split: option.splits)
  show "tempo_total r = js_sum [somaTempos r, Num 10]"
    using assms c
    by (cases "haversine_js fpu oc dc")
       (auto simp: createExampleRoute_def Let_def somaTempos_def tempoSegmento_def
          tempoCaminhada_def js_sum_def)
  show "distancia_total r = somaDistancias fpu r"
    using assms c
    by (cases "haversine_js fpu oc dc")
       (auto simp: createExampleRoute_def Let_def somaDistancias_def distanciaSegmento_def
          distanciaCaminhada_def distanciaOnibus_def calculateDistance_def js_sum_def)
qed

lemma eqTerminal_fields:
  "coordinates eqTerminal = Some (0, 1 / 100)"
  "lines eqTerminal = Some [''0.111'', ''0.112'', ''0.113'', ''0.114'']"
  "stop_type eqTerminal = Some ''main''"
  "accessibility eqTerminal = True"
  by (simp_all add: eqTerminal_def)

lemma haversine_terminal:
  "haversine (0, 0) (0, 1 / 100) = 6371000 * (1 / 100 * pi / 180)"
  "haversine (0, 1 / 40) (0, 1 / 100) = 6371000 * (3 / 200 * pi / 180)"
  using haversine_equator [of "1 / 100" 0] haversine_equator [of "1 / 100" "1 / 40"]
  by simp_all

lemma haversine_js_terminal:
  "haversine_js fpu (0, 0) (0, 1 / 100) = Num (haversine (0, 0) (0, 1 / 100))"
  "haversine_js fpu (0, 1 / 40) (0, 1 / 100) = Num (haversine (0, 1 / 40) (0, 1 / 100))"
  by (rule haversine_js_equator_Num, simp)+

lemma terminal_bounds:
  "50 < haversine (0, 0) (0, 1 / 100)" "haversine (0, 0) (0, 1 / 100) \<le> 3000"
  "50 < haversine (0, 1 / 40) (0, 1 / 100)" "haversine (0, 1 / 40) (0, 1 / 100) \<le> 3000"
  using pi_bounds by (simp_all add: haversine_terminal)

lemma findNearbyStops_terminal:
  "findNearbyStops fpu (Some (0, 0)) [eqTerminal] 3000 10 =
     Inr [withDistance eqTerminal (Num (haversine (0, 0) (0, 1 / 100)))]"
  "findNearbyStops fpu (Some (0, 1 / 40)) [eqTerminal] 3000 10 =
     Inr [withDistance eqTerminal (Num (haversine (0, 1 / 40) (0, 1 / 100)))]"
  using terminal_bounds
  by (simp_all add: findNearbyStops_def calculateDistance_def slice0_def js_sort_def
        eqTerminal_fields haversine_js_terminal)

lemma terminalStops_terminal: "terminalStops [eqTerminal] = Inr [eqTerminal]"
  by (simp add: eqTerminal_fields)

lemma calculateRouteWithTransfer_terminal:
  "calculateRouteWithTransfer fpu eqOrigem eqDestino [eqTerminal] =
     map_sum id Some
       (transferRouteFor fpu eqOrigem eqDestino
          (withDistance eqTerminal (Num (haversine (0, 0) (0, 1 / 100))))
          (withDistance eqTerminal (Num (haversine (0, 1 / 40) (0, 1 / 100)))) eqTerminal
          [''0.111'', ''0.112'', ''0.113'', ''0.114'']
          [''0.111'', ''0.112'', ''0.113'', ''0.114''])"
  by (simp add: calculateRouteWithTransfer_def eq_endpoints_fields
        findNearbyStops_terminal terminalStops_terminal
        findConnectingLines_def eqTerminal_fields split: sum.splits)

lemma directRouteFor_ok:
  assumes "coordinates a = Some ca" and "coordinates b = Some cb"
  shows "\<exists>r. directRouteFor fpu originLocation destinationLocation a b cl = Inr r"
  using assms
  by (simp add: directRouteFor_def estimateStopCount_def calculateDistance_def Let_def)

lemma transferRouteFor_ok:
  assumes "coordinates a = Some ca" and "coordinates b = Some cb" and "coordinates t = Some ct"
  shows "\<exists>r. transferRouteFor fpu originLocation destinationLocation a b t l1 l2 = Inr r"
  using assms
  by (simp add: transferRouteFor_def estimateStopCount_def calculateDistance_def Let_def)

lemma directInner_Some:
  "directInner fpu originLocation destinationLocation a bs = Inr (Some r)
     \<Longrightarrow> \<exists>b cl. b \<in> set bs \<and> directRouteFor fpu originLocation destinationLocation a b cl = Inr r"
proof (induction bs)
  case Nil
  then show ?case by simp
next
  case (Cons b bs)
  show ?case
  proof (cases "findConnectingLines a b")
    case (Inl e)
    with Cons.prems show ?thesis by simp
  next
    case (Inr cl)
    show ?thesis
    proof (cases "length cl > 0")
      case True
      with Cons.prems Inr have "directRouteFor fpu originLocation destinationLocation a b cl = Inr r"
        by (auto split: sum.splits)
      then show ?thesis by auto
    next
      case False
      with Cons.prems Inr have "directInner fpu originLocation destinationLocation a bs = Inr (Some r)"
        by simp
      from Cons.IH [OF this] show ?thesis by (simp; blast)
    qed
  qed
qed

lemma directOuter_Some:
  "directOuter fpu originLocation destinationLocation as bs = Inr (Some r)
     \<Longrightarrow> \<exists>a b cl. a \<in> set as \<and> b \<in> set bs \<and>
           directRouteFor fpu originLocation destinationLocation a b cl = Inr r"
proof (induction as)
  case Nil
  then show ?case by simp
next
  case (Cons a as)
  show ?case
  proof (cases "directInner fpu originLocation destinationLocation a bs")
    case (Inl e)
    with Cons.prems show ?thesis by simp
  next
    case (Inr x)
    show ?thesis
    proof (cases x)
      case None
      with Cons.prems Inr have "directOuter fpu originLocation destinationLocation as bs = Inr (Some r)"
        by simp
      from Cons.IH [OF this] show ?thesis by (simp; blast)
    next
      case (Some r')
      with Cons.prems Inr have "directInner fpu originLocation destinationLocation a bs = Inr (Some r)"
        by simp
      from directInner_Some [OF this] show ?thesis by (simp; blast)
    qed
  qed
qed

lemma calculateDirectRoute_Some:
  assumes "calculateDirectRoute fpu originLocation destinationLocation busStops = Inr (Some r)"
  shows "\<exists>a b cl as bs.
           findNearbyStops fpu (loc_coordinates originLocation) busStops 3000 10 = Inr as \<and>
           findNearbyStops fpu (loc_coordinates destinationLocation) busStops 3000 10 = Inr bs \<and>
           a \<in> set as \<and> b \<in> set bs \<and>
           directRouteFor fpu originLocation destinationLocation a b cl = Inr r"
proof -
  obtain as where as: "findNearbyStops fpu (loc_coordinates originLocation) busStops 3000 10 = Inr as"
    using assms by (auto simp: calculateDirectRoute_def split: sum.splits)
  obtain bs where bs: "findNearbyStops fpu (loc_coordinates destinationLocation) busStops 3000 10 = Inr bs"
    using assms as by (auto simp: calculateDirectRoute_def split: sum.splits)
  have "directOuter fpu originLocation destinationLocation as bs = Inr (Some r)"
    using assms as bs by (simp add: calculateDirectRoute_def)
  from directOuter_Some [OF this] show ?thesis using as bs by blast
qed

lemma transferTerminals_Some:
  "transferTerminals fpu originLocation destinationLocation a b ts = Inr (Some r)
     \<Longrightarrow> \<exists>t l1 l2. t \<in> set ts \<and>
           transferRouteFor fpu originLocation destinationLocation a b t l1 l2 = Inr r"
proof (induction ts)
  case Nil
  then show ?case by simp
next
  case (Cons t ts)
  show ?case
  proof (cases "findConnectingLines a t")
    case (Inl e)
    with Cons.prems show ?thesis by simp
  next
    case l1: (Inr l1)
    show ?thesis
    proof (cases "findConnectingLines t b")
      case (Inl e)
      with Cons.prems l1 show ?thesis by simp
    next
      case l2: (Inr l2)
      show ?thesis
      proof (cases "length l1 > 0 \<and> length l2 > 0")
        case True
        with Cons.prems l1 l2
        have "transferRouteFor fpu originLocation destinationLocation a b t l1 l2 = Inr r"
          by (auto split: sum.splits)
        then show ?thesis by auto
      next
        case False
        with Cons.prems l1 l2
        have "transferTerminals fpu originLocation destinationLocation a b ts = Inr (Some r)"
          by auto
        from Cons.IH [OF this] show ?thesis by (simp; blast)
      qed
    qed
  qed
qed

lemma transferInner_Some:
  "transferInner fpu originLocation destinationLocation a bs ts = Inr (Some r)
     \<Longrightarrow> \<exists>b t l1 l2. b \<in> set bs \<and> t \<in> set ts \<and>
           transferRouteFor fpu originLocation destinationLocation a b t l1 l2 = Inr r"
proof (induction bs)
  case Nil
  then show ?case by simp
next
  case (Cons b bs)
  show ?case
  proof (cases "transferTerminals fpu originLocation destinationLocation a b ts")
    case (Inl e)
    with Cons.prems show ?thesis by simp
  next
    case (Inr x)
    show ?thesis
    proof (cases x)
      case None
      with Cons.prems Inr
      have "transferInner fpu originLocation destinationLocation a bs ts = Inr (Some r)"
        by simp
      from Cons.IH [OF this] show ?thesis by (simp; blast)
    next
      case (Some r')
      with Cons.prems Inr
      have "transferTerminals fpu originLocation destinationLocation a b ts = Inr (Some r)"
        by simp
      from transferTerminals_Some [OF this] show ?thesis by (simp; blast)
    qed
  qed
qed

lemma transferOuter_Some:
  "transferOuter fpu originLocation destinationLocation as bs ts = Inr (Some r)
     \<Longrightarrow> \<exists>a b t l1 l2. a \<in> set as \<and> b \<in> set bs \<and> t \<in> set ts \<and>
           transferRouteFor fpu originLocation destinationLocation a b t l1 l2 = Inr r"
proof (induction as)
  case Nil
  then show ?case by simp
next
  case (Cons a as)
  show ?case
  proof (cases "transferInner fpu originLocation destinationLocation a bs ts")
    case (Inl e)
    with Cons.prems show ?thesis by simp
  next
    case (Inr x)
    show ?thesis
    proof (cases x)
      case None
      with Cons.prems Inr
      have "transferOuter fpu originLocation destinationLocation as bs ts = Inr (Some r)"
        by simp
      from Cons.IH [OF this] show ?thesis by (simp; blast)
    next
      case (Some r')
      with Cons.prems Inr
      have "transferInner fpu originLocation destinationLocation a bs ts = Inr (Some r)"
        by simp
      from transferInner_Some [OF this] show ?thesis by (simp; blast)
    qed
  qed
qed

lemma calculateRouteWithTransfer_Some:
  assumes "calculateRouteWithTransfer fpu originLocation destinationLocation busStops = Inr (Some r)"
  shows "\<exists>a b t l1 l2 as bs ts.
           findNearbyStops fpu (loc_coordinates originLocation) busStops 3000 10 = Inr as \<and>
           findNearbyStops fpu (loc_coordinates destinationLocation) busStops 3000 10 = Inr bs \<and>
           terminalStops busStops = Inr ts \<and>
           a \<in> set as \<and> b \<in> set bs \<and> t \<in> set ts \<and>
           transferRouteFor fpu originLocation destinationLocation a b t l1 l2 = Inr r"
proof -
  obtain as where as: "findNearbyStops fpu (loc_coordinates originLocation) busStops 3000 10 = Inr as"
    using assms by (auto simp: calculateRouteWithTransfer_def split: sum.splits)
  obtain bs where bs: "findNearbyStops fpu (loc_coordinates destinationLocation) busStops 3000 10 = Inr bs"
    using assms as by (auto simp: calculateRouteWithTransfer_def split: sum.splits)
  obtain ts where ts: "terminalStops busStops = Inr ts"
    using assms as bs by (auto simp: calculateRouteWithTransfer_def split: sum.splits)
  have "transferOuter fpu originLocation destinationLocation as bs ts = Inr (Some r)"
    using assms as bs ts by (simp add: calculateRouteWithTransfer_def)
  from transferOuter_Some [OF this] show ?thesis using as bs ts by blast
qed

text \<open>
  Claim C5, amended. A direct route has one segment, between the stop near the origin and
  the stop near the destination; a transfer route has two, meeting at the terminal. The
  bus time of a segment is computed from the distance between its two stops, for which the
  segment has no field. A segment records the walk to the first stop and the walk from the
  last stop, with the distance of the nearby stop and the walking time computed from it,
  only when that distance is above 50 m; a transfer route records no walk at the terminal.
  The total time is the sum of the bus times of the segments, the walking times computed
  from the distances of the two nearby stops (whether the segment records the walk or not)
  and the fixed overhead: a wait of 8 or 12 minutes for a direct route, 15 minutes of
  transfer and 12 of wait for a transfer route. The total distance is the sum of the two
  walking distances and the distances between the stops of the segments. When each walk is
  longer than 50 m or has length 0, and always for the example route (overhead 10
  minutes), the totals equal the sums of what the segments record, the bus legs being
  measured between the segment's stops. Every route that \<^verbatim>\<open>calculateDirectRoute\<close> or
  \<^verbatim>\<open>calculateRouteWithTransfer\<close> returns is built in this way from a stop near the origin,
  a stop near the destination and, for a transfer, a terminal of the catalog.
\<close>

theorem builders_totals:
  "(directRouteFor fpu originLocation destinationLocation a b cl = Inr r \<longrightarrow>
      (\<exists>seg busDistance.
           segmentos r = [seg] \<and>
           paradaOrigem seg = NearParada a \<and> paradaDestino seg = NearParada b \<and>
           calculateDistance fpu (coordinates a) (coordinates b) = Inr busDistance \<and>
           distanciaOnibus fpu seg = busDistance \<and>
           tempo seg = calculateBusTime busDistance 300 \<and>
           caminhadaInicial seg =
             (if js_gt (distance a) 50
              then Some \<lparr> distancia = distance a,
                          tempo_caminhada = calculateWalkingTime (distance a) 80 \<rparr>
              else None) \<and>
           caminhadaFinal seg =
             (if js_gt (distance b) 50
              then Some \<lparr> distancia = distance b,
                          tempo_caminhada = calculateWalkingTime (distance b) 80 \<rparr>
              else None) \<and>
           tempo_total r =
             js_sum [calculateWalkingTime (distance a) 80, tempo seg,
                     calculateWalkingTime (distance b) 80,
                     Num (if stop_type a = Some ''main'' then 8 else 12)] \<and>
           distancia_total r = js_sum [distance a, busDistance, distance b] \<and>
           ((js_gt (distance a) 50 \<or> distance a = Num 0) \<and>
            (js_gt (distance b) 50 \<or> distance b = Num 0) \<longrightarrow>
              tempo_total r =
                js_sum [somaTempos r, Num (if stop_type a = Some ''main'' then 8 else 12)] \<and>
              distancia_total r = somaDistancias fpu r))) \<and>
   (transferRouteFor fpu originLocation' destinationLocation' a' b' t l1 l2 = Inr r' \<longrightarrow>
      (\<exists>s1 s2 leg1Distance leg2Distance.
           segmentos r' = [s1, s2] \<and>
           paradaOrigem s1 = NearParada a' \<and> paradaDestino s1 = StopParada t \<and>
           paradaOrigem s2 = StopParada t \<and> paradaDestino s2 = NearParada b' \<and>
           calculateDistance fpu (coordinates a') (coordinates t) = Inr leg1Distance \<and>
           calculateDistance fpu (coordinates t) (coordinates b') = Inr leg2Distance \<and>
           distanciaOnibus fpu s1 = leg1Distance \<and> distanciaOnibus fpu s2 = leg2Distance \<and>
           tempo s1 = calculateBusTime leg1Distance 300 \<and>
           tempo s2 = calculateBusTime leg2Distance 300 \<and>
           caminhadaInicial s1 =
             (if js_gt (distance a') 50
              then Some \<lparr> distancia = distance a',
                          tempo_caminhada = calculateWalkingTime (distance a') 80 \<rparr>
              else None) \<and>
           caminhadaFinal s1 = None \<and> caminhadaInicial s2 = None \<and>
           caminhadaFinal s2 =
             (if js_gt (distance b') 50
              then Some \<lparr> distancia = distance b',
                          tempo_caminhada = calculateWalkingTime (distance b') 80 \<rparr>
              else None) \<and>
           tempo_total r' =
             js_sum [calculateWalkingTime (distance a') 80, tempo s1, Num 15, tempo s2,
                     calculateWalkingTime (distance b') 80, Num 12] \<and>
           distancia_total r' = js_sum [distance a', leg1Distance, leg2Distance, distance b'] \<and>
           ((js_gt (distance a') 50 \<or> distance a' = Num 0) \<and>
            (js_gt (distance b') 50 \<or> distance b' = Num 0) \<longrightarrow>
              tempo_total r' = js_sum [somaTempos r', Num 15, Num 12] \<and>
              distancia_total r' = somaDistancias fpu r'))) \<and>
   (createExampleRoute fpu originLocation'' destinationLocation'' busStops = Some r'' \<longrightarrow>
      tempo_total r'' = js_sum [somaTempos r'', Num 10] \<and>
      distancia_total r'' = somaDistancias fpu r'') \<and>
   (calculateDirectRoute fpu ol dl catalog = Inr (Some rd) \<longrightarrow>
      (\<exists>a b cl as bs.
           findNearbyStops fpu (loc_coordinates ol) catalog 3000 10 = Inr as \<and>
           findNearbyStops fpu (loc_coordinates dl) catalog 3000 10 = Inr bs \<and>
           a \<in> set as \<and> b \<in> set bs \<and>
           directRouteFor fpu ol dl a b cl = Inr rd)) \<and>
   (calculateRouteWithTransfer fpu ol' dl' catalog' = Inr (Some rt) \<longrightarrow>
      (\<exists>a b t l1 l2 as bs ts.
           findNearbyStops fpu (loc_coordinates ol') catalog' 3000 10 = Inr as \<and>
           findNearbyStops fpu (loc_coordinates dl') catalog' 3000 10 = Inr bs \<and>
           terminalStops catalog' = Inr ts \<and>
           a \<in> set as \<and> b \<in> set bs \<and> t \<in> set ts \<and>
           transferRouteFor fpu ol' dl' a b t l1 l2 = Inr rt))"
proof (intro conjI impI)
  assume "directRouteFor fpu originLocation destinationLocation a b cl = Inr r"
  then show "\<exists>seg busDistance.
           segmentos r = [seg] \<and>
           paradaOrigem seg = NearParada a \<and> paradaDestino seg = NearParada b \<and>
           calculateDistance fpu (coordinates a) (coordinates b) = Inr busDistance \<and>
           distanciaOnibus fpu seg = busDistance \<and>
           tempo seg = calculateBusTime busDistance 300 \<and>
           caminhadaInicial seg =
             (if js_gt (distance a) 50
              then Some \<lparr> distancia = distance a,
                          tempo_caminhada = calculateWalkingTime (distance a) 80 \<rparr>
              else None) \<and>
           caminhadaFinal seg =
             (if js_gt (distance b) 50
              then Some \<lparr> distancia = distance b,
                          tempo_caminhada = calculateWalkingTime (distance b) 80 \<rparr>
              else None) \<and>
           tempo_total r =
             js_sum [calculateWalkingTime (distance a) 80, tempo seg,
                     calculateWalkingTime (distance b) 80,
                     Num (if stop_type a = Some ''main'' then 8 else 12)] \<and>
           distancia_total r = js_sum [distance a, busDistance, distance b] \<and>
           ((js_gt (distance a) 50 \<or> distance a = Num 0) \<and>
            (js_gt (distance b) 50 \<or> distance b = Num 0) \<longrightarrow>
              tempo_total r =
                js_sum [somaTempos r, Num (if stop_type a = Some ''main'' then 8 else 12)] \<and>
              distancia_total r = somaDistancias fpu r)"
    by (rule directRouteFor_sums)
next
  assume "transferRouteFor fpu originLocation' destinationLocation' a' b' t l1 l2 = Inr r'"
  then show "\<exists>s1 s2 leg1Distance leg2Distance.
           segmentos r' = [s1, s2] \<and>
           paradaOrigem s1 = NearParada a' \<and> paradaDestino s1 = StopParada t \<and>
           paradaOrigem s2 = StopParada t \<and> paradaDestino s2 = NearParada b' \<and>
           calculateDistance fpu (coordinates a') (coordinates t) = Inr leg1Distance \<and>
           calculateDistance fpu (coordinates t) (coordinates b') = Inr leg2Distance \<and>
           distanciaOnibus fpu s1 = leg1Distance \<and> distanciaOnibus fpu s2 = leg2Distance \<and>
           tempo s1 = calculateBusTime leg1Distance 300 \<and>
           tempo s2 = calculateBusTime leg2Distance 300 \<and>
           caminhadaInicial s1 =
             (if js_gt (distance a') 50
              then Some \<lparr> distancia = distance a',
                          tempo_caminhada = calculateWalkingTime (distance a') 80 \<rparr>
              else None) \<and>
           caminhadaFinal s1 = None \<and> caminhadaInicial s2 = None \<and>
           caminhadaFinal s2 =
             (if js_gt (distance b') 50
              then Some \<lparr> distancia = distance b',
                          tempo_caminhada = calculateWalkingTime (distance b') 80 \<rparr>
              else None) \<and>
           tempo_total r' =
             js_sum [calculateWalkingTime (distance a') 80, tempo s1, Num 15, tempo s2,
                     calculateWalkingTime (distance b') 80, Num 12] \<and>
           distancia_total r' = js_sum [distance a', leg1Distance, leg2Distance, distance b'] \<and>
           ((js_gt (distance a') 50 \<or> distance a' = Num 0) \<and>
            (js_gt (distance b') 50 \<or> distance b' = Num 0) \<longrightarrow>
              tempo_total r' = js_sum [somaTempos r', Num 15, Num 12] \<and>
              distancia_total r' = somaDistancias fpu r')"
    by (rule transferRouteFor_sums)
next
  assume "createExampleRoute fpu originLocation'' destinationLocation'' busStops = Some r''"
  then show "tempo_total r'' = js_sum [somaTempos r'', Num 10]"
    by (rule createExampleRoute_sums)
next
  assume "createExampleRoute fpu originLocation'' destinationLocation'' busStops = Some r''"
  then show "distancia_total r'' = somaDistancias fpu r''"
    by (rule createExampleRoute_sums)
next
  assume "calculateDirectRoute fpu ol dl catalog = Inr (Some rd)"
  then show "\<exists>a b cl as bs.
           findNearbyStops fpu (loc_coordinates ol) catalog 3000 10 = Inr as \<and>
           findNearbyStops fpu (loc_coordinates dl) catalog 3000 10 = Inr bs \<and>
           a \<in> set as \<and> b \<in> set bs \<and>
           directRouteFor fpu ol dl a b cl = Inr rd"
    by (rule calculateDirectRoute_Some)
next
  assume "calculateRouteWithTransfer fpu ol' dl' catalog' = Inr (Some rt)"
  then show "\<exists>a b t l1 l2 as bs ts.
           findNearbyStops fpu (loc_coordinates ol') catalog' 3000 10 = Inr as \<and>
           findNearbyStops fpu (loc_coordinates dl') catalog' 3000 10 = Inr bs \<and>
           terminalStops catalog' = Inr ts \<and>
           a \<in> set as \<and> b \<in> set bs \<and> t \<in> set ts \<and>
           transferRouteFor fpu ol' dl' a b t l1 l2 = Inr rt"
    by (rule calculateRouteWithTransfer_Some)
qed

theorem builders_totals_witness:
  "(\<exists>r. calculateDirectRoute fpuAntipoda eqOrigem eqDestino [eqParadaMeio] = Inr (Some r) \<and>
        tempo_total r = js_sum [somaTempos r, Num 12] \<and>
        distancia_total r = somaDistancias fpuAntipoda r \<and>
        map (map_option distancia \<circ> caminhadaInicial) (segmentos r)
          = [Some (Num (haversine (0, 0) (0, 1 / 80)))]) \<and>
   (\<exists>r. calculateDirectRoute fpuAntipoda eqOrigem c5Destino [c5Parada] = Inr (Some r) \<and>
        map caminhadaInicial (segmentos r) = [None] \<and>
        map caminhadaFinal (segmentos r) = [None] \<and>
        tempo_total r = js_sum [Num 1, Num 0, Num 1, Num 12]) \<and>
   (\<exists>r. calculateRouteWithTransfer fpuAntipoda eqOrigem eqDestino [eqTerminal] = Inr (Some r) \<and>
        length (segmentos r) = 2 \<and>
        tempo_total r = js_sum [somaTempos r, Num 15, Num 12] \<and>
        distancia_total r = somaDistancias fpuAntipoda r) \<and>
   (\<exists>r. createExampleRoute fpuAntipoda eqOrigem eqDestino [] = Some r \<and>
        tempo_total r = js_sum [somaTempos r, Num 10] \<and>
        distancia_total r = somaDistancias fpuAntipoda r)"
proof -
  let ?A = "withDistance eqParadaMeio (Num (haversine (0, 0) (0, 1 / 80)))"
  let ?C = "withDistance c5Parada (Num (haversine (0, 0) (0, 1 / 10000)))"
  let ?T1 = "withDistance eqTerminal (Num (haversine (0, 0) (0, 1 / 100)))"
  let ?T2 = "withDistance eqTerminal (Num (haversine (0, 1 / 40) (0, 1 / 100)))"
  let ?L = "[''0.111'', ''0.112'', ''0.113'', ''0.114'']"
  have "\<exists>r. directRouteFor fpuAntipoda eqOrigem eqDestino ?A ?A [''0.111''] = Inr r"
    by (rule directRouteFor_ok) (simp_all add: eqParadaMeio_fields)
  then obtain r1 where r1: "directRouteFor fpuAntipoda eqOrigem eqDestino ?A ?A [''0.111''] = Inr r1"
    by (elim exE)
  have "\<exists>r. directRouteFor fpuAntipoda eqOrigem c5Destino ?C ?C [''0.111''] = Inr r"
    by (rule directRouteFor_ok) (simp_all add: c5_fields)
  then obtain r4 where r4: "directRouteFor fpuAntipoda eqOrigem c5Destino ?C ?C [''0.111''] = Inr r4"
    by (elim exE)
  have "\<exists>r. transferRouteFor fpuAntipoda eqOrigem eqDestino ?T1 ?T2 eqTerminal ?L ?L = Inr r"
    by (rule transferRouteFor_ok) (simp_all add: eqTerminal_fields)
  then obtain r2 where r2: "transferRouteFor fpuAntipoda eqOrigem eqDestino ?T1 ?T2 eqTerminal ?L ?L = Inr r2"
    by (elim exE)
  obtain r3 where r3: "createExampleRoute fpuAntipoda eqOrigem eqDestino [] = Some r3"
    using createExampleRoute_eq_times [of fpuAntipoda "[]"] by (elim exE conjE)
  have farA: "js_gt (distance ?A) 50" using meio_bounds by simp
  have tyA: "stop_type ?A \<noteq> Some ''main''" by (simp add: eqParadaMeio_fields)
  have farT: "js_gt (distance ?T1) 50" "js_gt (distance ?T2) 50" using terminal_bounds by simp_all
  have nearC: "\<not> js_gt (distance ?C) 50" using esquina_bounds by simp
  have tyC: "stop_type ?C \<noteq> Some ''main''" by (simp add: c5_fields)
  have bC: "calculateDistance fpuAntipoda (coordinates ?C) (coordinates ?C) = Inr (Num 0)"
    by (simp add: calculateDistance_def c5_fields haversine_js_same)
  have wC: "calculateWalkingTime (Num (haversine (0, 0) (0, 1 / 10000))) 80 = Num 1"
    by (simp add: calculateWalkingTime_def esquina_walk)
  note bt = builders_totals [of fpuAntipoda eqOrigem eqDestino ?A ?A "[''0.111'']" r1
            eqOrigem eqDestino ?T1 ?T2 eqTerminal ?L ?L r2
            eqOrigem eqDestino "[]" r3]
  note bt' = builders_totals [of fpuAntipoda eqOrigem c5Destino ?C ?C "[''0.111'']" r4
            eqOrigem eqDestino ?T1 ?T2 eqTerminal ?L ?L r2
            eqOrigem eqDestino "[]" r3]
  note d1 = bt [THEN conjunct1, THEN mp, OF r1]
  note d4 = bt' [THEN conjunct1, THEN mp, OF r4]
  note d2 = bt [THEN conjunct2, THEN conjunct1, THEN mp, OF r2]
  note d3 = bt [THEN conjunct2, THEN conjunct2, THEN conjunct1, THEN mp, OF r3]
  from d1 obtain seg1 where s1: "segmentos r1 = [seg1]"
    and i1: "caminhadaInicial seg1 =
             (if js_gt (distance ?A) 50
              then Some \<lparr> distancia = distance ?A,
                          tempo_caminhada = calculateWalkingTime (distance ?A) 80 \<rparr>
              else None)"
    and t1: "(js_gt (distance ?A) 50 \<or> distance ?A = Num 0) \<and>
            (js_gt (distance ?A) 50 \<or> distance ?A = Num 0) \<longrightarrow>
              tempo_total r1 =
                js_sum [somaTempos r1, Num (if stop_type ?A = Some ''main'' then 8 else 12)] \<and>
              distancia_total r1 = somaDistancias fpuAntipoda r1"
    by blast
  have p1: "\<exists>r. calculateDirectRoute fpuAntipoda eqOrigem eqDestino [eqParadaMeio] = Inr (Some r) \<and>
        tempo_total r = js_sum [somaTempos r, Num 12] \<and>
        distancia_total r = somaDistancias fpuAntipoda r \<and>
        map (map_option distancia \<circ> caminhadaInicial) (segmentos r)
          = [Some (Num (haversine (0, 0) (0, 1 / 80)))]"
  proof (intro exI conjI)
    show "calculateDirectRoute fpuAntipoda eqOrigem eqDestino [eqParadaMeio] = Inr (Some r1)"
      by (simp add: calculateDirectRoute_meio r1)
    show "tempo_total r1 = js_sum [somaTempos r1, Num 12]" using t1 farA tyA by simp
    show "distancia_total r1 = somaDistancias fpuAntipoda r1" using t1 farA by simp
    show "map (map_option distancia \<circ> caminhadaInicial) (segmentos r1)
          = [Some (Num (haversine (0, 0) (0, 1 / 80)))]"
      using farA by (simp add: s1 i1)
  qed
  from d4 obtain seg4 bd4 where s4: "segmentos r4 = [seg4]"
    and b4: "calculateDistance fpuAntipoda (coordinates ?C) (coordinates ?C) = Inr bd4"
    and tb4: "tempo seg4 = calculateBusTime bd4 300"
    and i4: "caminhadaInicial seg4 =
             (if js_gt (distance ?C) 50
              then Some \<lparr> distancia = distance ?C,
                          tempo_caminhada = calculateWalkingTime (distance ?C) 80 \<rparr>
              else None)"
    and f4: "caminhadaFinal seg4 =
             (if js_gt (distance ?C) 50
              then Some \<lparr> distancia = distance ?C,
                          tempo_caminhada = calculateWalkingTime (distance ?C) 80 \<rparr>
              else None)"
    and t4: "tempo_total r4 =
             js_sum [calculateWalkingTime (distance ?C) 80, tempo seg4,
                     calculateWalkingTime (distance ?C) 80,
                     Num (if stop_type ?C = Some ''main'' then 8 else 12)]"
    by blast
  have bd4: "bd4 = Num 0" using b4 bC by simp
  have p2: "\<exists>r. calculateDirectRoute fpuAntipoda eqOrigem c5Destino [c5Parada] = Inr (Some r) \<and>
        map caminhadaInicial (segmentos r) = [None] \<and>
        map caminhadaFinal (segmentos r) = [None] \<and>
        tempo_total r = js_sum [Num 1, Num 0, Num 1, Num 12]"
  proof (intro exI conjI)
    show "calculateDirectRoute fpuAntipoda eqOrigem c5Destino [c5Parada] = Inr (Some r4)"
      by (simp add: calculateDirectRoute_esquina r4)
    show "map caminhadaInicial (segmentos r4) = [None]" using nearC by (simp add: s4 i4)
    show "map caminhadaFinal (segmentos r4) = [None]" using nearC by (simp add: s4 f4)
    show "tempo_total r4 = js_sum [Num 1, Num 0, Num 1, Num 12]"
      using tyC by (simp add: t4 tb4 bd4 wC calculateBusTime_def)
  qed
  from d2 obtain sa sb where s2: "segmentos r2 = [sa, sb]"
    and t2: "(js_gt (distance ?T1) 50 \<or> distance ?T1 = Num 0) \<and>
            (js_gt (distance ?T2) 50 \<or> distance ?T2 = Num 0) \<longrightarrow>
              tempo_total r2 = js_sum [somaTempos r2, Num 15, Num 12] \<and>
              distancia_total r2 = somaDistancias fpuAntipoda r2"
    by blast
  have p3: "\<exists>r. calculateRouteWithTransfer fpuAntipoda eqOrigem eqDestino [eqTerminal] = Inr (Some r) \<and>
        length (segmentos r) = 2 \<and>
        tempo_total r = js_sum [somaTempos r, Num 15, Num 12] \<and>
        distancia_total r = somaDistancias fpuAntipoda r"
  proof (intro exI conjI)
    show "calculateRouteWithTransfer fpuAntipoda eqOrigem eqDestino [eqTerminal] = Inr (Some r2)"
      by (simp add: calculateRouteWithTransfer_terminal r2)
    show "length (segmentos r2) = 2" by (simp add: s2)
    show "tempo_total r2 = js_sum [somaTempos r2, Num 15, Num 12]" using t2 farT by simp
    show "distancia_total r2 = somaDistancias fpuAntipoda r2" using t2 farT by simp
  qed
  have p4: "\<exists>r. createExampleRoute fpuAntipoda eqOrigem eqDestino [] = Some r \<and>
        tempo_total r = js_sum [somaTempos r, Num 10] \<and>
        distancia_total r = somaDistancias fpuAntipoda r"
    using r3 d3 by blast
  show ?thesis using p1 p2 p3 p4 by (intro conjI)
qed

section \<open>Runs on the store allocate and leave the rest alone\<close>

lemma preserves_refl: "preserves h h"
  by (simp add: preserves_def)

lemma preserves_trans: "preserves h1 h2 \<Longrightarrow> preserves h2 h3 \<Longrightarrow> preserves h1 h3"
  by (auto simp: preserves_def)

lemma allocObj_preserves:
  assumes "allocObj v h = (a, h')"
  shows "preserves h h'" and "a = nextAddr h" and "nextAddr h' = Suc a"
  using assms by (auto simp: allocObj_def preserves_def)

lemma allocArr_preserves:
  assumes "allocArr xs h = (a, h')"
  shows "preserves h h'" and "a = nextAddr h" and "nextAddr h' = Suc a"
    and "arrs h' a = Some xs" and "objs h' = objs h"
  using assms by (auto simp: allocArr_def preserves_def)

lemma sortArr_fresh:
  assumes "preserves h0 h" and "nextAddr h0 \<le> a"
  shows "preserves h0 (sortArr a h)"
  using assms by (auto simp: sortArr_def preserves_def split: option.splits)

lemma sortArr_fields:
  "nextAddr (sortArr a h) = nextAddr h" "objs (sortArr a h) = objs h"
  "set (readArr (sortArr a h) a) = set (readArr h a)"
  by (auto simp: sortArr_def readArr_def set_js_sort split: option.splits)

lemma mapDistance_st_preserves:
  "mapDistance_st fpu c rs h = (res, h') \<Longrightarrow>
     preserves h h' \<and>
     (\<forall>as. res = Inr as \<longrightarrow>
        (\<forall>a \<in> set as. nextAddr h \<le> a \<and> a < nextAddr h' \<and> (\<exists>n. objs h' a = Some (NearObj n))))"
proof (induction rs arbitrary: h res h')
  case Nil
  then show ?case by (auto simp: preserves_refl)
next
  case (Cons r rs)
  show ?case
  proof (cases "objs h r")
    case None
    with Cons.prems show ?thesis by (auto simp: preserves_refl)
  next
    case (Some v)
    show ?thesis
    proof (cases "calculateDistance fpu c (coordinates (obj_stop v))")
      case (Inl e)
      with Some Cons.prems show ?thesis by (auto simp: preserves_refl)
    next
      case (Inr d)
      obtain a h1 where al: "allocObj (NearObj (withDistance (obj_stop v) d)) h = (a, h1)"
        by (cases "allocObj (NearObj (withDistance (obj_stop v) d)) h")
      obtain res2 h2 where rec: "mapDistance_st fpu c rs h1 = (res2, h2)"
        by (cases "mapDistance_st fpu c rs h1")
      have p1: "preserves h h1" and a: "a = nextAddr h" and n1: "nextAddr h1 = Suc a"
        using allocObj_preserves [OF al] by blast+
      have oa: "objs h1 a = Some (NearObj (withDistance (obj_stop v) d))"
        using al by (auto simp: allocObj_def)
      have ih: "preserves h1 h2"
        "\<forall>as. res2 = Inr as \<longrightarrow>
           (\<forall>x \<in> set as. nextAddr h1 \<le> x \<and> x < nextAddr h2 \<and> (\<exists>n. objs h2 x = Some (NearObj n)))"
        using Cons.IH [OF rec] by auto
      have h': "h' = h2" and res: "res = (case res2 of Inl e \<Rightarrow> Inl e | Inr as \<Rightarrow> Inr (a # as))"
        using Cons.prems Some Inr al rec by (auto split: sum.splits)
      have p: "preserves h h'" using p1 ih(1) h' preserves_trans by blast
      have oa2: "objs h2 a = Some (NearObj (withDistance (obj_stop v) d))"
        using ih(1) oa n1 by (auto simp: preserves_def)
      have lt: "a < nextAddr h2" using ih(1) n1 by (auto simp: preserves_def)
      show ?thesis
        using p res ih(2) a n1 oa2 lt h' by (auto split: sum.splits)
    qed
  qed
qed

lemma findNearbyStops_st_preserves:
  assumes "findNearbyStops_st fpu coords busStops maxDistance limit h = (res, h')"
  shows "preserves h h' \<and>
         (\<forall>a. res = Inr a \<longrightarrow>
            nextAddr h \<le> a \<and> a < nextAddr h' \<and>
            (\<forall>r \<in> set (readArr h' a).
               nextAddr h \<le> r \<and> r < nextAddr h' \<and> (\<exists>n. objs h' r = Some (NearObj n))))"
proof (cases "arrs h busStops")
  case None
  with assms show ?thesis by (auto simp: findNearbyStops_st_def preserves_refl)
next
  case (Some refs)
  obtain res1 h1 where m: "mapDistance_st fpu coords refs h = (res1, h1)"
    by (cases "mapDistance_st fpu coords refs h")
  note mp = mapDistance_st_preserves [OF m]
  show ?thesis
  proof (cases res1)
    case (Inl e)
    with assms Some m mp show ?thesis by (auto simp: findNearbyStops_st_def)
  next
    case (Inr mapped)
    obtain a1 h2 where al1: "allocArr mapped h1 = (a1, h2)"
      by (cases "allocArr mapped h1")
    obtain a2 h3 where al2: "allocArr (filter (withinAt h2 maxDistance) (readArr h2 a1)) h2 = (a2, h3)"
      by (cases "allocArr (filter (withinAt h2 maxDistance) (readArr h2 a1)) h2")
    obtain a3 h5 where al3:
      "allocArr (slice0 limit (readArr (sortArr a2 h3) a2)) (sortArr a2 h3) = (a3, h5)"
      by (cases "allocArr (slice0 limit (readArr (sortArr a2 h3) a2)) (sortArr a2 h3)")
    note q1 = allocArr_preserves [OF al1]
    note q2 = allocArr_preserves [OF al2]
    note q3 = allocArr_preserves [OF al3]
    have res: "res = Inr a3" and h': "h' = h5"
      using assms Some m Inr al1 al2 al3 by (simp_all add: findNearbyStops_st_def)
    have p01: "preserves h h1" using mp by simp
    have p02: "preserves h h2" using p01 q1(1) by (rule preserves_trans)
    have p03: "preserves h h3" using p02 q2(1) by (rule preserves_trans)
    have "nextAddr h \<le> nextAddr h2" using p02 by (simp add: preserves_def)
    then have le2: "nextAddr h \<le> a2" using q2(2) by simp
    have p04: "preserves h (sortArr a2 h3)" using sortArr_fresh [OF p03 le2] .
    have p05: "preserves h h5" using p04 q3(1) by (rule preserves_trans)
    have "nextAddr h \<le> nextAddr (sortArr a2 h3)" using p04 by (simp add: preserves_def)
    then have le3: "nextAddr h \<le> a3" using q3(2) by simp
    have lt3: "a3 < nextAddr h5" using q3(3) by simp
    have r1: "readArr h2 a1 = mapped" using q1(4) by (simp add: readArr_def)
    have r2: "readArr h3 a2 = filter (withinAt h2 maxDistance) mapped"
      using q2(4) r1 by (simp add: readArr_def)
    have r3: "readArr h5 a3 = slice0 limit (readArr (sortArr a2 h3) a2)"
      using q3(4) by (simp add: readArr_def)
    have "set (readArr h5 a3) \<subseteq> set (readArr (sortArr a2 h3) a2)"
      unfolding r3 by (auto simp: slice0_def dest: in_set_takeD)
    then have sub: "set (readArr h5 a3) \<subseteq> set mapped"
      using r2 by (auto simp: sortArr_fields)
    have ob: "objs h5 = objs h1"
      using q1(5) q2(5) q3(5) by (simp add: sortArr_fields)
    have n15: "nextAddr h1 \<le> nextAddr h5"
      using q1(2,3) q2(2,3) q3(2,3) by (simp add: sortArr_fields)
    have fresh: "\<forall>r \<in> set (readArr h5 a3).
                   nextAddr h \<le> r \<and> r < nextAddr h5 \<and> (\<exists>n. objs h5 r = Some (NearObj n))"
    proof
      fix r assume "r \<in> set (readArr h5 a3)"
      then have "r \<in> set mapped" using sub by auto
      then have "nextAddr h \<le> r \<and> r < nextAddr h1 \<and> (\<exists>n. objs h1 r = Some (NearObj n))"
        using mp Inr by auto
      then show "nextAddr h \<le> r \<and> r < nextAddr h5 \<and> (\<exists>n. objs h5 r = Some (NearObj n))"
        using ob n15 by auto
    qed
    show ?thesis using p05 le3 lt3 fresh res h' by simp
  qed
qed

lemma calculateDirectRoute_st_preserves:
  "preserves h (snd (calculateDirectRoute_st fpu originLocation destinationLocation busStops h))"
proof -
  obtain r1 h1 where f1:
    "findNearbyStops_st fpu (loc_coordinates originLocation) busStops 3000 10 h = (r1, h1)"
    by (cases "findNearbyStops_st fpu (loc_coordinates originLocation) busStops 3000 10 h")
  obtain r2 h2 where f2:
    "findNearbyStops_st fpu (loc_coordinates destinationLocation) busStops 3000 10 h1 = (r2, h2)"
    by (cases "findNearbyStops_st fpu (loc_coordinates destinationLocation) busStops 3000 10 h1")
  have p1: "preserves h h1" using findNearbyStops_st_preserves [OF f1] by simp
  have p2: "preserves h1 h2" using findNearbyStops_st_preserves [OF f2] by simp
  have p12: "preserves h h2" using p1 p2 by (rule preserves_trans)
  show ?thesis
    using f1 f2 p1 p12 by (auto simp: calculateDirectRoute_st_def split: sum.splits)
qed

lemma calculateRouteWithTransfer_st_preserves:
  "preserves h (snd (calculateRouteWithTransfer_st fpu originLocation destinationLocation busStops h))"
proof -
  obtain r1 h1 where f1:
    "findNearbyStops_st fpu (loc_coordinates originLocation) busStops 3000 10 h = (r1, h1)"
    by (cases "findNearbyStops_st fpu (loc_coordinates originLocation) busStops 3000 10 h")
  obtain r2 h2 where f2:
    "findNearbyStops_st fpu (loc_coordinates destinationLocation) busStops 3000 10 h1 = (r2, h2)"
    by (cases "findNearbyStops_st fpu (loc_coordinates destinationLocation) busStops 3000 10 h1")
  have p1: "preserves h h1" using findNearbyStops_st_preserves [OF f1] by simp
  have p2: "preserves h1 h2" using findNearbyStops_st_preserves [OF f2] by simp
  have p12: "preserves h h2" using p1 p2 by (rule preserves_trans)
  have p3: "allocArr keep h2 = (a, h3) \<Longrightarrow> preserves h h3" for keep a h3
    using allocArr_preserves(1) [of keep h2 a h3] p12 preserves_trans by blast
  show ?thesis
    using f1 f2 p1 p12 p3
    by (auto simp: calculateRouteWithTransfer_st_def split: sum.splits prod.splits)
qed

lemma calculateRoutes_st_preserves:
  "preserves h (snd (calculateRoutes_st fpu originLocation destinationLocation busStops h))"
  using calculateDirectRoute_st_preserves [of h fpu originLocation destinationLocation busStops]
  by (auto simp: calculateRoutes_st_def calculateRoutes_try_st_def preserves_refl Let_def
        split: sum.splits prod.splits option.splits)

lemma js_insort_map:
  "js_insort k (g x) (map g xs) = map g (js_insort (\<lambda>x. k (g x)) x xs)"
  by (induction xs) simp_all

lemma js_sort_map: "js_sort k (map g xs) = map g (js_sort (\<lambda>x. k (g x)) xs)"
  by (induction xs) (simp_all add: js_sort_Cons js_insort_map, simp add: js_sort_def)

lemma preserves_objs: "preserves h h' \<Longrightarrow> r < nextAddr h \<Longrightarrow> objs h' r = objs h r"
  by (simp add: preserves_def)

lemma preserves_arrs: "preserves h h' \<Longrightarrow> a < nextAddr h \<Longrightarrow> arrs h' a = arrs h a"
  by (simp add: preserves_def)

lemma preserves_next: "preserves h h' \<Longrightarrow> nextAddr h \<le> nextAddr h'"
  by (simp add: preserves_def)

lemma preserves_map_objs:
  "preserves h h' \<Longrightarrow> \<forall>r \<in> set rs. r < nextAddr h \<Longrightarrow> map (objs h') rs = map (objs h) rs"
  by (simp add: preserves_def)

lemma catalogAt_preserved:
  assumes c: "catalogAt h c cat" and p: "preserves h h'"
  shows "catalogAt h' c cat"
proof -
  obtain refs where lt: "c < nextAddr h" and ar: "arrs h c = Some refs"
    and rl: "\<forall>r \<in> set refs. r < nextAddr h"
    and m: "map (objs h) refs = map (\<lambda>s. Some (StopObj s)) cat"
    using c unfolding catalogAt_def by blast
  have n: "nextAddr h \<le> nextAddr h'" using preserves_next [OF p] .
  have lt': "c < nextAddr h'" using lt n by simp
  have ar': "arrs h' c = Some refs" using preserves_arrs [OF p lt] ar by simp
  have rl': "\<forall>r \<in> set refs. r < nextAddr h'" using rl n by fastforce
  have m': "map (objs h') refs = map (\<lambda>s. Some (StopObj s)) cat"
    using preserves_map_objs [OF p rl] m by simp
  show ?thesis unfolding catalogAt_def using lt' ar' rl' m' by blast
qed

lemma nearAt_preserved: "nearAt h a ns \<Longrightarrow> preserves h h' \<Longrightarrow> nearAt h' a ns"
proof -
  assume n: "nearAt h a ns" and p: "preserves h h'"
  have a: "a < nextAddr h" using n by (simp add: nearAt_def)
  have ar: "arrs h' a = arrs h a" using preserves_arrs [OF p a] .
  then have rd: "readArr h' a = readArr h a" by (simp add: readArr_def)
  have lt: "\<forall>r \<in> set (readArr h a). r < nextAddr h" using n by (simp add: nearAt_def)
  have m: "map (objs h') (readArr h a) = map (objs h) (readArr h a)"
    using preserves_map_objs [OF p lt] .
  have lt': "\<forall>r \<in> set (readArr h a). r < nextAddr h'"
    using lt preserves_next [OF p] by fastforce
  have a': "a < nextAddr h'" using a preserves_next [OF p] by simp
  have ne: "arrs h a \<noteq> None" using n by (simp add: nearAt_def)
  have mm: "map (objs h) (readArr h a) = map (\<lambda>n. Some (NearObj n)) ns"
    using n by (simp add: nearAt_def)
  show "nearAt h' a ns"
    unfolding nearAt_def rd ar using a' lt' ne m mm by simp
qed

lemma nearStopsAt_nearAt: "nearAt h a ns \<Longrightarrow> nearStopsAt h a = ns"
proof -
  assume "nearAt h a ns"
  then have m: "map (objs h) (readArr h a) = map (\<lambda>n. Some (NearObj n)) ns"
    by (simp add: nearAt_def)
  have "map (objs h) rs = map (\<lambda>n. Some (NearObj n)) ns \<Longrightarrow>
        List.map_filter (\<lambda>r. case objs h r of Some (NearObj n) \<Rightarrow> Some n | _ \<Rightarrow> None) rs = ns"
    for rs
  proof (induction rs arbitrary: ns)
    case Nil
    then show ?case by (simp add: List.map_filter_simps)
  next
    case (Cons r rs)
    then obtain n ns' where ns: "ns = n # ns'" by (cases ns) auto
    with Cons.prems have o: "objs h r = Some (NearObj n)"
      and m: "map (objs h) rs = map (\<lambda>n. Some (NearObj n)) ns'" by simp_all
    show ?case using Cons.IH [OF m] o ns by (simp add: List.map_filter_simps)
  qed
  then show ?thesis using m by (simp add: nearStopsAt_def)
qed

section \<open>The run on the store computes the routes of the run on values\<close>

lemma withinAt_objs: "objs h = objs h' \<Longrightarrow> withinAt h = withinAt h'"
  by (auto simp: withinAt_def distanceAt_def fun_eq_iff)

lemma sortKeyAt_objs: "objs h = objs h' \<Longrightarrow> sortKeyAt h = sortKeyAt h'"
  by (auto simp: sortKeyAt_def distanceAt_def fun_eq_iff)

lemma findNearbyStops_st_result:
  assumes ar: "arrs h busStops = Some refs"
    and m: "mapDistance_st fpu coords refs h = (Inr mapped, h1)"
  shows "\<exists>a h'. findNearbyStops_st fpu coords busStops maxDistance limit h = (Inr a, h') \<and>
           objs h' = objs h1 \<and>
           arrs h' a = Some (slice0 limit (js_sort (sortKeyAt h1)
                                (filter (withinAt h1 maxDistance) mapped)))"
proof -
  obtain a1 h2 where al1: "allocArr mapped h1 = (a1, h2)"
    by (cases "allocArr mapped h1")
  obtain a2 h3 where al2: "allocArr (filter (withinAt h2 maxDistance) (readArr h2 a1)) h2 = (a2, h3)"
    by (cases "allocArr (filter (withinAt h2 maxDistance) (readArr h2 a1)) h2")
  obtain a3 h5 where al3:
    "allocArr (slice0 limit (readArr (sortArr a2 h3) a2)) (sortArr a2 h3) = (a3, h5)"
    by (cases "allocArr (slice0 limit (readArr (sortArr a2 h3) a2)) (sortArr a2 h3)")
  note q1 = allocArr_preserves [OF al1]
  note q2 = allocArr_preserves [OF al2]
  note q3 = allocArr_preserves [OF al3]
  have res: "findNearbyStops_st fpu coords busStops maxDistance limit h = (Inr a3, h5)"
    using ar m al1 al2 al3 by (simp add: findNearbyStops_st_def)
  have o2: "objs h2 = objs h1" using q1(5) .
  have o3: "objs h3 = objs h1" using q2(5) o2 by simp
  have o5: "objs h5 = objs h1" using q3(5) o3 by (simp add: sortArr_fields)
  have r1: "readArr h2 a1 = mapped" using q1(4) by (simp add: readArr_def)
  have f: "arrs h3 a2 = Some (filter (withinAt h1 maxDistance) mapped)"
    using q2(4) r1 withinAt_objs [OF o2] by simp
  have "readArr (sortArr a2 h3) a2 =
          js_sort (sortKeyAt h1) (filter (withinAt h1 maxDistance) mapped)"
    using f sortKeyAt_objs [OF o3] by (simp add: sortArr_def readArr_def)
  then have "arrs h5 a3 = Some (slice0 limit (js_sort (sortKeyAt h1)
                                (filter (withinAt h1 maxDistance) mapped)))"
    using q3(4) by simp
  then show ?thesis using res o5 by blast
qed

lemma mapDistance_st_value:
  assumes "\<forall>r \<in> set refs. r < nextAddr h"
    and "map (objs h) refs = map (\<lambda>s. Some (StopObj s)) cat"
    and "mapDistance_st fpu c refs h = (res, h')"
  shows "case mapDistance fpu c cat of
           Inl e \<Rightarrow> res = Inl e
         | Inr ns \<Rightarrow> \<exists>as. res = Inr as \<and> map (objs h') as = map (\<lambda>n. Some (NearObj n)) ns"
  using assms
proof (induction refs arbitrary: cat h res h')
  case Nil
  then show ?case by auto
next
  case (Cons r rs)
  obtain s ss where cat: "cat = s # ss" using Cons.prems(2) by (cases cat) auto
  have o: "objs h r = Some (StopObj s)" and rest: "map (objs h) rs = map (\<lambda>s. Some (StopObj s)) ss"
    using Cons.prems(2) cat by simp_all
  show ?case
  proof (cases "calculateDistance fpu c (coordinates s)")
    case (Inl e)
    then show ?thesis using Cons.prems(3) o cat by simp
  next
    case (Inr d)
    obtain a h1 where al: "allocObj (NearObj (withDistance s d)) h = (a, h1)"
      by (cases "allocObj (NearObj (withDistance s d)) h")
    obtain res2 h2 where rec: "mapDistance_st fpu c rs h1 = (res2, h2)"
      by (cases "mapDistance_st fpu c rs h1")
    note q = allocObj_preserves [OF al]
    have oa: "objs h1 a = Some (NearObj (withDistance s d))"
      using al by (auto simp: allocObj_def)
    have lt: "\<forall>x \<in> set rs. x < nextAddr h" using Cons.prems(1) by simp
    have lt1: "\<forall>x \<in> set rs. x < nextAddr h1" using lt q(2,3) by fastforce
    have rest1: "map (objs h1) rs = map (\<lambda>s. Some (StopObj s)) ss"
      using preserves_map_objs [OF q(1) lt] rest by simp
    note ih = Cons.IH [OF lt1 rest1 rec]
    have p12: "preserves h1 h2" using mapDistance_st_preserves [OF rec] by simp
    have oa2: "objs h2 a = Some (NearObj (withDistance s d))"
      using preserves_objs [OF p12, of a] q(3) oa by simp
    have res: "res = (case res2 of Inl e \<Rightarrow> Inl e | Inr as \<Rightarrow> Inr (a # as))" and h': "h' = h2"
      using Cons.prems(3) o Inr al rec by (auto split: sum.splits)
    show ?thesis
    proof (cases "mapDistance fpu c ss")
      case (Inl e)
      then have "res2 = Inl e" using ih by simp
      then show ?thesis using res Inl Inr cat by simp
    next
      case ns: (Inr ns)
      then obtain as where as: "res2 = Inr as"
        and mo: "map (objs h2) as = map (\<lambda>n. Some (NearObj n)) ns"
        using ih by auto
      show ?thesis using res as mo oa2 h' ns Inr cat by simp
    qed
  qed
qed

lemma filter_withinAt:
  "map (objs h) as = map (\<lambda>n. Some (NearObj n)) ns \<Longrightarrow>
     map (objs h) (filter (withinAt h m) as) =
       map (\<lambda>n. Some (NearObj n)) (filter (\<lambda>n. js_le (distance n) m) ns)"
proof (induction as arbitrary: ns)
  case Nil
  then show ?case by simp
next
  case (Cons a as)
  then obtain n ns' where ns: "ns = n # ns'" by (cases ns) auto
  with Cons.prems have o: "objs h a = Some (NearObj n)"
    and r: "map (objs h) as = map (\<lambda>n. Some (NearObj n)) ns'" by simp_all
  show ?case using Cons.IH [OF r] o ns by (simp add: withinAt_def distanceAt_def)
qed

lemma sort_sortKeyAt:
  assumes "map (objs h) as = map (\<lambda>n. Some (NearObj n)) ns"
  shows "map (objs h) (js_sort (sortKeyAt h) as) =
           map (\<lambda>n. Some (NearObj n)) (js_sort distance ns)"
proof -
  define k :: "obj option \<Rightarrow> jsnum" where
    "k = (\<lambda>v. case v of Some (NearObj n) \<Rightarrow> distance n | _ \<Rightarrow> NaN)"
  have e: "sortKeyAt h = (\<lambda>r. k (objs h r))"
    by (auto simp: sortKeyAt_def distanceAt_def k_def fun_eq_iff split: option.splits obj.splits)
  have "map (objs h) (js_sort (\<lambda>r. k (objs h r)) as) = js_sort k (map (objs h) as)"
    by (rule js_sort_map [symmetric])
  also have "\<dots> = js_sort k (map (\<lambda>n. Some (NearObj n)) ns)" using assms by simp
  also have "\<dots> = map (\<lambda>n. Some (NearObj n)) (js_sort (\<lambda>n. k (Some (NearObj n))) ns)"
    by (rule js_sort_map)
  also have "(\<lambda>n. k (Some (NearObj n))) = distance" by (simp add: k_def fun_eq_iff)
  finally show ?thesis by (simp add: e)
qed

lemma map_slice0: "map f (slice0 limit xs) = slice0 limit (map f xs)"
  by (simp add: slice0_def take_map)

lemma findNearbyStops_st_value:
  assumes c: "catalogAt h busStops cat"
    and f: "findNearbyStops_st fpu coords busStops m l h = (res, h')"
  shows "case findNearbyStops fpu coords cat m l of
           Inl e \<Rightarrow> res = Inl e
         | Inr ns \<Rightarrow> \<exists>a. res = Inr a \<and> nearAt h' a ns"
proof -
  obtain refs where ar: "arrs h busStops = Some refs"
    and rl: "\<forall>r \<in> set refs. r < nextAddr h"
    and mo: "map (objs h) refs = map (\<lambda>s. Some (StopObj s)) cat"
    using c unfolding catalogAt_def by blast
  obtain res1 h1 where md: "mapDistance_st fpu coords refs h = (res1, h1)"
    by (cases "mapDistance_st fpu coords refs h")
  note v = mapDistance_st_value [OF rl mo md]
  show ?thesis
  proof (cases "mapDistance fpu coords cat")
    case (Inl e)
    then have "res1 = Inl e" using v by simp
    then have "res = Inl e" using f ar md by (simp add: findNearbyStops_st_def)
    then show ?thesis using Inl by (simp add: findNearbyStops_def)
  next
    case (Inr ns0)
    then obtain as where as: "res1 = Inr as"
      and ma: "map (objs h1) as = map (\<lambda>n. Some (NearObj n)) ns0"
      using v by auto
    have md': "mapDistance_st fpu coords refs h = (Inr as, h1)" using md as by simp
    obtain a h'' where r: "findNearbyStops_st fpu coords busStops m l h = (Inr a, h'')"
      and o: "objs h'' = objs h1"
      and arr: "arrs h'' a = Some (slice0 l (js_sort (sortKeyAt h1) (filter (withinAt h1 m) as)))"
      using findNearbyStops_st_result [OF ar md', of m l] by blast
    have res: "res = Inr a" and h': "h' = h''" using f r by simp_all
    note fr = findNearbyStops_st_preserves [OF r]
    have rd: "readArr h'' a = slice0 l (js_sort (sortKeyAt h1) (filter (withinAt h1 m) as))"
      using arr by (simp add: readArr_def)
    have "map (objs h1) (js_sort (sortKeyAt h1) (filter (withinAt h1 m) as)) =
            map (\<lambda>n. Some (NearObj n)) (js_sort distance (filter (\<lambda>n. js_le (distance n) m) ns0))"
      by (rule sort_sortKeyAt) (rule filter_withinAt [OF ma])
    then have mm: "map (objs h'') (readArr h'' a) =
            map (\<lambda>n. Some (NearObj n))
              (slice0 l (js_sort distance (filter (\<lambda>n. js_le (distance n) m) ns0)))"
      by (simp add: rd o map_slice0)
    have "nearAt h'' a (slice0 l (js_sort distance (filter (\<lambda>n. js_le (distance n) m) ns0)))"
      unfolding nearAt_def using fr arr mm by simp
    then show ?thesis using Inr res h' by (simp add: findNearbyStops_def)
  qed
qed

lemma calculateDirectRoute_st_value:
  assumes c: "catalogAt h busStops cat"
  shows "fst (calculateDirectRoute_st fpu originLocation destinationLocation busStops h) =
           calculateDirectRoute fpu originLocation destinationLocation cat"
proof -
  obtain r1 h1 where f1:
    "findNearbyStops_st fpu (loc_coordinates originLocation) busStops 3000 10 h = (r1, h1)"
    by (cases "findNearbyStops_st fpu (loc_coordinates originLocation) busStops 3000 10 h")
  obtain r2 h2 where f2:
    "findNearbyStops_st fpu (loc_coordinates destinationLocation) busStops 3000 10 h1 = (r2, h2)"
    by (cases "findNearbyStops_st fpu (loc_coordinates destinationLocation) busStops 3000 10 h1")
  have p1: "preserves h h1" using findNearbyStops_st_preserves [OF f1] by simp
  have p2: "preserves h1 h2" using findNearbyStops_st_preserves [OF f2] by simp
  have c1: "catalogAt h1 busStops cat" using catalogAt_preserved [OF c p1] .
  note v1 = findNearbyStops_st_value [OF c f1]
  note v2 = findNearbyStops_st_value [OF c1 f2]
  show ?thesis
  proof (cases "findNearbyStops fpu (loc_coordinates originLocation) cat 3000 10")
    case (Inl e)
    then have "r1 = Inl e" using v1 by simp
    then show ?thesis using f1 Inl
      by (simp add: calculateDirectRoute_st_def calculateDirectRoute_def)
  next
    case n1: (Inr ns1)
    then obtain a1 where r1: "r1 = Inr a1" and na1: "nearAt h1 a1 ns1" using v1 by auto
    show ?thesis
    proof (cases "findNearbyStops fpu (loc_coordinates destinationLocation) cat 3000 10")
      case (Inl e)
      then have "r2 = Inl e" using v2 by simp
      then show ?thesis using f1 f2 r1 n1 Inl
        by (simp add: calculateDirectRoute_st_def calculateDirectRoute_def)
    next
      case n2: (Inr ns2)
      then obtain a2 where r2: "r2 = Inr a2" and na2: "nearAt h2 a2 ns2" using v2 by auto
      have "nearAt h2 a1 ns1" using nearAt_preserved [OF na1 p2] .
      then have e1: "nearStopsAt h2 a1 = ns1" by (rule nearStopsAt_nearAt)
      have e2: "nearStopsAt h2 a2 = ns2" using na2 by (rule nearStopsAt_nearAt)
      show ?thesis using f1 f2 r1 r2 n1 n2 e1 e2
        by (simp add: calculateDirectRoute_st_def calculateDirectRoute_def)
    qed
  qed
qed

lemma createExampleRoute_catalog:
  "createExampleRoute fpu originLocation destinationLocation busStops =
     createExampleRoute fpu originLocation destinationLocation otherStops"
  by (simp add: createExampleRoute_def)

lemma calculateRoutes_st_value:
  assumes c: "catalogAt h busStops cat"
  shows "fst (calculateRoutes_st fpu originLocation destinationLocation busStops h) =
           calculateRoutes fpu originLocation destinationLocation cat"
proof -
  obtain refs where ar: "arrs h busStops = Some refs"
    using c unfolding catalogAt_def by blast
  obtain rd h1 where d:
    "calculateDirectRoute_st fpu originLocation destinationLocation busStops h = (rd, h1)"
    by (cases "calculateDirectRoute_st fpu originLocation destinationLocation busStops h")
  have rd: "rd = calculateDirectRoute fpu originLocation destinationLocation cat"
    using calculateDirectRoute_st_value [OF c, of fpu originLocation destinationLocation] d by simp
  have ex: "createExampleRoute fpu originLocation destinationLocation (stopsAt hx busStops) =
              createExampleRoute fpu originLocation destinationLocation cat" for hx
    by (rule createExampleRoute_catalog)
  show ?thesis
    using ar d rd
    by (simp add: calculateRoutes_st_def calculateRoutes_try_st_def calculateRoutes_def
          calculateRoutes_try_def ex Let_def split: sum.splits option.splits)
qed

lemma catalogAt_lojaStore: "catalogAt lojaStore 2 [eqParadaMeio, eqParadaB]"
  by (simp add: catalogAt_def lojaStore_def)

lemma calculateRoutes_st_lojaStore:
  "fst (calculateRoutes_st fpu eqOrigem eqDestino 2 lojaStore) =
     calculateRoutes fpu eqOrigem eqDestino [eqParadaMeio, eqParadaB]"
  using catalogAt_lojaStore by (rule calculateRoutes_st_value)

section \<open>The catalog is left unchanged\<close>

text \<open>
  Claim C9: \<^verbatim>\<open>calculateRoutes\<close>, the direct and the transfer builder and
  \<^verbatim>\<open>findNearbyStops\<close>, run on a store that holds the catalog array and its stop objects,
  end in a store where the catalog array has the same references in the same order, every
  stop object of the catalog is as it was, and every other cell allocated before the run is
  unchanged; the array that \<^verbatim>\<open>findNearbyStops\<close> returns is not the catalog array, and the
  objects it refers to are annotated copies that are no objects of the catalog. The sort
  in \<^verbatim>\<open>findNearbyStops\<close> writes into the array that \<^verbatim>\<open>filter\<close> has just allocated.
\<close>

theorem calculateRoutes_leaves_catalog:
  assumes "busStops < nextAddr h"
    and "\<forall>r \<in> set (readArr h busStops). r < nextAddr h"
    and "h' = snd (calculateRoutes_st fpu originLocation destinationLocation busStops h) \<or>
         h' = snd (calculateDirectRoute_st fpu originLocation destinationLocation busStops h) \<or>
         h' = snd (calculateRouteWithTransfer_st fpu originLocation destinationLocation busStops h) \<or>
         h' = snd (findNearbyStops_st fpu coords busStops maxDistance limit h)"
  shows "arrs h' busStops = arrs h busStops \<and>
         (\<forall>r \<in> set (readArr h busStops). objs h' r = objs h r) \<and>
         preserves h h' \<and>
         (\<forall>a. findNearbyStops_st fpu coords busStops maxDistance limit h = (Inr a, h') \<longrightarrow>
            a \<noteq> busStops \<and>
            (\<forall>r \<in> set (readArr h' a).
               r \<notin> set (readArr h busStops) \<and> (\<exists>n. objs h' r = Some (NearObj n))))"
proof -
  obtain res hf where f: "findNearbyStops_st fpu coords busStops maxDistance limit h = (res, hf)"
    by (cases "findNearbyStops_st fpu coords busStops maxDistance limit h")
  have pf: "preserves h hf" using findNearbyStops_st_preserves [OF f] by simp
  have p: "preserves h h'"
    using assms(3) pf f
      calculateRoutes_st_preserves [of h fpu originLocation destinationLocation busStops]
      calculateDirectRoute_st_preserves [of h fpu originLocation destinationLocation busStops]
      calculateRouteWithTransfer_st_preserves [of h fpu originLocation destinationLocation busStops]
    by auto
  have c1: "arrs h' busStops = arrs h busStops"
    using preserves_arrs [OF p assms(1)] .
  have c2: "\<forall>r \<in> set (readArr h busStops). objs h' r = objs h r"
    using preserves_objs [OF p] assms(2) by simp
  have c4: "\<forall>a. findNearbyStops_st fpu coords busStops maxDistance limit h = (Inr a, h') \<longrightarrow>
            a \<noteq> busStops \<and>
            (\<forall>r \<in> set (readArr h' a).
               r \<notin> set (readArr h busStops) \<and> (\<exists>n. objs h' r = Some (NearObj n)))"
  proof (intro allI impI)
    fix a assume e: "findNearbyStops_st fpu coords busStops maxDistance limit h = (Inr a, h')"
    note fr = findNearbyStops_st_preserves [OF e]
    have a: "nextAddr h \<le> a" using fr by simp
    have rs: "\<forall>r \<in> set (readArr h' a). nextAddr h \<le> r \<and> (\<exists>n. objs h' r = Some (NearObj n))"
      using fr by simp
    have "\<forall>r \<in> set (readArr h' a). r \<notin> set (readArr h busStops)"
      using rs assms(2) by fastforce
    then show "a \<noteq> busStops \<and>
            (\<forall>r \<in> set (readArr h' a).
               r \<notin> set (readArr h busStops) \<and> (\<exists>n. objs h' r = Some (NearObj n)))"
      using a assms(1) rs by auto
  qed
  show ?thesis using c1 c2 p c4 by blast
qed

theorem calculateRoutes_leaves_catalog_witness:
  "arrs (snd (calculateRoutes_st fpuAntipoda eqOrigem eqDestino 2 lojaStore)) 2 = Some [0, 1] \<and>
   objs (snd (calculateRoutes_st fpuAntipoda eqOrigem eqDestino 2 lojaStore)) 0 = Some (StopObj eqParadaMeio) \<and>
   objs (snd (calculateRoutes_st fpuAntipoda eqOrigem eqDestino 2 lojaStore)) 1 = Some (StopObj eqParadaB)"
proof -
  have a: "2 < nextAddr lojaStore" by (simp add: lojaStore_def)
  have b: "\<forall>r \<in> set (readArr lojaStore 2). r < nextAddr lojaStore"
    by (simp add: lojaStore_def readArr_def)
  have c: "snd (calculateRoutes_st fpuAntipoda eqOrigem eqDestino 2 lojaStore)
             = snd (calculateRoutes_st fpuAntipoda eqOrigem eqDestino 2 lojaStore) \<or>
           snd (calculateRoutes_st fpuAntipoda eqOrigem eqDestino 2 lojaStore)
             = snd (calculateDirectRoute_st fpuAntipoda eqOrigem eqDestino 2 lojaStore) \<or>
           snd (calculateRoutes_st fpuAntipoda eqOrigem eqDestino 2 lojaStore)
             = snd (calculateRouteWithTransfer_st fpuAntipoda eqOrigem eqDestino 2 lojaStore) \<or>
           snd (calculateRoutes_st fpuAntipoda eqOrigem eqDestino 2 lojaStore)
             = snd (findNearbyStops_st fpuAntipoda None 2 0 0 lojaStore)"
    by simp
  have rd: "readArr lojaStore 2 = [0, 1]" by (simp add: lojaStore_def readArr_def)
  show ?thesis
    using calculateRoutes_leaves_catalog [OF a b c] rd
    by (simp add: lojaStore_def)
qed

end
